(* ===== verification/Prelude.thy ===== *)
theory Prelude
  imports Main "HOL-Library.Multiset"
begin

text \<open>
  Shared vocabulary of the GlassyNET development.  Discord snowflakes are Python
  \<open>int\<close>s and are modelled as \<^typ>\<open>int\<close>.  \<open>discord.Role\<close> and \<open>discord.Member\<close>
  compare and hash by their \<open>id\<close> only (discord.py's \<open>Hashable\<close> mixin), so a role is
  modelled by its id, and Python's \<open>set\<close> of roles by a set of ids.  The Python
  builtins the bot relies on (\<open>dict.get\<close>, \<open>dict.pop\<close>, \<open>str.join\<close>, \<open>str(int)\<close>,
  iteration over a \<open>set\<close>) are defined here once, together with the log levels of
  the \<open>logging\<close> module and the list and map lemmas the component theories share.
\<close>

named_theorems py_simps \<open>evaluation rules of the modelled Python builtins\<close>
named_theorems queue_simps \<open>rewrite rules for the role-update queue\<close>

type_synonym member_id = int
type_synonym role_id = int
type_synonym msg_id = nat
type_synonym role_table = "role_id \<rightharpoonup> string"
type_synonym role_queue = "member_id \<rightharpoonup> role_id list"

text \<open>
  The bot's diagnostics: \<open>logging\<close> records at their level, and the legacy bot's
  \<open>print\<close> lines on standard output.
\<close>

datatype log_level = INFO | WARNING | ERROR | STDOUT

type_synonym log = "(log_level \<times> string) list"

text \<open>Python exceptions that escape a handler of the bot.\<close>

datatype py_exc = IndexError | AttributeError | TypeError | ValueError

text \<open>
  The exception classes of discord.py's HTTP layer: \<open>NotFound\<close> and \<open>Forbidden\<close> are
  subclasses of \<open>HTTPException\<close>; every other failed request is a plain
  \<open>HTTPException\<close> carrying its status.
\<close>

datatype http_exc = NotFound | Forbidden | HTTPError nat

subsection \<open>Python builtins\<close>

definition dict_get :: "('k \<rightharpoonup> 'v) \<Rightarrow> 'k \<Rightarrow> 'v \<Rightarrow> 'v" where
  "dict_get d k dflt = (case d k of None \<Rightarrow> dflt | Some v \<Rightarrow> v)"

definition dict_pop :: "('k \<rightharpoonup> 'v) \<Rightarrow> 'k \<Rightarrow> 'v \<Rightarrow> 'v \<times> ('k \<rightharpoonup> 'v)" where
  "dict_pop d k dflt = (dict_get d k dflt, d(k := None))"

fun py_join :: "string \<Rightarrow> string list \<Rightarrow> string" where
  "py_join sep [] = []"
| "py_join sep [x] = x"
| "py_join sep (x # y # zs) = x @ sep @ py_join sep (y # zs)"

definition digit :: "nat \<Rightarrow> char" where
  "digit d = ''0123456789'' ! d"

fun dec_digits :: "nat \<Rightarrow> string" where
  "dec_digits n =
     (if n < 10 then [digit n] else dec_digits (n div 10) @ [digit (n mod 10)])"

definition py_str_int :: "int \<Rightarrow> string" where
  "py_str_int i = (if i < 0 then CHR ''-'' # dec_digits (nat (- i)) else dec_digits (nat i))"

text \<open>
  Python's format specification \<open>{n:,}\<close> for a non-negative int: the decimal
  digits in groups of three from the right, separated by commas; every group but
  the first has exactly three digits.
\<close>

definition pad3 :: "nat \<Rightarrow> string" where
  "pad3 k = [digit (k div 100), digit (k div 10 mod 10), digit (k mod 10)]"

fun fmt_thousands :: "nat \<Rightarrow> string" where
  "fmt_thousands n =
     (if n < 1000 then dec_digits n else fmt_thousands (n div 1000) @ '','' @ pad3 (n mod 1000))"

text \<open>Python's \<open>s.split(',')\<close>: the pieces between the commas, one more than there are commas.\<close>

fun py_split_comma :: "string \<Rightarrow> string list" where
  "py_split_comma [] = [[]]"
| "py_split_comma (c # cs) =
     (let gs = py_split_comma cs in if c = CHR '','' then [] # gs else (c # hd gs) # tl gs)"

text \<open>
  \<open>set_enum xs S\<close>: \<open>xs\<close> is an order in which Python may iterate over the set
  \<open>S\<close>.  CPython's iteration order over a set of roles depends on the hashes and on
  the table's history; the model leaves it open and every theorem below holds for
  every such order.
\<close>

definition set_enum :: "'a list \<Rightarrow> 'a set \<Rightarrow> bool" where
  "set_enum xs S \<longleftrightarrow> distinct xs \<and> set xs = S"

text \<open>The enumeration in the order of the left operand, one of the orders \<open>set_enum\<close> allows.\<close>

definition py_set_diff :: "'a list \<Rightarrow> 'a list \<Rightarrow> 'a list" where
  "py_set_diff xs ys = remdups [x \<leftarrow> xs. x \<notin> set ys]"

text \<open>
  Python's \<open>int(s)\<close> on a string, base 10: surrounding whitespace is stripped, an
  optional sign follows, then decimal digits in groups joined by single underscores;
  anything else raises \<open>ValueError\<close> (\<open>None\<close>).  Characters are the 8-bit
  \<open>char\<close>s of HOL; the whitespace set is \<open>str.isspace\<close> on code points below 256.
\<close>

definition py_whitespace :: "char \<Rightarrow> bool" where
  "py_whitespace c = (of_char c \<in> set [9, 10, 11, 12, 13, 28, 29, 30, 31, 32, 133, 160 :: nat])"

definition py_strip :: "string \<Rightarrow> string" where
  "py_strip s = rev (dropWhile py_whitespace (rev (dropWhile py_whitespace s)))"

definition is_digit :: "char \<Rightarrow> bool" where
  "is_digit c = (48 \<le> (of_char c :: nat) \<and> of_char c \<le> (57 :: nat))"

fun digit_groups :: "string \<Rightarrow> bool" where
  "digit_groups [] = False"
| "digit_groups [c] = is_digit c"
| "digit_groups (c # d # cs) =
     (is_digit c \<and> (if d = CHR ''_'' then digit_groups cs else digit_groups (d # cs)))"

definition digits_value :: "string \<Rightarrow> nat" where
  "digits_value s = foldl (\<lambda>acc c. 10 * acc + (of_char c - 48)) 0 s"

definition dec_literal :: "string \<Rightarrow> nat option" where
  "dec_literal s = (if digit_groups s then Some (digits_value [c \<leftarrow> s. c \<noteq> CHR ''_'']) else None)"

definition py_int :: "string \<Rightarrow> int option" where
  "py_int s =
     (case py_strip s of
        [] \<Rightarrow> None
      | c # cs \<Rightarrow>
          if c = CHR ''-'' then map_option (\<lambda>n. - int n) (dec_literal cs)
          else if c = CHR ''+'' then map_option int (dec_literal cs)
          else map_option int (dec_literal (c # cs)))"

declare dec_digits.simps [simp del] fmt_thousands.simps [simp del]

subsection \<open>Lemmas on the builtins\<close>

lemma dict_get_None [simp, py_simps]: "d k = None \<Longrightarrow> dict_get d k dflt = dflt"
  by (simp add: dict_get_def)

lemma dict_get_Some [simp, py_simps]: "d k = Some v \<Longrightarrow> dict_get d k dflt = v"
  by (simp add: dict_get_def)

lemma dict_get_upd [simp, py_simps]:
  "dict_get (d(k \<mapsto> v)) k' dflt = (if k' = k then v else dict_get d k' dflt)"
  by (simp add: dict_get_def)

lemma dict_get_del [simp, py_simps]:
  "dict_get (d(k := None)) k' dflt = (if k' = k then dflt else dict_get d k' dflt)"
  by (simp add: dict_get_def)

lemma py_join_Cons_Cons [py_simps]: "py_join sep (x # y # zs) = x @ sep @ py_join sep (y # zs)"
  by simp

lemma set_enum_distinct [simp]: "set_enum xs S \<Longrightarrow> distinct xs"
  by (simp add: set_enum_def)

lemma set_enum_set: "set_enum xs S \<Longrightarrow> set xs = S"
  by (simp add: set_enum_def)

lemma set_enum_mset:
  assumes "set_enum xs S" and "set_enum ys S"
  shows "mset xs = mset ys"
  using assms unfolding set_enum_def by (metis set_eq_iff_mset_eq_distinct)

lemma py_set_diff_enum: "set_enum (py_set_diff xs ys) (set xs - set ys)"
  unfolding set_enum_def py_set_diff_def by auto

lemma set_enum_self: "distinct xs \<Longrightarrow> set_enum xs (set xs)"
  unfolding set_enum_def by simp

lemma filter_mset_cong_set:
  assumes "mset xs = mset ys"
  shows "set [x \<leftarrow> xs. P x] = set [x \<leftarrow> ys. P x]"
  by (metis assms mset_eq_setD mset_filter)

lemma filter_empty_mset:
  assumes "mset xs = mset ys"
  shows "([x \<leftarrow> xs. P x] = []) = ([x \<leftarrow> ys. P x] = [])"
  using filter_mset_cong_set [OF assms, of P] by (metis set_empty)

lemma distinct_append_filter_not_in:
  "distinct xs \<Longrightarrow> distinct ys \<Longrightarrow> distinct (xs @ [y \<leftarrow> ys. y \<notin> set xs])"
  by auto

lemma zip_map_same: "zip (map f xs) (map g xs) = map (\<lambda>x. (f x, g x)) xs"
  by (induction xs) auto

lemma butlast_two: "2 \<le> length xs \<Longrightarrow> butlast xs \<noteq> []"
  by (cases xs) auto

lemma digit_mem: "d < 10 \<Longrightarrow> digit d \<in> set ''0123456789''"
  unfolding digit_def by (rule nth_mem) simp

lemma comma_not_digit [simp]: "d < 10 \<Longrightarrow> CHR '','' \<noteq> digit d"
  using digit_mem [of d] by auto

lemma digit_not_comma [simp]: "d < 10 \<Longrightarrow> digit d \<noteq> CHR '',''"
  using digit_mem [of d] by auto

lemma mod_1000_div_100: "(n::nat) mod 1000 div 100 = n div 100 mod 10"
proof -
  have "n mod 1000 = 100 * (n div 100 mod 10) + n mod 100"
    using mod_mult2_eq [of n 100 10] by simp
  then show ?thesis by simp
qed

lemma mod_1000_div_10: "(n::nat) mod 1000 div 10 mod 10 = n div 10 mod 10"
proof -
  have "n mod 1000 = 10 * (n div 10 mod 100) + n mod 10"
    using mod_mult2_eq [of n 10 100] by simp
  then have "n mod 1000 div 10 = n div 10 mod 100" by simp
  then show ?thesis by (simp add: mod_mod_cancel)
qed

lemma dec_digits_no_comma [simp]: "CHR '','' \<notin> set (dec_digits n)"
proof (induction n rule: dec_digits.induct)
  case (1 n)
  then show ?case
    by (subst dec_digits.simps) auto
qed

lemma dec_digits_step: "10 \<le> n \<Longrightarrow> dec_digits n = dec_digits (n div 10) @ [digit (n mod 10)]"
  by (subst dec_digits.simps) simp

lemma dec_digits_thousands:
  assumes "1000 \<le> n"
  shows "dec_digits n = dec_digits (n div 1000) @ pad3 (n mod 1000)"
proof -
  have a: "n div 10 div 10 = n div 100" and b: "n div 100 div 10 = n div 1000"
    by (simp_all add: div_mult2_eq [symmetric])
  have e: "n mod 1000 mod 10 = n mod 10"
    by (simp add: mod_mod_cancel)
  have "dec_digits n = dec_digits (n div 10) @ [digit (n mod 10)]"
    using assms by (simp add: dec_digits_step)
  also have "dec_digits (n div 10) = dec_digits (n div 100) @ [digit (n div 10 mod 10)]"
    using assms dec_digits_step [of "n div 10"] a by simp
  also have "dec_digits (n div 100) = dec_digits (n div 1000) @ [digit (n div 100 mod 10)]"
    using assms dec_digits_step [of "n div 100"] b by simp
  finally show ?thesis
    by (simp add: pad3_def mod_1000_div_100 mod_1000_div_10 e)
qed

lemma zip_map_right: "zip xs (map f xs) = map (\<lambda>x. (x, f x)) xs"
  by (induction xs) auto

lemma fmt_thousands_digits: "[c \<leftarrow> fmt_thousands n. c \<noteq> CHR '',''] = dec_digits n"
proof (induction n rule: fmt_thousands.induct)
  case (1 n)
  show ?case
  proof (cases "n < 1000")
    case True
    have "\<forall>c \<in> set (dec_digits n). c \<noteq> CHR '',''"
      using dec_digits_no_comma [of n] by blast
    with True show ?thesis
      by (simp add: fmt_thousands.simps [of n])
  next
    case False
    have small: "n mod 1000 div 100 < 10" "n mod 1000 div 10 mod 10 < 10" "n mod 1000 mod 10 < 10"
      by simp_all
    have "[c \<leftarrow> pad3 (n mod 1000). c \<noteq> CHR '',''] = pad3 (n mod 1000)"
      using small by (simp add: pad3_def)
    with False "1.IH" show ?thesis
      by (simp add: fmt_thousands.simps [of n] dec_digits_thousands)
  qed
qed


subsection \<open>\<open>int\<close> reads back \<open>str\<close>\<close>

lemma digit_char: "d < 10 \<Longrightarrow> of_char (digit d) = 48 + d"
  by (auto simp: digit_def numeral_eq_Suc less_Suc_eq)

lemma digit_is_digit [simp]: "d < 10 \<Longrightarrow> is_digit (digit d)"
  by (simp add: is_digit_def digit_char)

lemma digit_not_space [simp]: "d < 10 \<Longrightarrow> \<not> py_whitespace (digit d)"
  by (auto simp: py_whitespace_def digit_char)

lemma dec_digits_snoc: "\<exists>ds. dec_digits n = ds @ [digit (n mod 10)] \<and> list_all is_digit ds"
proof (induction n rule: dec_digits.induct)
  case (1 n)
  show ?case
  proof (cases "n < 10")
    case True
    then show ?thesis by (simp add: dec_digits.simps [of n])
  next
    case False
    then obtain ds where "dec_digits (n div 10) = ds @ [digit (n div 10 mod 10)]" "list_all is_digit ds"
      using "1.IH" by blast
    with False show ?thesis
      by (simp add: dec_digits.simps [of n])
  qed
qed

lemma dec_digits_all_digits: "list_all is_digit (dec_digits n)"
  using dec_digits_snoc [of n] by auto

lemma dec_digits_hd: "\<exists>c cs. dec_digits n = c # cs \<and> is_digit c"
  using dec_digits_all_digits [of n] dec_digits_snoc [of n] by (cases "dec_digits n") auto

lemma digit_groups_digits: "xs \<noteq> [] \<Longrightarrow> list_all is_digit xs \<Longrightarrow> digit_groups xs"
  by (induction xs rule: digit_groups.induct) (auto simp: is_digit_def)

lemma digits_no_underscore: "list_all is_digit xs \<Longrightarrow> [c \<leftarrow> xs. c \<noteq> CHR ''_''] = xs"
  by (induction xs) (auto simp: is_digit_def)

lemma digits_value_dec_digits: "digits_value (dec_digits n) = n"
proof (induction n rule: dec_digits.induct)
  case (1 n)
  show ?case
  proof (cases "n < 10")
    case True
    then show ?thesis by (simp add: dec_digits.simps [of n] digits_value_def digit_char)
  next
    case False
    then have "digits_value (dec_digits n) = 10 * digits_value (dec_digits (n div 10)) + n mod 10"
      by (simp add: dec_digits.simps [of n] digits_value_def digit_char)
    with False "1.IH" show ?thesis
      by simp
  qed
qed

lemma no_space_strip:
  assumes "list_all (\<lambda>c. \<not> py_whitespace c) xs"
  shows "py_strip xs = xs"
proof -
  have "dropWhile py_whitespace ys = ys" if "list_all (\<lambda>c. \<not> py_whitespace c) ys" for ys
    using that by (cases ys) auto
  with assms show ?thesis
    by (simp add: py_strip_def)
qed

lemma dec_literal_dec_digits [simp]: "dec_literal (dec_digits n) = Some n"
  using dec_digits_all_digits [of n] dec_digits_hd [of n]
  by (auto simp: dec_literal_def digit_groups_digits digits_no_underscore digits_value_dec_digits)

lemma dec_digits_no_space: "list_all (\<lambda>c. \<not> py_whitespace c) (dec_digits n)"
  using dec_digits_all_digits [of n]
  by (auto simp: list_all_iff is_digit_def py_whitespace_def)

lemma py_int_str [simp]: "py_int (py_str_int i) = Some i"
proof -
  obtain c cs where hd: "dec_digits (nat \<bar>i\<bar>) = c # cs" "is_digit c"
    using dec_digits_hd by blast
  have sign: "c \<noteq> CHR ''-''" "c \<noteq> CHR ''+''"
    using hd(2) by (auto simp: is_digit_def)
  show ?thesis
  proof (cases "i < 0")
    case True
    have "py_strip (py_str_int i) = CHR ''-'' # dec_digits (nat (- i))"
      using True dec_digits_no_space [of "nat (- i)"]
      by (simp add: py_str_int_def no_space_strip py_whitespace_def)
    with True show ?thesis
      by (simp add: py_int_def)
  next
    case False
    have "py_strip (py_str_int i) = dec_digits (nat i)"
      using False dec_digits_no_space [of "nat i"] by (simp add: py_str_int_def no_space_strip)
    moreover have "dec_literal (c # cs) = Some (nat i)"
      using hd(1) False dec_literal_dec_digits [of "nat i"] by simp
    ultimately show ?thesis
      using False hd(1) sign by (simp add: py_int_def)
  qed
qed


subsection \<open>The groups of \<open>{n:,}\<close>\<close>

lemma py_split_comma_ne [simp]: "py_split_comma s \<noteq> []"
  by (induction s) (simp_all add: Let_def)

lemma py_split_comma_none: "CHR '','' \<notin> set s \<Longrightarrow> py_split_comma s = [s]"
  by (induction s) (auto simp: Let_def)

lemma py_split_comma_sep: "py_split_comma (xs @ CHR '','' # ys) = py_split_comma xs @ py_split_comma ys"
  by (induction xs) (simp_all add: Let_def hd_append2 tl_append2)

lemma concat_py_split_comma: "concat (py_split_comma s) = [c \<leftarrow> s. c \<noteq> CHR '','']"
proof (induction s)
  case Nil
  then show ?case by simp
next
  case (Cons c s)
  have "hd (py_split_comma s) @ concat (tl (py_split_comma s)) = concat (py_split_comma s)"
    by (cases "py_split_comma s") simp_all
  with Cons show ?case by (simp add: Let_def)
qed

lemma dec_digits_small: "n < 10 \<Longrightarrow> dec_digits n = [digit n]"
  by (simp add: dec_digits.simps)

lemma dec_digits_length_1000: "n < 1000 \<Longrightarrow> 1 \<le> length (dec_digits n) \<and> length (dec_digits n) \<le> 3"
proof -
  assume n: "n < 1000"
  have "1 \<le> length (dec_digits n)"
    using dec_digits_hd [of n] by auto
  moreover consider "n < 10" | "10 \<le> n" "n div 10 < 10" | "10 \<le> n" "10 \<le> n div 10" "n div 10 div 10 < 10"
    using n by linarith
  then have "length (dec_digits n) \<le> 3"
    by cases (simp_all add: dec_digits_small dec_digits_step [of n] dec_digits_step [of "n div 10"])
  ultimately show ?thesis ..
qed

lemma pad3_no_comma: "k < 1000 \<Longrightarrow> CHR '','' \<notin> set (pad3 k)"
  by (simp add: pad3_def div_less_iff_less_mult)

lemma fmt_thousands_split:
  "py_split_comma (fmt_thousands n) =
     (if n < 1000 then [dec_digits n] else py_split_comma (fmt_thousands (n div 1000)) @ [pad3 (n mod 1000)])"
  by (simp add: fmt_thousands.simps [of n] py_split_comma_sep py_split_comma_none pad3_no_comma)

lemma fmt_thousands_groups:
  "1 \<le> length (hd (py_split_comma (fmt_thousands n))) \<and> length (hd (py_split_comma (fmt_thousands n))) \<le> 3 \<and>
   list_all (\<lambda>g. length g = 3) (tl (py_split_comma (fmt_thousands n)))"
proof (induction n rule: fmt_thousands.induct)
  case (1 n)
  show ?case
  proof (cases "n < 1000")
    case True
    with dec_digits_length_1000 [of n] show ?thesis by (simp add: fmt_thousands_split)
  next
    case False
    with "1.IH" show ?thesis
      by (simp add: fmt_thousands_split [of n] hd_append2 tl_append2 pad3_def)
  qed
qed

end
