(* ===== verification/Queue.thy ===== *)
theory Queue
  imports Prelude
begin

text \<open>
  The coalescing queue of \<open>RoleManagerBot\<close> (src/bot/bot_class.py): the static
  table \<open>role_to_channel\<close> (lines 23--28), the process-wide dict
  \<open>role_update_queue\<close> (line 29) from member ids to the roles granted and not yet
  announced, the synchronous part of the handler \<open>on_member_update\<close> (lines 125--146:
  everything up to the \<open>create_task\<close>, which the scheduler theory performs) and the
  \<open>pop\<close> of \<open>process_role_queue\<close> (line 121).  Under asyncio nothing between the
  \<open>get\<close> on line 138 and the \<open>create_task\<close> on line 144 suspends, so the handler
  is one atomic step; it returns the new queue and whether it spawns the settling
  timer.  The abstract contract of the component is a map from members to
  \<^emph>\<open>sets\<close> of pending roles, with enqueue as union and drain as reset.
\<close>

definition role_to_channel :: role_table where
  "role_to_channel =
     [380725404262072320 \<mapsto> ''1200047665442979860'',
      393044988411379742 \<mapsto> ''1195736480950276196'',
      380725142608674816 \<mapsto> ''1195734262792605846'',
      380724874236395520 \<mapsto> ''1195452480687964344'']"

text \<open>Line 135: the new roles that have an entry in the table, in iteration order.\<close>

definition added_roles :: "role_table \<Rightarrow> role_id list \<Rightarrow> role_id list" where
  "added_roles tbl new_roles = [r \<leftarrow> new_roles. tbl r \<noteq> None]"

text \<open>Line 139: the added roles not already queued (role equality is id equality).\<close>

definition unique_roles :: "role_id list \<Rightarrow> role_id list \<Rightarrow> role_id list" where
  "unique_roles added queued = [r \<leftarrow> added. r \<notin> set queued]"

text \<open>
  Lines 133--144.  \<open>new_roles\<close> is the iteration order of
  \<open>set(after.roles) - set(before.roles)\<close>.  The spawn test of line 143 reads
  \<open>len(queued_roles)\<close> \<^emph>\<open>after\<close> the \<open>extend\<close> of line 142: when the key was present,
  \<open>queued_roles\<close> is the very list object stored in the dict and has just been
  extended; when it was absent, \<open>get\<close> returned a fresh empty list that
  \<open>setdefault\<close> did not store.
\<close>

definition on_member_update ::
  "role_table \<Rightarrow> role_queue \<Rightarrow> member_id \<Rightarrow> role_id list \<Rightarrow> role_queue \<times> bool" where
  "on_member_update tbl q m new_roles =
     (let added = added_roles tbl new_roles in
      if added = [] then (q, False)
      else
        let queued = dict_get q m [];
            unique = unique_roles added queued in
        if unique = [] then (q, False)
        else
          let q' = q(m \<mapsto> dict_get q m [] @ unique);
              queued_len = (case q m of None \<Rightarrow> 0 | Some xs \<Rightarrow> length (xs @ unique))
          in (q', queued_len = 0))"

text \<open>Line 121, \<open>self.role_update_queue.pop(member.id, [])\<close>.\<close>

definition process_role_queue :: "role_queue \<Rightarrow> member_id \<Rightarrow> role_id list \<times> role_queue" where
  "process_role_queue q m = dict_pop q m []"

text \<open>
  The invariant of the queue: every entry is a non-empty list of distinct roles
  that all have a destination in the table.
\<close>

definition queue_inv :: "role_table \<Rightarrow> role_queue \<Rightarrow> bool" where
  "queue_inv tbl q \<longleftrightarrow>
     (\<forall>m xs. q m = Some xs \<longrightarrow> xs \<noteq> [] \<and> distinct xs \<and> (\<forall>r \<in> set xs. tbl r \<noteq> None))"

subsection \<open>Abstract specification\<close>

text \<open>The pending set of each member, and the contract of enqueue and drain on it.\<close>

definition abs_queue :: "role_queue \<Rightarrow> member_id \<Rightarrow> role_id set" where
  "abs_queue q m = set (dict_get q m [])"

definition abs_enqueue ::
  "role_table \<Rightarrow> (member_id \<Rightarrow> role_id set) \<Rightarrow> member_id \<Rightarrow> role_id set \<Rightarrow> member_id \<Rightarrow> role_id set" where
  "abs_enqueue tbl P m S = P(m := P m \<union> {r \<in> S. tbl r \<noteq> None})"

definition abs_drain ::
  "(member_id \<Rightarrow> role_id set) \<Rightarrow> member_id \<Rightarrow> role_id set \<times> (member_id \<Rightarrow> role_id set)" where
  "abs_drain P m = (P m, P(m := {}))"

subsection \<open>The three branches of the handler\<close>

lemma on_member_update_no_added [queue_simps]:
  "added_roles tbl nr = [] \<Longrightarrow> on_member_update tbl q m nr = (q, False)"
  by (simp add: on_member_update_def)

lemma unique_roles_Nil_added [simp]: "unique_roles [] qd = []"
  by (simp add: unique_roles_def)

lemma on_member_update_duplicate [queue_simps]:
  "unique_roles (added_roles tbl nr) (dict_get q m []) = [] \<Longrightarrow>
   on_member_update tbl q m nr = (q, False)"
  by (simp add: on_member_update_def Let_def)

lemma on_member_update_append [queue_simps]:
  assumes "unique_roles (added_roles tbl nr) (dict_get q m []) \<noteq> []"
  shows "on_member_update tbl q m nr =
           (q(m \<mapsto> dict_get q m [] @ unique_roles (added_roles tbl nr) (dict_get q m [])),
            q m = None)"
proof -
  have "added_roles tbl nr \<noteq> []"
    using assms by auto
  with assms show ?thesis
    by (auto simp: on_member_update_def Let_def split: option.splits)
qed

lemmas on_member_update_cases =
  on_member_update_no_added on_member_update_duplicate on_member_update_append


lemma unique_roles_Nil_queued [simp]: "unique_roles added [] = added"
  by (simp add: unique_roles_def)

lemma set_unique_roles [simp]: "set (unique_roles added queued) = set added - set queued"
  by (auto simp: unique_roles_def)

lemma set_added_roles [simp]: "set (added_roles tbl nr) = {r \<in> set nr. tbl r \<noteq> None}"
  by (auto simp: added_roles_def)

lemma abs_queue_upd [simp]: "abs_queue (q(m \<mapsto> xs)) = (abs_queue q)(m := set xs)"
  by (simp add: abs_queue_def fun_eq_iff)

lemma abs_queue_del [simp]: "abs_queue (q(m := None)) = (abs_queue q)(m := {})"
  by (simp add: abs_queue_def fun_eq_iff)

subsection \<open>Functional behaviour of the handler\<close>

lemma on_member_update_spawn_iff:
  "snd (on_member_update tbl q m nr) \<longleftrightarrow> q m = None \<and> added_roles tbl nr \<noteq> []"
proof (cases "unique_roles (added_roles tbl nr) (dict_get q m []) = []")
  case True
  then have "q m = None \<longrightarrow> added_roles tbl nr = []"
    by auto
  with True show ?thesis
    by (auto simp: on_member_update_duplicate)
next
  case False
  then have "added_roles tbl nr \<noteq> []"
    by auto
  with False show ?thesis
    by (simp add: on_member_update_append)
qed

text \<open>
  C1. The handler spawns the settling timer exactly when the member had no entry in
  the queue and the event grants at least one role of the table: the
  empty-to-non-empty transition, and nothing else.
\<close>

theorem on_member_update_spawn:
  "snd (on_member_update tbl q m nr) \<longleftrightarrow> q m = None \<and> added_roles tbl nr \<noteq> []"
  by (rule on_member_update_spawn_iff)

lemma on_member_update_pending_list:
  "dict_get (fst (on_member_update tbl q m nr)) m [] =
     dict_get q m [] @ unique_roles (added_roles tbl nr) (dict_get q m [])"
  by (cases "unique_roles (added_roles tbl nr) (dict_get q m []) = []")
     (simp_all add: on_member_update_duplicate on_member_update_append)

text \<open>
  C2. The pending list of the member after the handler is the old one with the
  eligible, not yet queued roles appended in arrival order, on every branch.
\<close>

theorem on_member_update_pending:
  "dict_get (fst (on_member_update tbl q m nr)) m [] =
     dict_get q m [] @ unique_roles (added_roles tbl nr) (dict_get q m [])"
  by (rule on_member_update_pending_list)

lemma on_member_update_other [queue_simps]:
  "m' \<noteq> m \<Longrightarrow> fst (on_member_update tbl q m nr) m' = q m'"
  by (cases "unique_roles (added_roles tbl nr) (dict_get q m []) = []")
     (simp_all add: on_member_update_duplicate on_member_update_append)

lemma on_member_update_dom [queue_simps]:
  "dom (fst (on_member_update tbl q m nr)) =
     (if unique_roles (added_roles tbl nr) (dict_get q m []) = [] then dom q else insert m (dom q))"
  by (simp add: on_member_update_duplicate on_member_update_append)

subsection \<open>The invariant\<close>

lemma queue_invD:
  assumes "queue_inv tbl q" and "q m = Some xs"
  shows "xs \<noteq> []" and "distinct xs" and "\<And>r. r \<in> set xs \<Longrightarrow> tbl r \<noteq> None"
  using assms by (auto simp: queue_inv_def)

lemma queue_inv_empty [simp]: "queue_inv tbl Map.empty"
  by (simp add: queue_inv_def)

lemma queue_inv_del [queue_simps]: "queue_inv tbl q \<Longrightarrow> queue_inv tbl (q(m := None))"
  by (simp add: queue_inv_def)

lemma queue_inv_dict_get:
  "queue_inv tbl q \<Longrightarrow> distinct (dict_get q m []) \<and> (\<forall>r \<in> set (dict_get q m []). tbl r \<noteq> None)"
  by (cases "q m") (auto simp: queue_inv_def)

lemma queue_inv_upd [queue_simps]:
  assumes "queue_inv tbl q" and "xs \<noteq> []" and "distinct xs" and "\<forall>r \<in> set xs. tbl r \<noteq> None"
  shows "queue_inv tbl (q(m \<mapsto> xs))"
  using assms unfolding queue_inv_def by auto

lemma distinct_pending_append:
  "distinct xs \<Longrightarrow> distinct nr \<Longrightarrow> distinct (xs @ unique_roles (added_roles tbl nr) xs)"
  unfolding unique_roles_def by (rule distinct_append_filter_not_in) (simp_all add: added_roles_def)

lemma on_member_update_keeps_inv:
  assumes inv: "queue_inv tbl q" and dist: "distinct nr"
  shows "queue_inv tbl (fst (on_member_update tbl q m nr))"
proof (cases "unique_roles (added_roles tbl nr) (dict_get q m []) = []")
  case True
  with inv show ?thesis
    by (simp add: on_member_update_duplicate)
next
  case False
  let ?xs = "dict_get q m [] @ unique_roles (added_roles tbl nr) (dict_get q m [])"
  have eq: "fst (on_member_update tbl q m nr) = q(m \<mapsto> ?xs)"
    using False by (simp add: on_member_update_append)
  have old: "distinct (dict_get q m [])" "\<forall>r \<in> set (dict_get q m []). tbl r \<noteq> None"
    using queue_inv_dict_get [OF inv, of m] by simp_all
  have "distinct ?xs"
    using old(1) dist by (rule distinct_pending_append)
  moreover have "\<forall>r \<in> set ?xs. tbl r \<noteq> None"
    using old(2) by auto
  moreover have "?xs \<noteq> []"
    using False by simp
  ultimately show ?thesis
    unfolding eq using inv by (blast intro: queue_inv_upd)
qed

text \<open>
  C3. The handler keeps the queue invariant when the new roles are enumerated
  without repetition, as iterating over a Python set does.
\<close>

theorem on_member_update_inv:
  assumes inv: "queue_inv tbl q" and dist: "distinct nr"
  shows "queue_inv tbl (fst (on_member_update tbl q m nr))"
  using assms by (rule on_member_update_keeps_inv)

theorem on_member_update_inv_witness:
  "queue_inv role_to_channel Map.empty \<and> distinct [380725404262072320, 7 :: int] \<and>
   queue_inv role_to_channel
     (fst (on_member_update role_to_channel Map.empty 5 [380725404262072320, 7]))"
  using on_member_update_inv [of role_to_channel Map.empty "[380725404262072320, 7]" 5]
  by simp

lemma process_role_queue_inv [queue_simps]:
  "queue_inv tbl q \<Longrightarrow> queue_inv tbl (snd (process_role_queue q m))"
  by (simp add: process_role_queue_def dict_pop_def queue_inv_del)

subsection \<open>Refinement of the abstract contract\<close>

lemma on_member_update_abs:
  "abs_queue (fst (on_member_update tbl q m nr)) = abs_enqueue tbl (abs_queue q) m (set nr)"
proof (cases "unique_roles (added_roles tbl nr) (dict_get q m []) = []")
  case True
  then have "set (added_roles tbl nr) \<subseteq> set (dict_get q m [])"
    by (metis set_unique_roles set_empty Diff_eq_empty_iff)
  then have "{r \<in> set nr. tbl r \<noteq> None} \<subseteq> abs_queue q m"
    by (simp add: abs_queue_def)
  with True show ?thesis
    by (simp add: on_member_update_duplicate abs_enqueue_def Un_absorb2)
next
  case False
  then show ?thesis
    by (auto simp: on_member_update_append abs_enqueue_def abs_queue_def)
qed

text \<open>
  C4. Enqueueing refines the abstract contract: the pending sets after the handler
  are the old ones with the eligible new roles added to the member's set, whatever
  the state of the queue.
\<close>

theorem on_member_update_refines:
  "abs_queue (fst (on_member_update tbl q m nr)) = abs_enqueue tbl (abs_queue q) m (set nr)"
  by (rule on_member_update_abs)

text \<open>Draining refines the abstract drain: it returns the member's set and resets it.\<close>

lemma process_role_queue_refines:
  "map_prod set abs_queue (process_role_queue q m) = abs_drain (abs_queue q) m"
  by (simp add: process_role_queue_def dict_pop_def abs_drain_def abs_queue_def)

text \<open>
  C5. A repeated signal is a no-op: handling the same grant again before the
  flush leaves the queue as it is and spawns nothing.
\<close>

theorem on_member_update_idem:
  "on_member_update tbl (fst (on_member_update tbl q m nr)) m nr =
     (fst (on_member_update tbl q m nr), False)"
proof -
  let ?q' = "fst (on_member_update tbl q m nr)"
  have "set (added_roles tbl nr) \<subseteq> set (dict_get ?q' m [])"
    by (auto simp: on_member_update_pending_list)
  then have "unique_roles (added_roles tbl nr) (dict_get ?q' m []) = []"
    by (auto simp: unique_roles_def filter_empty_conv)
  then show ?thesis
    by (rule on_member_update_duplicate)
qed

text \<open>
  C6. The result does not depend on the order in which Python iterates over the set
  of new roles: two enumerations of the same set give the same pending sets and
  the same spawn decision.
\<close>

theorem on_member_update_order_independent:
  assumes "set_enum nr1 S" and "set_enum nr2 S"
  shows "abs_queue (fst (on_member_update tbl q m nr1)) = abs_queue (fst (on_member_update tbl q m nr2))
         \<and> snd (on_member_update tbl q m nr1) = snd (on_member_update tbl q m nr2)"
proof -
  have ms: "mset nr1 = mset nr2"
    using assms by (rule set_enum_mset)
  then have "set nr1 = set nr2"
    by (rule mset_eq_setD)
  moreover have "(added_roles tbl nr1 = []) = (added_roles tbl nr2 = [])"
    unfolding added_roles_def using ms by (rule filter_empty_mset)
  ultimately show ?thesis
    by (simp add: on_member_update_abs on_member_update_spawn_iff)
qed

theorem on_member_update_order_independent_witness:
  "set_enum [380725404262072320, 7] {380725404262072320, 7 :: int} \<and>
   set_enum [7, 380725404262072320] {380725404262072320, 7 :: int} \<and>
   abs_queue (fst (on_member_update role_to_channel Map.empty 5 [380725404262072320, 7])) =
     abs_queue (fst (on_member_update role_to_channel Map.empty 5 [7, 380725404262072320])) \<and>
   snd (on_member_update role_to_channel Map.empty 5 [380725404262072320, 7]) =
     snd (on_member_update role_to_channel Map.empty 5 [7, 380725404262072320])"
proof -
  have e1: "set_enum [380725404262072320, 7] {380725404262072320, 7 :: int}"
    by (simp add: set_enum_def)
  have e2: "set_enum [7, 380725404262072320] {380725404262072320, 7 :: int}"
    by (simp add: set_enum_def insert_commute)
  show ?thesis
    using e1 e2 on_member_update_order_independent [OF e1 e2, of role_to_channel Map.empty 5]
    by simp
qed

end
