(* ===== verification/Calendar.thy ===== *)
theory Calendar
  imports Prelude "HOL-Library.Monad_Syntax"
begin

text \<open>
  Python's \<open>datetime\<close> in UTC, as far as the verification footer uses it
  (src/bot/verification.py lines 58--60): an instant is a number of whole seconds since
  the Unix epoch (\<open>strftime\<close> prints no fraction), its fields are those of the
  proleptic Gregorian calendar, and \<open>strftime('%Y-%m-%d %H:%M:%S')\<close> prints them
  with fixed widths.  Python's years stop at \<open>MAXYEAR = 9999\<close>, so \<open>%Y\<close> prints
  four digits for every year from 1970.  The fields follow C's \<open>struct tm\<close>, whose
  names Python's \<open>time.struct_time\<close> keeps.  \<open>civil_year\<close> and \<open>civil_month\<close>
  count the days off year by year and month by month; \<open>epoch_of\<close> is their
  inverse, and \<open>parse_ymdhms\<close> reads a printed stamp back.
\<close>

subsection \<open>The calendar\<close>

definition leap_year :: "nat \<Rightarrow> bool" where
  "leap_year y \<longleftrightarrow> 4 dvd y \<and> (\<not> 100 dvd y \<or> 400 dvd y)"

definition year_days :: "nat \<Rightarrow> nat" where
  "year_days y = (if leap_year y then 366 else 365)"

definition month_days :: "nat \<Rightarrow> nat \<Rightarrow> nat" where
  "month_days y m =
     (if m = 2 then (if leap_year y then 29 else 28)
      else if m = 4 \<or> m = 6 \<or> m = 9 \<or> m = 11 then 30 else 31)"

function civil_year :: "nat \<Rightarrow> nat \<Rightarrow> nat \<times> nat" where
  "civil_year y d = (if d < year_days y then (y, d) else civil_year (Suc y) (d - year_days y))"
  by pat_completeness auto
termination by (relation "measure snd") (auto simp: year_days_def)

function civil_month :: "nat \<Rightarrow> nat \<Rightarrow> nat \<Rightarrow> nat \<times> nat" where
  "civil_month y m d =
     (if m < 12 \<and> month_days y m \<le> d then civil_month y (Suc m) (d - month_days y m) else (m, d))"
  by pat_completeness auto
termination by (relation "measure (\<lambda>(y, m, d). 12 - m)") auto

declare civil_year.simps [simp del] civil_month.simps [simp del]

record utc_time =
  tm_year :: nat
  tm_mon :: nat
  tm_mday :: nat
  tm_hour :: nat
  tm_min :: nat
  tm_sec :: nat

definition utc_of :: "nat \<Rightarrow> utc_time" where
  "utc_of t =
     (let (y, yd) = civil_year 1970 (t div 86400);
          (m, md) = civil_month y 1 yd;
          s = t mod 86400
      in \<lparr>tm_year = y, tm_mon = m, tm_mday = Suc md, tm_hour = s div 3600,
          tm_min = s mod 3600 div 60, tm_sec = s mod 60\<rparr>)"

definition days_between :: "nat \<Rightarrow> nat \<Rightarrow> nat" where
  "days_between y0 y = sum_list (map year_days [y0..<y])"

definition days_before_month :: "nat \<Rightarrow> nat \<Rightarrow> nat" where
  "days_before_month y m = sum_list (map (month_days y) [1..<m])"

definition epoch_of :: "utc_time \<Rightarrow> nat" where
  "epoch_of u =
     (days_between 1970 (tm_year u) + days_before_month (tm_year u) (tm_mon u) + (tm_mday u - 1)) * 86400 +
     tm_hour u * 3600 + tm_min u * 60 + tm_sec u"

definition valid_utc :: "utc_time \<Rightarrow> bool" where
  "valid_utc u \<longleftrightarrow>
     1970 \<le> tm_year u \<and> 1 \<le> tm_mon u \<and> tm_mon u \<le> 12 \<and> 1 \<le> tm_mday u \<and>
     tm_mday u \<le> month_days (tm_year u) (tm_mon u) \<and> tm_hour u < 24 \<and> tm_min u < 60 \<and> tm_sec u < 60"

subsection \<open>Printing and reading\<close>

text \<open>The \<open>w\<close> low decimal digits of \<open>n\<close>, zero-padded, as \<open>%m\<close> or \<open>%Y\<close> print them.\<close>

fun pad_dec :: "nat \<Rightarrow> nat \<Rightarrow> string" where
  "pad_dec 0 n = []"
| "pad_dec (Suc w) n = pad_dec w (n div 10) @ [digit (n mod 10)]"

definition strftime_ymdhms :: "utc_time \<Rightarrow> string" where
  "strftime_ymdhms u =
     pad_dec 4 (tm_year u) @ ''-'' @ pad_dec 2 (tm_mon u) @ ''-'' @ pad_dec 2 (tm_mday u) @ '' '' @
     pad_dec 2 (tm_hour u) @ '':'' @ pad_dec 2 (tm_min u) @ '':'' @ pad_dec 2 (tm_sec u)"

definition read_dec :: "string \<Rightarrow> nat option" where
  "read_dec s = (if s \<noteq> [] \<and> list_all is_digit s then Some (digits_value s) else None)"

definition parse_ymdhms :: "string \<Rightarrow> utc_time option" where
  "parse_ymdhms s =
     (if length s = 19 \<and> s ! 4 = CHR ''-'' \<and> s ! 7 = CHR ''-'' \<and> s ! 10 = CHR '' '' \<and>
         s ! 13 = CHR '':'' \<and> s ! 16 = CHR '':''
      then do {
        y \<leftarrow> read_dec (take 4 s);
        m \<leftarrow> read_dec (take 2 (drop 5 s));
        d \<leftarrow> read_dec (take 2 (drop 8 s));
        h \<leftarrow> read_dec (take 2 (drop 11 s));
        mi \<leftarrow> read_dec (take 2 (drop 14 s));
        sec \<leftarrow> read_dec (take 2 (drop 17 s));
        Some \<lparr>tm_year = y, tm_mon = m, tm_mday = d, tm_hour = h, tm_min = mi, tm_sec = sec\<rparr>
      }
      else None)"

subsection \<open>Reading back what is printed\<close>

lemma digit_value: "d < 10 \<Longrightarrow> is_digit (digit d) \<and> of_char (digit d) - 48 = d"
  by (simp add: digit_def is_digit_def less_Suc_eq numeral_eq_Suc) (elim disjE; simp)

lemma digits_value_snoc: "digits_value (xs @ [c]) = 10 * digits_value xs + (of_char c - 48)"
  by (simp add: digits_value_def)

lemma pad_dec_length [simp]: "length (pad_dec w n) = w"
  by (induction w arbitrary: n) simp_all

lemma pad_dec_digits: "list_all is_digit (pad_dec w n)"
  by (induction w arbitrary: n) (simp_all add: digit_value)

lemma pad_dec_value: "digits_value (pad_dec w n) = n mod 10 ^ w"
proof (induction w arbitrary: n)
  case 0
  then show ?case by (simp add: digits_value_def)
next
  case (Suc w)
  then show ?case
    by (simp add: digits_value_snoc digit_value mod_mult2_eq [of n 10 "10 ^ w"] mult.commute)
qed

lemma read_pad_dec: "0 < w \<Longrightarrow> n < 10 ^ w \<Longrightarrow> read_dec (pad_dec w n) = Some n"
  by (simp add: read_dec_def pad_dec_digits pad_dec_value) (metis pad_dec_length list.size(3) less_not_refl)

subsection \<open>Counting days off\<close>

lemma year_days_pos: "0 < year_days y"
  by (simp add: year_days_def)

lemma days_between_Suc: "y0 \<le> y \<Longrightarrow> days_between y0 (Suc y) = days_between y0 y + year_days y"
  by (simp add: days_between_def)

lemma days_between_Cons: "y0 < y \<Longrightarrow> days_between y0 y = year_days y0 + days_between (Suc y0) y"
  by (simp add: days_between_def upt_conv_Cons)

lemma civil_year_sound:
  "civil_year y d = (y', d') \<Longrightarrow> y \<le> y' \<and> d' < year_days y' \<and> days_between y y' + d' = d"
proof (induction y d rule: civil_year.induct)
  case (1 y d)
  show ?case
  proof (cases "d < year_days y")
    case True
    with "1.prems" show ?thesis by (simp add: civil_year.simps days_between_def)
  next
    case False
    with "1.prems" "1.IH" have "Suc y \<le> y' \<and> d' < year_days y' \<and> days_between (Suc y) y' + d' = d - year_days y"
      by (simp add: civil_year.simps)
    with False show ?thesis by (simp add: days_between_Cons) arith
  qed
qed

lemma civil_year_complete:
  "y \<le> y' \<Longrightarrow> d < year_days y' \<Longrightarrow> civil_year y (days_between y y' + d) = (y', d)"
proof (induction "y' - y" arbitrary: y)
  case 0
  then show ?case by (simp add: civil_year.simps days_between_def)
next
  case (Suc k)
  then have "y < y'" by simp
  with Suc.hyps(1) [of "Suc y"] Suc.hyps(2) Suc.prems show ?case
    by (subst civil_year.simps) (simp add: days_between_Cons)
qed

lemma days_before_month_Suc:
  "1 \<le> m \<Longrightarrow> days_before_month y (Suc m) = days_before_month y m + month_days y m"
  by (simp add: days_before_month_def)

lemma days_before_month_13: "days_before_month y 13 = year_days y"
  by (simp add: days_before_month_def upt_rec month_days_def year_days_def)

lemma civil_month_sound:
  "civil_month y m d = (m', d') \<Longrightarrow> 1 \<le> m \<Longrightarrow> m \<le> 12 \<Longrightarrow> days_before_month y m + d < year_days y \<Longrightarrow>
   m \<le> m' \<and> m' \<le> 12 \<and> d' < month_days y m' \<and> days_before_month y m' + d' = days_before_month y m + d"
proof (induction y m d rule: civil_month.induct)
  case (1 y m d)
  show ?case
  proof (cases "m < 12 \<and> month_days y m \<le> d")
    case True
    with "1.prems" "1.IH" show ?thesis
      by (simp add: civil_month.simps days_before_month_Suc)
  next
    case False
    then consider "m = 12" | "d < month_days y m"
      using "1.prems"(3) by linarith
    then show ?thesis
    proof cases
      case 1
      with "1.prems" show ?thesis
        by (simp add: civil_month.simps days_before_month_13 [symmetric] days_before_month_Suc [of 12, simplified])
    next
      case 2
      with "1.prems" show ?thesis by (simp add: civil_month.simps)
    qed
  qed
qed

lemma civil_month_complete:
  "m \<le> m' \<Longrightarrow> m' \<le> 12 \<Longrightarrow> e < month_days y m' \<Longrightarrow>
   civil_month y m (sum_list (map (month_days y) [m..<m']) + e) = (m', e)"
proof (induction "m' - m" arbitrary: m)
  case 0
  then show ?case by (simp add: civil_month.simps)
next
  case (Suc k)
  then have "m < m'" by simp
  with Suc.hyps(1) [of "Suc m"] Suc.hyps(2) Suc.prems show ?case
    by (subst civil_month.simps) (simp add: upt_conv_Cons)
qed

lemma days_before_month_le: "1 \<le> m \<Longrightarrow> m \<le> 13 \<Longrightarrow> days_before_month y m \<le> year_days y"
proof -
  assume "1 \<le> m" "m \<le> 13"
  then have "[1..<13] = [1..<m] @ [m..<13]"
    using upt_add_eq_append [of 1 m "13 - m"] by simp
  then show ?thesis
    unfolding days_before_month_13 [symmetric] days_before_month_def by simp
qed

lemma hms_split:
  assumes "h < 24" "mi < 60" "sec < 60"
  shows "(h * 3600 + mi * 60 + sec :: nat) div 3600 = h \<and> (h * 3600 + mi * 60 + sec) mod 3600 div 60 = mi \<and>
         (h * 3600 + mi * 60 + sec) mod 60 = sec \<and> h * 3600 + mi * 60 + sec < 86400"
proof -
  have x: "mi * 60 + sec < 3600" using assms by linarith
  have e: "h * 3600 + mi * 60 + sec = (mi * 60 + sec) + h * 3600" "h * 3600 + mi * 60 + sec = sec + (h * 60 + mi) * 60"
    by simp_all
  have "(h * 3600 + mi * 60 + sec) div 3600 = h" "(h * 3600 + mi * 60 + sec) mod 3600 = mi * 60 + sec"
    using x by (simp_all only: e(1) div_mult_self1 mod_mult_self1) simp_all
  moreover have "(mi * 60 + sec) div 60 = mi" "(h * 3600 + mi * 60 + sec) mod 60 = sec"
    using assms by (simp_all only: e(2) add.commute [of "mi * 60"] div_mult_self1 mod_mult_self1) simp_all
  ultimately show ?thesis using assms by linarith
qed

lemma day_split: "r < 86400 \<Longrightarrow> ((D :: nat) * 86400 + r) div 86400 = D \<and> (D * 86400 + r) mod 86400 = r"
  by simp

lemma hms_of: "(r :: nat) div 3600 * 3600 + r mod 3600 div 60 * 60 + r mod 60 = r"
proof -
  have "r mod 3600 mod 60 = r mod 60" by (simp add: mod_mod_cancel)
  then show ?thesis by (metis add.assoc div_mult_mod_eq)
qed

lemma hms_bounds: "(r :: nat) < 86400 \<Longrightarrow> r div 3600 < 24 \<and> r mod 3600 div 60 < 60 \<and> r mod 60 < 60"
  by (simp add: div_less_iff_less_mult)

text \<open>Every instant has valid fields, and they count back to it.\<close>

lemma utc_of_sound: "valid_utc (utc_of t) \<and> epoch_of (utc_of t) = t"
proof -
  obtain Y yd where Y: "civil_year 1970 (t div 86400) = (Y, yd)" by fastforce
  obtain M md where M: "civil_month Y 1 yd = (M, md)" by fastforce
  from civil_year_sound [OF Y] have y: "1970 \<le> Y" "yd < year_days Y" "days_between 1970 Y + yd = t div 86400"
    by simp_all
  with civil_month_sound [OF M] have m: "1 \<le> M" "M \<le> 12" "md < month_days Y M" "days_before_month Y M + md = yd"
    by (simp_all add: days_before_month_def)
  let ?r = "t mod 86400"
  have u: "utc_of t = \<lparr>tm_year = Y, tm_mon = M, tm_mday = Suc md, tm_hour = ?r div 3600,
                        tm_min = ?r mod 3600 div 60, tm_sec = ?r mod 60\<rparr>"
    using M by (simp add: utc_of_def Y Let_def One_nat_def)
  have "valid_utc (utc_of t)"
    using y m hms_bounds [of ?r] by (simp add: u valid_utc_def)
  moreover have "epoch_of (utc_of t) = t div 86400 * 86400 + ?r"
    using y(3) m(4) hms_of [of ?r] by (simp add: u epoch_of_def add.assoc)
  ultimately show ?thesis by simp
qed

text \<open>Valid fields are the fields of the instant they count to.\<close>

lemma utc_of_complete: "valid_utc u \<Longrightarrow> utc_of (epoch_of u) = u"
proof -
  assume v: "valid_utc u"
  then obtain d0 where d0: "tm_mday u = Suc d0"
    by (cases "tm_mday u") (simp_all add: valid_utc_def)
  let ?Y = "tm_year u" and ?M = "tm_mon u"
  let ?yd = "days_before_month ?Y ?M + d0" and ?r = "tm_hour u * 3600 + tm_min u * 60 + tm_sec u"
  have yd: "?yd < year_days ?Y"
  proof -
    have "?yd < days_before_month ?Y (Suc ?M)"
      using v d0 by (simp add: valid_utc_def days_before_month_Suc)
    also have "\<dots> \<le> year_days ?Y"
      using v by (simp add: valid_utc_def days_before_month_le)
    finally show ?thesis .
  qed
  have cy: "civil_year 1970 (days_between 1970 ?Y + ?yd) = (?Y, ?yd)"
    using v yd civil_year_complete [of 1970 ?Y ?yd] by (simp add: valid_utc_def)
  have cm: "civil_month ?Y 1 ?yd = (?M, d0)"
    using v d0 civil_month_complete [where m = 1 and m' = ?M and y = ?Y and e = d0] by (simp add: valid_utc_def days_before_month_def)
  have hms: "?r < 86400" "?r div 3600 = tm_hour u" "?r mod 3600 div 60 = tm_min u" "?r mod 60 = tm_sec u"
    using v hms_split [of "tm_hour u" "tm_min u" "tm_sec u"] by (simp_all add: valid_utc_def)
  have e: "epoch_of u = (days_between 1970 ?Y + ?yd) * 86400 + ?r"
    by (simp add: epoch_of_def d0 add.assoc)
  from day_split [OF hms(1), of "days_between 1970 ?Y + ?yd"]
  have "epoch_of u div 86400 = days_between 1970 ?Y + ?yd" "epoch_of u mod 86400 = ?r"
    unfolding e by blast+
  then show ?thesis
    using cy cm hms(2-4) d0 by (simp add: utc_of_def Let_def)
qed

lemma month_days_le: "month_days y m \<le> 31"
  by (simp add: month_days_def)

text \<open>A stamp printed from valid fields of a four-digit year reads back as those fields.\<close>

lemma parse_strftime:
  assumes "valid_utc u" "tm_year u < 10000"
  shows "parse_ymdhms (strftime_ymdhms u) = Some u"
proof -
  have "tm_mon u < 100" "tm_mday u < 100" "tm_hour u < 100" "tm_min u < 100" "tm_sec u < 100"
    using assms(1) month_days_le [of "tm_year u" "tm_mon u"] by (simp_all add: valid_utc_def)
  with assms(2) show ?thesis
    by (cases u) (simp add: parse_ymdhms_def strftime_ymdhms_def nth_append read_pad_dec)
qed

end
