(* ===== verification/Notifier.thy ===== *)
theory Notifier
  imports Calendar
begin

text \<open>
  The notifier and the self-deleting message ticket of src/bot/verification.py.
  \<open>send_verification_message\<close> (lines 7--67) looks the verification channel up,
  builds the embed (thumbnail from the member's avatar, the role sentence, one
  field per role with a link to its channel, a footer with the deletion time) and
  sends it; \<open>delete_message_after_delay\<close> (lines 70--85) deletes the message a
  day later and classifies the failures.  The collaborator's answers are inputs:
  whether \<open>get_channel\<close> found the channel, the member's avatar (\<open>None\<close> for a
  member without a custom avatar, for which discord.py's \<open>Member.avatar\<close> is
  \<open>None\<close>), the clock, and the result of \<open>channel.send\<close> and \<open>message.delete\<close>.
  Role names come from the guild's role cache, a function of the role id.  The
  clock counts seconds since the Unix epoch; the embed keeps the instant its footer
  prints, \<open>now + 86400\<close>, and \<open>footer_text\<close> prints it as \<open>set_footer\<close> does,
  with the calendar of \<open>Calendar\<close>.
\<close>

record member =
  mid :: member_id
  avatar :: "string option"

record embed =
  title :: string
  color :: nat
  thumbnail :: string
  description :: string
  embed_fields :: "(string \<times> string \<times> bool) list"
  footer_deadline :: nat

datatype notify_outcome =
    ChannelMissing
  | SendFailed http_exc
  | Sent msg_id string embed

text \<open>discord.py's \<open>Member.mention\<close>.\<close>

definition mention :: "member \<Rightarrow> string" where
  "mention m = ''<@'' @ py_str_int (mid m) @ ''>''"

text \<open>Line 18: the fixed verification channel.\<close>

definition verification_channel_id :: int where
  "verification_channel_id = 1200460467622137936"

text \<open>Lines 35--38: one channel link per role that has an entry in the table.\<close>

definition role_mentions :: "role_table \<Rightarrow> role_id list \<Rightarrow> string list" where
  "role_mentions tbl role_list =
     concat (map (\<lambda>r. case tbl r of None \<Rightarrow> [] | Some c \<Rightarrow> [''<#'' @ c @ ''>'']) role_list)"

definition bold :: "string \<Rightarrow> string" where
  "bold name = ''**'' @ name @ ''**''"

text \<open>Lines 50--53.\<close>

definition description_of :: "string \<Rightarrow> string \<Rightarrow> string \<Rightarrow> string" where
  "description_of roles_text plugin_text topic_text =
     ''You have been successfully verified for '' @ roles_text @ ''. '' @
     ''For complete documentation of the '' @ plugin_text @ '', please access '' @ topic_text @ ''.''"

text \<open>
  Lines 40--53.  With one role the sentence is singular.  Otherwise the names
  but the last are joined with commas and the last is appended after
  \<open>and\<close>; \<open>role_names[-1]\<close> raises \<open>IndexError\<close> on an empty list.
\<close>

definition verification_text :: "string list \<Rightarrow> py_exc + string" where
  "verification_text role_names =
     (if length role_names = 1
      then Inr (description_of (bold (role_names ! 0)) ''plugin'' ''the post below'')
      else if role_names = [] then Inl IndexError
      else Inr (description_of
                  (py_join '', '' (map bold (butlast role_names)) @ '' and '' @ bold (last role_names))
                  ''plugins'' ''the posts below''))"

text \<open>
  Lines 28--61, the body of the \<open>try\<close> up to the \<open>send\<close>.  \<open>member.avatar.url\<close>
  on line 32 raises \<open>AttributeError\<close> when the avatar is \<open>None\<close>; the colour
  \<open>0x059669\<close> is 366185.  \<open>zip\<close> on line 55 stops at the shorter list.
\<close>

definition verification_embed ::
  "role_table \<Rightarrow> (role_id \<Rightarrow> string) \<Rightarrow> member \<Rightarrow> role_id list \<Rightarrow> nat \<Rightarrow> py_exc + embed" where
  "verification_embed tbl role_name mbr role_list now =
     (case avatar mbr of
        None \<Rightarrow> Inl AttributeError
      | Some url \<Rightarrow>
          (let role_names = map role_name role_list;
               mentions = role_mentions tbl role_list
           in case verification_text role_names of
                Inl e \<Rightarrow> Inl e
              | Inr d \<Rightarrow> Inr \<lparr>title = ''Thank you for your purchase!'', color = 366185,
                              thumbnail = url, description = d,
                              embed_fields = map (\<lambda>(n, v). (n, v, True)) (zip role_names mentions),
                              footer_deadline = now + 86400\<rparr>))"

text \<open>
  Lines 58--60: the footer's text for the embed's deadline, printed by
  \<open>strftime('%Y-%m-%d %H:%M:%S')\<close> in UTC.  \<open>read_footer\<close> is the reading a
  member makes of it: the prefix, nineteen characters of date and time, the suffix.
\<close>

definition footer_text :: "nat \<Rightarrow> string" where
  "footer_text deadline =
     ''This message will be deleted in 24 hours ('' @ strftime_ymdhms (utc_of deadline) @ '' UTC)''"

definition read_footer :: "string \<Rightarrow> nat option" where
  "read_footer s =
     (let n = length ''This message will be deleted in 24 hours ('' in
      if take n s = ''This message will be deleted in 24 hours ('' \<and> drop (n + 19) s = '' UTC)''
      then map_option epoch_of (parse_ymdhms (take 19 (drop n s))) else None)"

text \<open>
  Lines 7--67.  \<open>channel_found\<close> is the answer of \<open>get_channel\<close>, \<open>send_result\<close>
  the answer of \<open>channel.send\<close>: the new message's id, or the \<open>HTTPException\<close>
  (\<open>NotFound\<close> and \<open>Forbidden\<close> included) that the \<open>except\<close> of line 66 catches.
  An exception of another class escapes as \<open>Inl\<close>.  On success the caller
  schedules the deletion ticket (line 64).
\<close>

definition send_verification_message ::
  "role_table \<Rightarrow> (role_id \<Rightarrow> string) \<Rightarrow> bool \<Rightarrow> member \<Rightarrow> role_id list \<Rightarrow> nat \<Rightarrow>
   http_exc + msg_id \<Rightarrow> py_exc + notify_outcome \<times> log" where
  "send_verification_message tbl role_name channel_found mbr role_list now send_result =
     (if \<not> channel_found then Inr (ChannelMissing, [(ERROR, ''Verification channel not found.'')])
      else case verification_embed tbl role_name mbr role_list now of
             Inl e \<Rightarrow> Inl e
           | Inr emb \<Rightarrow>
               (case send_result of
                  Inl err \<Rightarrow> Inr (SendFailed err, [(ERROR, ''Failed to send verification message'')])
                | Inr msg \<Rightarrow> Inr (Sent msg (mention mbr) emb, [])))"

text \<open>
  Lines 70--85, after the day's sleep: the log written for the outcome of
  \<open>message.delete()\<close> (\<open>None\<close> for success).  The \<open>except\<close> clauses are tried
  in order, subclasses first.
\<close>

definition delete_message_after_delay :: "msg_id \<Rightarrow> http_exc option \<Rightarrow> log" where
  "delete_message_after_delay msg result =
     (case result of
        None \<Rightarrow> []
      | Some NotFound \<Rightarrow> []
      | Some Forbidden \<Rightarrow> [(ERROR, ''Bot lacks permission to delete message: '' @ dec_digits msg)]
      | Some (HTTPError status) \<Rightarrow> [(ERROR, ''Error occurred while deleting message'')])"

text \<open>
  src/bot/bot_class.py lines 95--111: the static method of the same name on the bot
  class (not called by the package), which logs a vanished message as a warning.
\<close>

definition delete_message_after_delay_bot :: "msg_id \<Rightarrow> http_exc option \<Rightarrow> log" where
  "delete_message_after_delay_bot msg result =
     (case result of
        None \<Rightarrow> []
      | Some NotFound \<Rightarrow> [(WARNING, ''Message already deleted.'')]
      | Some Forbidden \<Rightarrow> [(ERROR, ''Bot lacks permission to delete message: '' @ dec_digits msg)]
      | Some (HTTPError status) \<Rightarrow> [(ERROR, ''Error occurred while deleting message'')])"

text \<open>
  The sentence the specification asks for (section 4.3): one name alone, two
  names joined by \<open>and\<close>, more names separated by commas with \<open>and\<close> before
  the last.  A reference definition, not a model of code.
\<close>

fun english_list :: "string list \<Rightarrow> string" where
  "english_list [] = []"
| "english_list [x] = x"
| "english_list [x, y] = x @ '' and '' @ y"
| "english_list (x # y # z # zs) = x @ '', '' @ english_list (y # z # zs)"


subsection \<open>The sentence\<close>

lemma py_join_and_english:
  "2 \<le> length xs \<Longrightarrow> py_join '', '' (butlast xs) @ '' and '' @ last xs = english_list xs"
proof (induction xs rule: english_list.induct)
  case (4 x y z zs)
  then show ?case
    by (simp add: py_join_Cons_Cons [symmetric])
qed simp_all

lemma verification_text_sentence:
  assumes "names \<noteq> []"
  shows "verification_text names =
           Inr (description_of (english_list (map bold names))
                  (if length names = 1 then ''plugin'' else ''plugins'')
                  (if length names = 1 then ''the post below'' else ''the posts below''))"
proof (cases "length names = 1")
  case True
  then obtain n where "names = [n]"
    by (auto simp: length_Suc_conv)
  then show ?thesis
    by (simp add: verification_text_def)
next
  case False
  with assms have two: "2 \<le> length (map bold names)"
    by (cases names) (auto simp: Suc_le_eq)
  have "py_join '', '' (map bold (butlast names)) @ '' and '' @ bold (last names) =
        english_list (map bold names)"
    using py_join_and_english [OF two] assms by (simp add: map_butlast last_map)
  with False assms show ?thesis
    by (simp add: verification_text_def)
qed

text \<open>
  C7. For every non-empty list of role names the description is the sentence of
  the specification: the names in bold as an English list, singular for one role
  and plural otherwise.
\<close>

theorem verification_text_spec:
  assumes "names \<noteq> []"
  shows "verification_text names =
           Inr (description_of (english_list (map bold names))
                  (if length names = 1 then ''plugin'' else ''plugins'')
                  (if length names = 1 then ''the post below'' else ''the posts below''))"
  using assms by (rule verification_text_sentence)

theorem verification_text_spec_witness:
  "[''Alpha'', ''Beta'', ''Gamma''] \<noteq> [] \<and>
   verification_text [''Alpha'', ''Beta'', ''Gamma''] =
     Inr ''You have been successfully verified for **Alpha**, **Beta** and **Gamma**. For complete documentation of the plugins, please access the posts below.''"
  using verification_text_spec [of "[''Alpha'', ''Beta'', ''Gamma'']"]
  by (simp add: description_of_def bold_def)

lemma verification_text_Nil [simp]: "verification_text [] = Inl IndexError"
  by (simp add: verification_text_def)

subsection \<open>The embed\<close>

lemma role_mentions_all:
  "\<forall>r \<in> set rl. tbl r \<noteq> None \<Longrightarrow> role_mentions tbl rl = map (\<lambda>r. ''<#'' @ the (tbl r) @ ''>'') rl"
  by (induction rl) (auto simp: role_mentions_def)

lemma verification_embed_field_pairs:
  assumes "avatar mbr = Some url" and "rl \<noteq> []" and "\<forall>r \<in> set rl. tbl r \<noteq> None"
  shows "verification_embed tbl nm mbr rl now =
           Inr \<lparr>title = ''Thank you for your purchase!'', color = 366185, thumbnail = url,
                description = description_of (english_list (map (bold \<circ> nm) rl))
                  (if length rl = 1 then ''plugin'' else ''plugins'')
                  (if length rl = 1 then ''the post below'' else ''the posts below''),
                embed_fields = map (\<lambda>r. (nm r, ''<#'' @ the (tbl r) @ ''>'', True)) rl,
                footer_deadline = now + 86400\<rparr>"
proof -
  have "map nm rl \<noteq> []"
    using assms(2) by simp
  then have sentence: "verification_text (map nm rl) =
      Inr (description_of (english_list (map (bold \<circ> nm) rl))
             (if length rl = 1 then ''plugin'' else ''plugins'')
             (if length rl = 1 then ''the post below'' else ''the posts below''))"
    by (simp add: verification_text_sentence)
  show ?thesis
    using assms(1) sentence role_mentions_all [OF assms(3)]
    by (simp add: verification_embed_def zip_map_same)
qed

text \<open>
  C8. When every role of the list has a destination (as every queued role has),
  the embed is the specified one: its description is the sentence of C7 and it has
  exactly one field per role, in the order of the list, pairing the role's name
  with the link to that role's own channel; the deletion deadline is one day later.
\<close>

theorem verification_embed_fields:
  assumes "avatar mbr = Some url" and "rl \<noteq> []" and "\<forall>r \<in> set rl. tbl r \<noteq> None"
  shows "verification_embed tbl nm mbr rl now =
           Inr \<lparr>title = ''Thank you for your purchase!'', color = 366185, thumbnail = url,
                description = description_of (english_list (map (bold \<circ> nm) rl))
                  (if length rl = 1 then ''plugin'' else ''plugins'')
                  (if length rl = 1 then ''the post below'' else ''the posts below''),
                embed_fields = map (\<lambda>r. (nm r, ''<#'' @ the (tbl r) @ ''>'', True)) rl,
                footer_deadline = now + 86400\<rparr>"
  using assms by (rule verification_embed_field_pairs)

theorem verification_embed_fields_witness:
  "avatar \<lparr>mid = 5, avatar = Some ''a.png''\<rparr> = Some ''a.png'' \<and> [1, 2 :: int] \<noteq> [] \<and>
   verification_embed [1 \<mapsto> ''10'', 2 \<mapsto> ''20''] (\<lambda>r. if r = 1 then ''One'' else ''Two'')
     \<lparr>mid = 5, avatar = Some ''a.png''\<rparr> [1, 2] 0 =
   Inr \<lparr>title = ''Thank you for your purchase!'', color = 366185, thumbnail = ''a.png'',
        description = ''You have been successfully verified for **One** and **Two**. For complete documentation of the plugins, please access the posts below.'',
        embed_fields = [(''One'', ''<#10>'', True), (''Two'', ''<#20>'', True)],
        footer_deadline = 86400\<rparr>"
  using verification_embed_fields [of "\<lparr>mid = 5, avatar = Some ''a.png''\<rparr>" "''a.png''" "[1, 2]"
      "[1 \<mapsto> ''10'', 2 \<mapsto> ''20'']" "\<lambda>r. if r = 1 then ''One'' else ''Two''" 0]
  by (simp add: description_of_def bold_def)

text \<open>
  C9. A member without a custom avatar makes \<open>member.avatar.url\<close> raise
  \<open>AttributeError\<close>, which the \<open>except discord.HTTPException\<close> of line 66 does not
  catch: once the channel is found, the notification is lost whatever the roles
  and whatever \<open>channel.send\<close> would have answered.
\<close>

theorem send_verification_message_no_avatar:
  assumes "channel_found" and "avatar mbr = None"
  shows "send_verification_message tbl nm channel_found mbr rl now res = Inl AttributeError"
  using assms by (simp add: send_verification_message_def verification_embed_def)

theorem send_verification_message_no_avatar_witness:
  "True \<and> avatar \<lparr>mid = 5, avatar = None\<rparr> = None \<and>
   send_verification_message [1 \<mapsto> ''10''] (\<lambda>_. ''Plugin'') True \<lparr>mid = 5, avatar = None\<rparr> [1] 0 (Inr 9) =
     Inl AttributeError"
  using send_verification_message_no_avatar [of True "\<lparr>mid = 5, avatar = None\<rparr>" "[1 \<mapsto> ''10'']"
      "\<lambda>_. ''Plugin''" "[1]" 0 "Inr 9"]
  by simp

subsection \<open>The footer\<close>

text \<open>
  C10. The footer names the deletion instant unambiguously: for every deadline in a
  year Python's \<open>datetime\<close> can print with four digits, reading the date and time
  the footer shows back through the calendar gives the deadline to the second.
\<close>

theorem footer_text_roundtrip: "tm_year (utc_of t) < 10000 \<Longrightarrow> read_footer (footer_text t) = Some t"
  using utc_of_sound [of t] parse_strftime [of "utc_of t"]
  by (simp add: read_footer_def footer_text_def strftime_ymdhms_def)

theorem footer_text_roundtrip_witness:
  "tm_year (utc_of 1700000000) < 10000 \<and> read_footer (footer_text 1700000000) = Some 1700000000"
proof -
  have "tm_year (utc_of 1700000000) = 2023"
    by (simp add: utc_of_def civil_year.simps civil_month.simps year_days_def month_days_def leap_year_def)
  then show ?thesis
    using footer_text_roundtrip [of 1700000000] by simp
qed

subsection \<open>The deletion ticket\<close>

text \<open>
  C11. The ticket logs an error exactly when the deletion failed for a reason
  other than the message being gone already: a successful deletion and a
  \<open>NotFound\<close> (the benign race) leave the log empty.
\<close>

theorem delete_message_after_delay_errors:
  "(ERROR \<in> fst ` set (delete_message_after_delay msg r)) \<longleftrightarrow> r \<noteq> None \<and> r \<noteq> Some NotFound"
  by (cases r) (auto simp: delete_message_after_delay_def split: http_exc.splits)

lemma delete_message_after_delay_NotFound [simp]:
  "delete_message_after_delay msg (Some NotFound) = []"
  by (simp add: delete_message_after_delay_def)

end
