(* ===== verification/Scheduler.thy ===== *)
theory Scheduler
  imports Queue Notifier
begin

text \<open>
  The bot's asyncio event loop as a transition system.  The state is the
  \<open>role_update_queue\<close> of src/bot/bot_class.py, the tasks in flight, the clock,
  the messages of the verification channel, and what has been sent and logged.
  A task is one of the three coroutines the core spawns: \<open>process_role_queue\<close>
  asleep in \<open>asyncio.sleep(5)\<close> (bot_class.py lines 113--123), a
  \<open>send_verification_message\<close> suspended in \<open>channel.send\<close> (verification.py line
  63), and \<open>delete_message_after_delay\<close> asleep for a day (verification.py lines
  70--85).  Asyncio is cooperative, so the code between two \<open>await\<close>s is one
  step; the scheduler, the other actors of the guild and the answers of Discord
  are free, so the steps form a relation:
  \<^item> \<open>update\<close>: \<open>on_member_update\<close> runs with some order of the set of new roles,
    and appends a settling timer when it decides to spawn one (line 144);
  \<^item> \<open>settle\<close>: a timer whose deadline has passed pops the member's entry
    (line 121) and, when it holds roles, runs \<open>send_verification_message\<close> up to
    its \<open>await channel.send\<close>; an exception escaping from it is caught and logged
    by the \<open>except\<close> of \<open>on_member_update\<close> (line 145), which awaits the task;
  \<^item> \<open>send\<close>: \<open>channel.send\<close> answers: the message is posted and its deletion
    ticket scheduled (line 64), or the \<open>HTTPException\<close> is logged (line 67);
  \<^item> \<open>delete\<close>: a ticket whose day has passed deletes its message, and Discord
    answers \<open>NotFound\<close> exactly when the message is already gone;
  \<^item> \<open>vanish\<close>: another actor deletes a message of the channel;
  \<^item> \<open>tick\<close>: the clock advances by one second.
  The ghost field \<open>notified\<close> records, for each posted notification, the member
  and the roles it announces.
\<close>

datatype task =
    SettleTimer member nat
  | Sending member "role_id list" embed
  | DeleteTimer msg_id nat

record bot_state =
  clock :: nat
  role_update_queue :: role_queue
  tasks :: "task list"
  channel_msgs :: "msg_id list"
  next_msg :: msg_id
  notified :: "(member_id \<times> role_id list) list"
  logs :: log

definition init_state :: bot_state where
  "init_state = \<lparr>clock = 0, role_update_queue = Map.empty, tasks = [], channel_msgs = [],
                 next_msg = 0, notified = [], logs = []\<rparr>"

text \<open>bot_class.py lines 125--146: the handler and its \<open>create_task\<close>.\<close>

definition member_update :: "role_table \<Rightarrow> bot_state \<Rightarrow> member \<Rightarrow> role_id list \<Rightarrow> bot_state" where
  "member_update tbl s mbr new_roles =
     (case on_member_update tbl (role_update_queue s) (mid mbr) new_roles of
        (q', spawn) \<Rightarrow>
          s\<lparr>role_update_queue := q',
            tasks := tasks s @ (if spawn then [SettleTimer mbr (clock s + 5)] else [])\<rparr>)"

text \<open>
  bot_class.py lines 120--123 after the sleep, with verification.py lines 18--62:
  the timer leaves the task list, the entry is popped, and with roles the
  notifier runs up to its \<open>send\<close>.  \<open>role_list\<close> is the order of
  \<open>list(set(roles))\<close>; \<open>channel_found\<close> is the answer of \<open>get_channel\<close>.
\<close>

definition settle ::
  "role_table \<Rightarrow> (role_id \<Rightarrow> string) \<Rightarrow> bool \<Rightarrow> bot_state \<Rightarrow> member \<Rightarrow> nat \<Rightarrow> role_id list \<Rightarrow> bot_state" where
  "settle tbl nm channel_found s mbr w role_list =
     (case process_role_queue (role_update_queue s) (mid mbr) of
        (roles, q') \<Rightarrow>
          let s1 = s\<lparr>role_update_queue := q', tasks := remove1 (SettleTimer mbr w) (tasks s)\<rparr> in
          if roles = [] then s1
          else if \<not> channel_found
          then s1\<lparr>logs := logs s @ [(ERROR, ''Verification channel not found.'')]\<rparr>
          else case verification_embed tbl nm mbr role_list (clock s) of
                 Inl e \<Rightarrow> s1\<lparr>logs := logs s @ [(ERROR, ''Error in on_member_update'')]\<rparr>
               | Inr emb \<Rightarrow> s1\<lparr>tasks := tasks s1 @ [Sending mbr role_list emb]\<rparr>)"

text \<open>verification.py lines 63--67: the answer of \<open>channel.send\<close>.\<close>

definition send_done ::
  "bot_state \<Rightarrow> member \<Rightarrow> role_id list \<Rightarrow> embed \<Rightarrow> http_exc + unit \<Rightarrow> bot_state" where
  "send_done s mbr role_list emb result =
     (let s1 = s\<lparr>tasks := remove1 (Sending mbr role_list emb) (tasks s)\<rparr> in
      case result of
        Inl err \<Rightarrow> s1\<lparr>logs := logs s @ [(ERROR, ''Failed to send verification message'')]\<rparr>
      | Inr _ \<Rightarrow>
          s1\<lparr>channel_msgs := channel_msgs s @ [next_msg s], next_msg := Suc (next_msg s),
             tasks := tasks s1 @ [DeleteTimer (next_msg s) (clock s + 86400)],
             notified := notified s @ [(mid mbr, role_list)]\<rparr>)"

text \<open>verification.py lines 78--85: the ticket's deletion attempt and its log.\<close>

definition delete_fire :: "bot_state \<Rightarrow> msg_id \<Rightarrow> nat \<Rightarrow> http_exc option \<Rightarrow> bot_state" where
  "delete_fire s msg w result =
     s\<lparr>tasks := remove1 (DeleteTimer msg w) (tasks s),
       channel_msgs := (if result = None then removeAll msg (channel_msgs s) else channel_msgs s),
       logs := logs s @ delete_message_after_delay msg result\<rparr>"

inductive bot_step :: "role_table \<Rightarrow> (role_id \<Rightarrow> string) \<Rightarrow> bot_state \<Rightarrow> bot_state \<Rightarrow> bool"
  for tbl nm where
  update: "set_enum nr (set after - set before) \<Longrightarrow> bot_step tbl nm s (member_update tbl s mbr nr)"
| settle: "SettleTimer mbr w \<in> set (tasks s) \<Longrightarrow> w \<le> clock s \<Longrightarrow>
           set_enum rl (set (dict_get (role_update_queue s) (mid mbr) [])) \<Longrightarrow>
           bot_step tbl nm s (settle tbl nm chan s mbr w rl)"
| send: "Sending mbr rl emb \<in> set (tasks s) \<Longrightarrow> bot_step tbl nm s (send_done s mbr rl emb res)"
| delete: "DeleteTimer msg w \<in> set (tasks s) \<Longrightarrow> w \<le> clock s \<Longrightarrow>
           (res = Some NotFound \<longleftrightarrow> msg \<notin> set (channel_msgs s)) \<Longrightarrow>
           bot_step tbl nm s (delete_fire s msg w res)"
| vanish: "bot_step tbl nm s (s\<lparr>channel_msgs := removeAll msg (channel_msgs s)\<rparr>)"
| tick: "bot_step tbl nm s (s\<lparr>clock := Suc (clock s)\<rparr>)"

inductive reachable :: "role_table \<Rightarrow> (role_id \<Rightarrow> string) \<Rightarrow> bot_state \<Rightarrow> bool"
  for tbl nm where
  init: "reachable tbl nm init_state"
| step: "reachable tbl nm s \<Longrightarrow> bot_step tbl nm s t \<Longrightarrow> reachable tbl nm t"

subsection \<open>The invariant\<close>

fun settle_of :: "member_id \<Rightarrow> task \<Rightarrow> bool" where
  "settle_of m (SettleTimer mbr w) = (mid mbr = m)"
| "settle_of m (Sending mbr rl emb) = False"
| "settle_of m (DeleteTimer msg w) = False"

definition settle_count :: "member_id \<Rightarrow> task list \<Rightarrow> nat" where
  "settle_count m ts = length (filter (settle_of m) ts)"

definition good_roles :: "role_table \<Rightarrow> role_id list \<Rightarrow> bool" where
  "good_roles tbl rs \<longleftrightarrow> rs \<noteq> [] \<and> distinct rs \<and> (\<forall>r \<in> set rs. tbl r \<noteq> None)"

definition sending_good :: "role_table \<Rightarrow> task list \<Rightarrow> bool" where
  "sending_good tbl ts \<longleftrightarrow> (\<forall>mbr rl emb. Sending mbr rl emb \<in> set ts \<longrightarrow> good_roles tbl rl)"

text \<open>Every send in flight carries the embed the notifier built for its roles.\<close>

definition sending_embeds :: "role_table \<Rightarrow> (role_id \<Rightarrow> string) \<Rightarrow> task list \<Rightarrow> bool" where
  "sending_embeds tbl nm ts \<longleftrightarrow>
     (\<forall>mbr rl emb. Sending mbr rl emb \<in> set ts \<longrightarrow> (\<exists>now. verification_embed tbl nm mbr rl now = Inr emb))"

text \<open>
  The invariant of the loop: the queue invariant; a member has an entry in the
  queue exactly when exactly one settling timer for it is in flight (never two);
  every notification in flight or posted announces a non-empty list of distinct
  roles of the table.
\<close>

definition sched_inv :: "role_table \<Rightarrow> bot_state \<Rightarrow> bool" where
  "sched_inv tbl s \<longleftrightarrow>
     queue_inv tbl (role_update_queue s) \<and>
     (\<forall>m. settle_count m (tasks s) = (if role_update_queue s m = None then 0 else 1)) \<and>
     sending_good tbl (tasks s) \<and>
     (\<forall>m rl. (m, rl) \<in> set (notified s) \<longrightarrow> good_roles tbl rl)"


subsection \<open>Counting settling timers\<close>

lemma settle_count_Nil [simp]: "settle_count m [] = 0"
  by (simp add: settle_count_def)

lemma settle_count_append [simp]: "settle_count m (ts @ us) = settle_count m ts + settle_count m us"
  by (simp add: settle_count_def)

lemma settle_count_single [simp]: "settle_count m [t] = (if settle_of m t then 1 else 0)"
  by (simp add: settle_count_def)

lemma settle_count_remove1:
  "settle_count m (remove1 t ts) =
     (if settle_of m t \<and> t \<in> set ts then settle_count m ts - 1 else settle_count m ts)"
  by (simp add: settle_count_def filter_remove1 length_remove1)

lemma settle_count_pos: "t \<in> set ts \<Longrightarrow> settle_of m t \<Longrightarrow> 0 < settle_count m ts"
  by (auto simp: settle_count_def filter_empty_conv)

lemma sending_good_remove1 [simp]: "sending_good tbl ts \<Longrightarrow> sending_good tbl (remove1 t ts)"
  unfolding sending_good_def by (meson set_remove1_subset subsetD)

lemma sending_good_append [simp]:
  "sending_good tbl (ts @ us) \<longleftrightarrow> sending_good tbl ts \<and> sending_good tbl us"
  unfolding sending_good_def set_append Un_iff by blast

lemma sending_good_single [simp]:
  "sending_good tbl []"
  "sending_good tbl [SettleTimer mbr w]"
  "sending_good tbl [DeleteTimer msg w]"
  "sending_good tbl [Sending mbr rl emb] \<longleftrightarrow> good_roles tbl rl"
  unfolding sending_good_def by auto

lemma sending_goodD: "sending_good tbl ts \<Longrightarrow> Sending mbr rl emb \<in> set ts \<Longrightarrow> good_roles tbl rl"
  unfolding sending_good_def by blast

lemma good_roles_enum:
  assumes "good_roles tbl xs" and "set_enum rl (set xs)"
  shows "good_roles tbl rl"
  using assms by (auto simp: good_roles_def set_enum_def)

lemma queue_inv_good: "queue_inv tbl q \<Longrightarrow> q m = Some xs \<Longrightarrow> good_roles tbl xs"
  by (auto simp: queue_inv_def good_roles_def)

lemma on_member_update_entry:
  "(fst (on_member_update tbl q m nr) m = None) \<longleftrightarrow> q m = None \<and> added_roles tbl nr = []"
proof (cases "unique_roles (added_roles tbl nr) (dict_get q m []) = []")
  case True
  then have "q m = None \<longrightarrow> added_roles tbl nr = []"
    by auto
  with True show ?thesis
    by (auto simp: on_member_update_duplicate)
next
  case False
  then have "added_roles tbl nr \<noteq> []"
    by auto
  with False show ?thesis
    by (simp add: on_member_update_append)
qed

lemmas sched_inv_defs = sched_inv_def good_roles_def

subsection \<open>Each step keeps the invariant\<close>

lemma member_update_inv:
  assumes inv: "sched_inv tbl s" and dist: "distinct nr"
  shows "sched_inv tbl (member_update tbl s mbr nr)"
proof -
  obtain q' spawn where omu: "on_member_update tbl (role_update_queue s) (mid mbr) nr = (q', spawn)"
    by (cases "on_member_update tbl (role_update_queue s) (mid mbr) nr")
  let ?q = "role_update_queue s"
  have st: "member_update tbl s mbr nr =
      s\<lparr>role_update_queue := q', tasks := tasks s @ (if spawn then [SettleTimer mbr (clock s + 5)] else [])\<rparr>"
    by (simp add: member_update_def omu)
  have qinv: "queue_inv tbl q'"
    using on_member_update_keeps_inv [of tbl ?q nr "mid mbr"] inv dist omu by (simp add: sched_inv_def)
  have sp: "spawn \<longleftrightarrow> ?q (mid mbr) = None \<and> added_roles tbl nr \<noteq> []"
    using on_member_update_spawn_iff [of tbl ?q "mid mbr" nr] omu by simp
  have en: "q' (mid mbr) = None \<longleftrightarrow> ?q (mid mbr) = None \<and> added_roles tbl nr = []"
    using on_member_update_entry [of tbl ?q "mid mbr" nr] omu by simp
  have oth: "\<And>m. m \<noteq> mid mbr \<Longrightarrow> q' m = ?q m"
    using on_member_update_other omu by (metis fst_conv)
  have cnt: "settle_count m (tasks s @ (if spawn then [SettleTimer mbr (clock s + 5)] else [])) =
             (if q' m = None then 0 else 1)" for m
  proof (cases "m = mid mbr")
    case True
    with inv sp en show ?thesis
      by (auto simp: sched_inv_def)
  next
    case False
    with inv oth [OF False] show ?thesis
      by (auto simp: sched_inv_def)
  qed
  show ?thesis
    unfolding st using inv qinv cnt by (auto simp: sched_inv_def)
qed

lemma settle_inv:
  assumes inv: "sched_inv tbl s" and tm: "SettleTimer mbr w \<in> set (tasks s)"
    and en: "set_enum rl (set (dict_get (role_update_queue s) (mid mbr) []))"
  shows "sched_inv tbl (settle tbl nm chan s mbr w rl)"
proof -
  let ?q = "role_update_queue s"
  let ?s1 = "s\<lparr>role_update_queue := ?q(mid mbr := None), tasks := remove1 (SettleTimer mbr w) (tasks s)\<rparr>"
  have one: "settle_count (mid mbr) (tasks s) = 1" and some: "?q (mid mbr) \<noteq> None"
    using inv settle_count_pos [OF tm, of "mid mbr"] by (auto simp: sched_inv_def split: if_splits)
  have inv1: "sched_inv tbl ?s1"
  proof -
    have "settle_count m (remove1 (SettleTimer mbr w) (tasks s)) =
            (if (?q(mid mbr := None)) m = None then 0 else 1)" for m
      using inv one tm by (auto simp: sched_inv_def settle_count_remove1)
    then show ?thesis
      using inv by (auto simp: sched_inv_def queue_inv_del)
  qed
  have good: "good_roles tbl rl" if "dict_get ?q (mid mbr) [] \<noteq> []"
  proof -
    obtain xs where xs: "?q (mid mbr) = Some xs"
      using some by blast
    then have "good_roles tbl xs"
      using inv queue_inv_good by (auto simp: sched_inv_def)
    then show ?thesis
      using en xs good_roles_enum by simp
  qed
  show ?thesis
    using inv1 good
    by (auto simp: settle_def process_role_queue_def dict_pop_def Let_def sched_inv_def
             split: sum.splits)
qed

lemma send_done_inv:
  assumes inv: "sched_inv tbl s" and tm: "Sending mbr rl emb \<in> set (tasks s)"
  shows "sched_inv tbl (send_done s mbr rl emb res)"
proof -
  have good: "good_roles tbl rl"
    using inv tm by (auto simp: sched_inv_def dest: sending_goodD)
  have "settle_count m (remove1 (Sending mbr rl emb) (tasks s)) = settle_count m (tasks s)" for m
    by (simp add: settle_count_remove1)
  then show ?thesis
    using inv good
    by (auto simp: send_done_def Let_def sched_inv_def split: sum.splits)
qed

lemma delete_fire_inv:
  assumes inv: "sched_inv tbl s"
  shows "sched_inv tbl (delete_fire s msg w res)"
proof -
  have "settle_count m (remove1 (DeleteTimer msg w) (tasks s)) = settle_count m (tasks s)" for m
    by (simp add: settle_count_remove1)
  then show ?thesis
    using inv by (auto simp: delete_fire_def sched_inv_def)
qed


lemma init_inv: "sched_inv tbl init_state"
  by (simp add: init_state_def sched_inv_def)

lemma bot_step_inv: "bot_step tbl nm s t \<Longrightarrow> sched_inv tbl s \<Longrightarrow> sched_inv tbl t"
proof (induction rule: bot_step.induct)
  case (update nr after before s mbr)
  then show ?case
    by (simp add: member_update_inv)
next
  case (settle mbr w s rl chan)
  then show ?case
    by (simp add: settle_inv)
next
  case (send mbr rl emb s res)
  then show ?case
    by (simp add: send_done_inv)
next
  case (delete msg w s res)
  then show ?case
    by (simp add: delete_fire_inv)
next
  case (vanish s msg)
  then show ?case
    by (simp add: sched_inv_def)
next
  case (tick s)
  then show ?case
    by (simp add: sched_inv_def)
qed

subsection \<open>Properties of the running bot\<close>

lemma reachable_inv: "reachable tbl nm s \<Longrightarrow> sched_inv tbl s"
proof (induction rule: reachable.induct)
  case init
  show ?case by (rule init_inv)
next
  case (step s t)
  then show ?case by (blast intro: bot_step_inv)
qed

text \<open>
  C12. Every state the bot can reach satisfies the invariant: queue entries are
  non-empty duplicate-free lists of table roles, a member has an entry exactly when
  one settling timer for it is in flight, and every notification in flight or
  posted announces a non-empty duplicate-free list of table roles.
\<close>

theorem reachable_sched_inv: "reachable tbl nm s \<Longrightarrow> sched_inv tbl s"
  by (rule reachable_inv)

lemma reachable_timer_entry:
  assumes "reachable tbl nm s" and "SettleTimer mbr w \<in> set (tasks s)"
  shows "role_update_queue s (mid mbr) \<noteq> None"
  using reachable_inv [OF assms(1)] settle_count_pos [OF assms(2), of "mid mbr"]
  by (auto simp: sched_inv_def split: if_splits)

text \<open>
  C13. Coalescing: while a settling timer of a member is in flight, a role update of
  that member spawns no task and adds the eligible new roles to the set the timer
  will drain.
\<close>

theorem pending_update_coalesces:
  assumes "reachable tbl nm s" and "SettleTimer mbr w \<in> set (tasks s)" and "mid mbr' = mid mbr"
  shows "tasks (member_update tbl s mbr' nr) = tasks s \<and>
         abs_queue (role_update_queue (member_update tbl s mbr' nr)) (mid mbr) =
           abs_queue (role_update_queue s) (mid mbr) \<union> {r \<in> set nr. tbl r \<noteq> None}"
proof -
  let ?q = "role_update_queue s"
  have "?q (mid mbr) \<noteq> None"
    using assms(1,2) by (rule reachable_timer_entry)
  then have nospawn: "\<not> snd (on_member_update tbl ?q (mid mbr) nr)"
    by (simp add: on_member_update_spawn_iff)
  have "abs_queue (fst (on_member_update tbl ?q (mid mbr) nr)) = abs_enqueue tbl (abs_queue ?q) (mid mbr) (set nr)"
    by (rule on_member_update_abs)
  then show ?thesis
    using nospawn assms(3)
    by (auto simp: member_update_def abs_enqueue_def split: prod.splits)
qed

text \<open>
  C14. The flush reads the pending set at the moment it fires: a due timer of a
  member with an avatar, when the channel is found, empties the member's entry and
  puts into flight one notification whose roles are exactly the pending set
  (in the order Python iterates it), each with its own field.
\<close>

theorem settle_drains_pending:
  assumes "reachable tbl nm s" and "SettleTimer mbr w \<in> set (tasks s)"
    and "avatar mbr = Some url"
    and "set_enum rl (set (dict_get (role_update_queue s) (mid mbr) []))"
  shows "\<exists>emb. settle tbl nm True s mbr w rl =
            s\<lparr>role_update_queue := (role_update_queue s)(mid mbr := None),
              tasks := remove1 (SettleTimer mbr w) (tasks s) @ [Sending mbr rl emb]\<rparr> \<and>
            embed_fields emb = map (\<lambda>r. (nm r, ''<#'' @ the (tbl r) @ ''>'', True)) rl \<and>
            set rl = abs_queue (role_update_queue s) (mid mbr) \<and> rl \<noteq> []"
proof -
  let ?q = "role_update_queue s"
  obtain xs where xs: "?q (mid mbr) = Some xs"
    using reachable_timer_entry [OF assms(1,2)] by blast
  have "good_roles tbl xs"
    using reachable_inv [OF assms(1)] xs queue_inv_good by (auto simp: sched_inv_def)
  then have good: "good_roles tbl rl"
    using assms(4) xs good_roles_enum by simp
  then have "rl \<noteq> []" and tb: "\<forall>r \<in> set rl. tbl r \<noteq> None"
    by (simp_all add: good_roles_def)
  then obtain emb where emb: "verification_embed tbl nm mbr rl (clock s) = Inr emb"
      and fl: "embed_fields emb = map (\<lambda>r. (nm r, ''<#'' @ the (tbl r) @ ''>'', True)) rl"
    using verification_embed_field_pairs [OF assms(3)] by fastforce
  have "xs \<noteq> []"
    using \<open>good_roles tbl xs\<close> by (simp add: good_roles_def)
  then have "settle tbl nm True s mbr w rl =
            s\<lparr>role_update_queue := ?q(mid mbr := None),
              tasks := remove1 (SettleTimer mbr w) (tasks s) @ [Sending mbr rl emb]\<rparr>"
    using xs emb by (simp add: settle_def process_role_queue_def dict_pop_def)
  moreover have "set rl = abs_queue ?q (mid mbr)"
    using assms(4) by (simp add: abs_queue_def set_enum_def)
  ultimately show ?thesis
    using fl \<open>rl \<noteq> []\<close> by blast
qed

text \<open>
  C15. Members are independent: the handler and the flush of one member leave the
  queue entry of every other member as it was.
\<close>

theorem steps_independent_members:
  assumes "m \<noteq> mid mbr"
  shows "role_update_queue (member_update tbl s mbr nr) m = role_update_queue s m \<and>
         role_update_queue (settle tbl nm chan s mbr w rl) m = role_update_queue s m"
  using assms on_member_update_other [OF assms, of tbl "role_update_queue s" nr]
  by (auto simp: member_update_def settle_def process_role_queue_def dict_pop_def Let_def
           split: prod.splits sum.splits)

text \<open>
  The notifier's completion and the deletion ticket never touch the pending
  state: whatever Discord answers, a send or a deletion leaves the queue and the
  settling timers as they were (a failed send re-queues nothing).
\<close>

lemma notifier_steps_keep_queue:
  "role_update_queue (send_done s mbr rl emb res) = role_update_queue s \<and>
   settle_count m (tasks (send_done s mbr rl emb res)) = settle_count m (tasks s) \<and>
   role_update_queue (delete_fire s msg w dres) = role_update_queue s \<and>
   settle_count m (tasks (delete_fire s msg w dres)) = settle_count m (tasks s)"
  by (simp add: send_done_def delete_fire_def Let_def settle_count_remove1 split: sum.splits)


subsection \<open>The embeds in flight\<close>

lemma sending_embeds_remove1: "sending_embeds tbl nm ts \<Longrightarrow> sending_embeds tbl nm (remove1 x ts)"
  by (auto simp: sending_embeds_def dest: subsetD [OF set_remove1_subset])

lemma sending_embeds_append [simp]:
  "sending_embeds tbl nm (ts @ us) \<longleftrightarrow> sending_embeds tbl nm ts \<and> sending_embeds tbl nm us"
  by (auto simp: sending_embeds_def)

lemma bot_step_embeds:
  "bot_step tbl nm s t \<Longrightarrow> sending_embeds tbl nm (tasks s) \<Longrightarrow> sending_embeds tbl nm (tasks t)"
proof (induction rule: bot_step.induct)
  case (update nr after before s mbr)
  then show ?case by (simp add: member_update_def sending_embeds_def split: prod.splits)
next
  case (settle mbr w s rl chan)
  then show ?case
    by (auto simp: settle_def Let_def sending_embeds_remove1 sending_embeds_def [of _ _ "[_]"]
             split: prod.splits sum.splits)
next
  case (send mbr rl emb s res)
  then show ?case
    by (auto simp: send_done_def Let_def sending_embeds_remove1 sending_embeds_def [of _ _ "[_]"]
             split: sum.splits)
next
  case (delete msg w s res)
  then show ?case by (simp add: delete_fire_def sending_embeds_remove1)
qed simp_all

lemma reachable_embeds: "reachable tbl nm s \<Longrightarrow> sending_embeds tbl nm (tasks s)"
proof (induction rule: reachable.induct)
  case init
  then show ?case by (simp add: init_state_def sending_embeds_def)
next
  case (step s t)
  from step.hyps(2) step.IH show ?case
    by (rule bot_step_embeds)
qed

lemma verification_embed_fields_le:
  "verification_embed tbl nm mbr rl now = Inr emb \<Longrightarrow> length (embed_fields emb) \<le> length rl"
  by (auto simp: verification_embed_def Let_def split: option.splits sum.splits)

lemma good_roles_card: "finite (dom tbl) \<Longrightarrow> good_roles tbl rl \<Longrightarrow> length rl \<le> card (dom tbl)"
  by (metis card_mono distinct_card domIff good_roles_def subsetI)

lemma reachable_ticks: "reachable tbl nm s \<Longrightarrow> reachable tbl nm (s\<lparr>clock := clock s + k\<rparr>)"
proof (induction k)
  case 0
  then show ?case by simp
next
  case (Suc k)
  have "bot_step tbl nm (s\<lparr>clock := clock s + k\<rparr>) (s\<lparr>clock := clock s + Suc k\<rparr>)"
    using bot_step.tick [of tbl nm "s\<lparr>clock := clock s + k\<rparr>"] by simp
  with Suc show ?case
    by (auto intro: reachable.step)
qed

text \<open>
  C16. Every notification in flight stays within Discord's limits: its embed has at
  most one field per announced role, and it announces at most as many roles as the
  table has entries (four for \<open>role_to_channel\<close>, where Discord allows 25 fields).
\<close>

theorem notification_embed_bound:
  assumes "finite (dom tbl)" and "reachable tbl nm s" and "Sending mbr rl emb \<in> set (tasks s)"
  shows "length (embed_fields emb) \<le> length rl \<and> length rl \<le> card (dom tbl)"
proof -
  obtain now where "verification_embed tbl nm mbr rl now = Inr emb"
    using reachable_embeds [OF assms(2)] assms(3) unfolding sending_embeds_def by blast
  then have "length (embed_fields emb) \<le> length rl"
    by (rule verification_embed_fields_le)
  moreover have "good_roles tbl rl"
    using reachable_inv [OF assms(2)] assms(3) by (auto simp: sched_inv_def sending_good_def)
  then have "length rl \<le> card (dom tbl)"
    by (rule good_roles_card [OF assms(1)])
  ultimately show ?thesis ..
qed

subsection \<open>A concrete run\<close>

text \<open>
  Member 5 is granted the first role of the table from the initial state: the
  handler stores the role and spawns the member's settling timer.
\<close>

lemma demo_reachable: "reachable role_to_channel (\<lambda>_. ''Plugin'') (member_update role_to_channel init_state \<lparr>mid = 5, avatar = Some ''a.png''\<rparr> [380725404262072320])"
  by (rule reachable.step [OF reachable.init bot_step.update [where after = "[380725404262072320]" and before = "[]"]])
     (simp add: set_enum_def)

lemma demo_state:
  "(member_update role_to_channel init_state \<lparr>mid = 5, avatar = Some ''a.png''\<rparr> [380725404262072320]) = init_state\<lparr>role_update_queue := [5 \<mapsto> [380725404262072320]], tasks := [SettleTimer \<lparr>mid = 5, avatar = Some ''a.png''\<rparr> 5]\<rparr>"
  by (simp add: member_update_def on_member_update_def init_state_def role_to_channel_def
                added_roles_def unique_roles_def)

lemma demo_timer: "SettleTimer \<lparr>mid = 5, avatar = Some ''a.png''\<rparr> 5 \<in> set (tasks (member_update role_to_channel init_state \<lparr>mid = 5, avatar = Some ''a.png''\<rparr> [380725404262072320]))"
  by (simp add: demo_state)

theorem reachable_sched_inv_witness:
  "reachable role_to_channel (\<lambda>_. ''Plugin'') (member_update role_to_channel init_state \<lparr>mid = 5, avatar = Some ''a.png''\<rparr> [380725404262072320]) \<and> sched_inv role_to_channel (member_update role_to_channel init_state \<lparr>mid = 5, avatar = Some ''a.png''\<rparr> [380725404262072320])"
  using demo_reachable reachable_sched_inv [OF demo_reachable] by blast

theorem pending_update_coalesces_witness:
  "reachable role_to_channel (\<lambda>_. ''Plugin'') (member_update role_to_channel init_state \<lparr>mid = 5, avatar = Some ''a.png''\<rparr> [380725404262072320]) \<and> SettleTimer \<lparr>mid = 5, avatar = Some ''a.png''\<rparr> 5 \<in> set (tasks (member_update role_to_channel init_state \<lparr>mid = 5, avatar = Some ''a.png''\<rparr> [380725404262072320])) \<and>
   mid \<lparr>mid = 5, avatar = None\<rparr> = mid \<lparr>mid = 5, avatar = Some ''a.png''\<rparr> \<and>
   tasks (member_update role_to_channel (member_update role_to_channel init_state \<lparr>mid = 5, avatar = Some ''a.png''\<rparr> [380725404262072320]) \<lparr>mid = 5, avatar = None\<rparr> [393044988411379742, 7]) = tasks (member_update role_to_channel init_state \<lparr>mid = 5, avatar = Some ''a.png''\<rparr> [380725404262072320]) \<and>
   abs_queue (role_update_queue (member_update role_to_channel (member_update role_to_channel init_state \<lparr>mid = 5, avatar = Some ''a.png''\<rparr> [380725404262072320]) \<lparr>mid = 5, avatar = None\<rparr> [393044988411379742, 7])) 5
     = abs_queue (role_update_queue (member_update role_to_channel init_state \<lparr>mid = 5, avatar = Some ''a.png''\<rparr> [380725404262072320])) 5 \<union> {r \<in> set [393044988411379742, 7]. role_to_channel r \<noteq> None}"
  using demo_reachable demo_timer
    pending_update_coalesces [OF demo_reachable demo_timer, of "\<lparr>mid = 5, avatar = None\<rparr>" "[393044988411379742, 7]"]
  by simp

theorem settle_drains_pending_witness:
  "reachable role_to_channel (\<lambda>_. ''Plugin'') (member_update role_to_channel init_state \<lparr>mid = 5, avatar = Some ''a.png''\<rparr> [380725404262072320]) \<and> SettleTimer \<lparr>mid = 5, avatar = Some ''a.png''\<rparr> 5 \<in> set (tasks (member_update role_to_channel init_state \<lparr>mid = 5, avatar = Some ''a.png''\<rparr> [380725404262072320])) \<and>
   avatar \<lparr>mid = 5, avatar = Some ''a.png''\<rparr> = Some ''a.png'' \<and>
   set_enum [380725404262072320] (set (dict_get (role_update_queue (member_update role_to_channel init_state \<lparr>mid = 5, avatar = Some ''a.png''\<rparr> [380725404262072320])) (mid \<lparr>mid = 5, avatar = Some ''a.png''\<rparr>) [])) \<and>
   (\<exists>emb. settle role_to_channel (\<lambda>_. ''Plugin'') True (member_update role_to_channel init_state \<lparr>mid = 5, avatar = Some ''a.png''\<rparr> [380725404262072320]) \<lparr>mid = 5, avatar = Some ''a.png''\<rparr> 5 [380725404262072320] =
      (member_update role_to_channel init_state \<lparr>mid = 5, avatar = Some ''a.png''\<rparr> [380725404262072320])\<lparr>role_update_queue := (role_update_queue (member_update role_to_channel init_state \<lparr>mid = 5, avatar = Some ''a.png''\<rparr> [380725404262072320]))(mid \<lparr>mid = 5, avatar = Some ''a.png''\<rparr> := None),
         tasks := remove1 (SettleTimer \<lparr>mid = 5, avatar = Some ''a.png''\<rparr> 5) (tasks (member_update role_to_channel init_state \<lparr>mid = 5, avatar = Some ''a.png''\<rparr> [380725404262072320])) @ [Sending \<lparr>mid = 5, avatar = Some ''a.png''\<rparr> [380725404262072320] emb]\<rparr> \<and>
      embed_fields emb = map (\<lambda>r. ((\<lambda>_. ''Plugin'') r, ''<#'' @ the (role_to_channel r) @ ''>'', True)) [380725404262072320] \<and>
      set [380725404262072320] = abs_queue (role_update_queue (member_update role_to_channel init_state \<lparr>mid = 5, avatar = Some ''a.png''\<rparr> [380725404262072320])) (mid \<lparr>mid = 5, avatar = Some ''a.png''\<rparr>) \<and> [380725404262072320 :: int] \<noteq> [])"
proof -
  have en: "set_enum [380725404262072320] (set (dict_get (role_update_queue (member_update role_to_channel init_state \<lparr>mid = 5, avatar = Some ''a.png''\<rparr> [380725404262072320])) (mid \<lparr>mid = 5, avatar = Some ''a.png''\<rparr>) []))"
    by (simp add: demo_state set_enum_def)
  show ?thesis
    using demo_reachable demo_timer en
      settle_drains_pending [OF demo_reachable demo_timer _ en, of "''a.png''"]
    by simp
qed

theorem steps_independent_members_witness:
  "(6 :: int) \<noteq> mid \<lparr>mid = 5, avatar = Some ''a.png''\<rparr> \<and>
   role_update_queue (member_update role_to_channel init_state \<lparr>mid = 5, avatar = Some ''a.png''\<rparr> [380725404262072320]) 6 =
     role_update_queue init_state 6 \<and>
   role_update_queue (settle role_to_channel (\<lambda>_. ''Plugin'') True init_state \<lparr>mid = 5, avatar = Some ''a.png''\<rparr> 5 []) 6 = role_update_queue init_state 6"
  using steps_independent_members [of 6 "\<lparr>mid = 5, avatar = Some ''a.png''\<rparr>" role_to_channel init_state "[380725404262072320]" "\<lambda>_. ''Plugin''" True 5 "[]"]
  by simp


theorem notification_embed_bound_witness:
  "finite (dom role_to_channel) \<and>
   reachable role_to_channel (\<lambda>_. ''Plugin'') (settle role_to_channel (\<lambda>_. ''Plugin'') True ((member_update role_to_channel init_state \<lparr>mid = 5, avatar = Some ''a.png''\<rparr> [380725404262072320])\<lparr>clock := 5\<rparr>) \<lparr>mid = 5, avatar = Some ''a.png''\<rparr> 5 [380725404262072320]) \<and>
   Sending \<lparr>mid = 5, avatar = Some ''a.png''\<rparr> [380725404262072320] (projr (verification_embed role_to_channel (\<lambda>_. ''Plugin'') \<lparr>mid = 5, avatar = Some ''a.png''\<rparr> [380725404262072320] 5)) \<in> set (tasks (settle role_to_channel (\<lambda>_. ''Plugin'') True ((member_update role_to_channel init_state \<lparr>mid = 5, avatar = Some ''a.png''\<rparr> [380725404262072320])\<lparr>clock := 5\<rparr>) \<lparr>mid = 5, avatar = Some ''a.png''\<rparr> 5 [380725404262072320])) \<and>
   length (embed_fields (projr (verification_embed role_to_channel (\<lambda>_. ''Plugin'') \<lparr>mid = 5, avatar = Some ''a.png''\<rparr> [380725404262072320] 5))) \<le> length [380725404262072320 :: role_id] \<and> length [380725404262072320 :: role_id] \<le> card (dom role_to_channel)"
proof -
  have fin: "finite (dom role_to_channel)"
    by (simp add: role_to_channel_def)
  have r5: "reachable role_to_channel (\<lambda>_. ''Plugin'') ((member_update role_to_channel init_state \<lparr>mid = 5, avatar = Some ''a.png''\<rparr> [380725404262072320])\<lparr>clock := 5\<rparr>)"
  proof -
    have "clock (member_update role_to_channel init_state \<lparr>mid = 5, avatar = Some ''a.png''\<rparr> [380725404262072320]) = 0"
      by (simp only: demo_state) (simp add: init_state_def)
    then show ?thesis
      using reachable_ticks [OF demo_reachable, of 5] by (simp only: add_0)
  qed
  have r6: "reachable role_to_channel (\<lambda>_. ''Plugin'') (settle role_to_channel (\<lambda>_. ''Plugin'') True ((member_update role_to_channel init_state \<lparr>mid = 5, avatar = Some ''a.png''\<rparr> [380725404262072320])\<lparr>clock := 5\<rparr>) \<lparr>mid = 5, avatar = Some ''a.png''\<rparr> 5 [380725404262072320])"
    by (rule reachable.step [OF r5 bot_step.settle]) (simp_all add: demo_state set_enum_def)
  have mem: "Sending \<lparr>mid = 5, avatar = Some ''a.png''\<rparr> [380725404262072320] (projr (verification_embed role_to_channel (\<lambda>_. ''Plugin'') \<lparr>mid = 5, avatar = Some ''a.png''\<rparr> [380725404262072320] 5)) \<in> set (tasks (settle role_to_channel (\<lambda>_. ''Plugin'') True ((member_update role_to_channel init_state \<lparr>mid = 5, avatar = Some ''a.png''\<rparr> [380725404262072320])\<lparr>clock := 5\<rparr>) \<lparr>mid = 5, avatar = Some ''a.png''\<rparr> 5 [380725404262072320]))"
    by (simp only: demo_state)
       (simp add: settle_def init_state_def process_role_queue_def dict_pop_def verification_embed_def
                  verification_text_def role_mentions_def role_to_channel_def)
  show ?thesis
    using fin r6 mem notification_embed_bound [OF fin r6 mem] by simp
qed

end
