(* ===== verification/Simulation.thy ===== *)
theory Simulation
  imports Scheduler
begin

text \<open>
  A deterministic schedule of the asyncio loop of \<open>Scheduler\<close>: every second, the
  tasks that are due run in the order of the task list until none is, then the clock
  advances.  A settling timer is due at its deadline, a pending \<open>channel.send\<close>
  at once, a deletion ticket on its day; Discord finds the verification channel,
  accepts every message, and answers a deletion with \<open>NotFound\<close> exactly when the
  message is gone.  Member updates happen at given instants, before the timers
  that fall due at the same instant.  The order in which CPython iterates over
  \<open>set(roles)\<close> (bot_class.py line 123) depends on the roles' hashes and on the
  set's history; the executor takes it as a parameter \<open>it\<close>, the list
  \<open>list(set(xs))\<close> for the queued list \<open>xs\<close>, of which it only assumes that it
  enumerates the set without repetition (\<open>python_set_order\<close>).  The executor
  refines \<open>bot_step\<close>, so the safety theorems of \<open>Scheduler\<close> hold for it, and
  it shows the liveness the safety theorems cannot: a burst of grants is announced
  once the window closes.
\<close>

type_synonym set_order = "role_id list \<Rightarrow> role_id list"

definition python_set_order :: "set_order \<Rightarrow> bool" where
  "python_set_order it \<longleftrightarrow> (\<forall>xs. set_enum (it xs) (set xs))"

fun due_task :: "nat \<Rightarrow> task list \<Rightarrow> task option" where
  "due_task now [] = None"
| "due_task now (SettleTimer mbr w # ts) = (if w \<le> now then Some (SettleTimer mbr w) else due_task now ts)"
| "due_task now (Sending mbr rl emb # ts) = Some (Sending mbr rl emb)"
| "due_task now (DeleteTimer msg w # ts) = (if w \<le> now then Some (DeleteTimer msg w) else due_task now ts)"

definition fire :: "role_table \<Rightarrow> (role_id \<Rightarrow> string) \<Rightarrow> set_order \<Rightarrow> bot_state \<Rightarrow> task \<Rightarrow> bot_state" where
  "fire tbl nm it s t =
     (case t of
        SettleTimer mbr w \<Rightarrow> settle tbl nm True s mbr w (it (dict_get (role_update_queue s) (mid mbr) []))
      | Sending mbr rl emb \<Rightarrow> send_done s mbr rl emb (Inr ())
      | DeleteTimer msg w \<Rightarrow>
          delete_fire s msg w (if msg \<in> set (channel_msgs s) then None else Some NotFound))"

text \<open>
  \<open>flush\<close> runs due tasks while there are some, with fuel: a settling timer makes
  at most one send, which makes a ticket a day later, so twice the number of tasks
  plus one is enough (\<open>second\<close>).
\<close>

fun flush :: "role_table \<Rightarrow> (role_id \<Rightarrow> string) \<Rightarrow> set_order \<Rightarrow> nat \<Rightarrow> bot_state \<Rightarrow> bot_state" where
  "flush tbl nm it 0 s = s"
| "flush tbl nm it (Suc n) s =
     (case due_task (clock s) (tasks s) of
        None \<Rightarrow> s
      | Some t \<Rightarrow> flush tbl nm it n (fire tbl nm it s t))"

definition second :: "role_table \<Rightarrow> (role_id \<Rightarrow> string) \<Rightarrow> set_order \<Rightarrow> bot_state \<Rightarrow> bot_state" where
  "second tbl nm it s =
     (let s' = flush tbl nm it (2 * length (tasks s) + 1) s in s'\<lparr>clock := Suc (clock s')\<rparr>)"

fun advance :: "role_table \<Rightarrow> (role_id \<Rightarrow> string) \<Rightarrow> set_order \<Rightarrow> nat \<Rightarrow> bot_state \<Rightarrow> bot_state" where
  "advance tbl nm it 0 s = s"
| "advance tbl nm it (Suc k) s = advance tbl nm it k (second tbl nm it s)"

text \<open>Events: at instant \<open>t\<close>, member \<open>mbr\<close> is granted the roles \<open>nr\<close>, without repetition.\<close>

fun run :: "role_table \<Rightarrow> (role_id \<Rightarrow> string) \<Rightarrow> set_order \<Rightarrow> (nat \<times> member \<times> role_id list) list \<Rightarrow>
            bot_state \<Rightarrow> bot_state" where
  "run tbl nm it [] s = s"
| "run tbl nm it ((t, mbr, nr) # evs) s =
     run tbl nm it evs (member_update tbl (advance tbl nm it (t - clock s) s) mbr nr)"

text \<open>
  The fuel argument: a due settling timer weighs two (it may leave a send behind), a
  pending send and a due deletion ticket one; every task that runs lowers the weight
  of the due tasks, and \<open>timers_by D\<close> says that every settling timer falls due
  by instant \<open>D\<close>.
\<close>

fun task_weight :: "nat \<Rightarrow> task \<Rightarrow> nat" where
  "task_weight now (SettleTimer mbr w) = (if w \<le> now then 2 else 0)"
| "task_weight now (Sending mbr rl emb) = 1"
| "task_weight now (DeleteTimer msg w) = (if w \<le> now then 1 else 0)"

definition due_weight :: "nat \<Rightarrow> task list \<Rightarrow> nat" where
  "due_weight now ts = sum_list (map (task_weight now) ts)"

fun settle_by :: "nat \<Rightarrow> task \<Rightarrow> bool" where
  "settle_by D (SettleTimer mbr w) = (w \<le> D)"
| "settle_by D (Sending mbr rl emb) = True"
| "settle_by D (DeleteTimer msg w) = True"

definition timers_by :: "nat \<Rightarrow> task list \<Rightarrow> bool" where
  "timers_by D ts = list_all (settle_by D) ts"

text \<open>A task that stays asleep up to instant \<open>T\<close>.\<close>

definition asleep_until :: "nat \<Rightarrow> task \<Rightarrow> bool" where
  "asleep_until T t =
     (case t of SettleTimer mbr w \<Rightarrow> T \<le> w | Sending mbr rl emb \<Rightarrow> False | DeleteTimer msg w \<Rightarrow> T \<le> w)"

subsection \<open>The executor refines the transition system\<close>

lemma due_task_SomeD:
  "due_task now ts = Some t \<Longrightarrow>
   t \<in> set ts \<and> (case t of SettleTimer mbr w \<Rightarrow> w \<le> now | Sending mbr rl emb \<Rightarrow> True
                    | DeleteTimer msg w \<Rightarrow> w \<le> now)"
  by (induction now ts rule: due_task.induct) (auto split: if_splits)

lemma fire_step:
  assumes "python_set_order it" and "due_task (clock s) (tasks s) = Some t"
  shows "bot_step tbl nm s (fire tbl nm it s t)"
proof (cases t)
  case (SettleTimer mbr w)
  have "set_enum (it (dict_get (role_update_queue s) (mid mbr) [])) (set (dict_get (role_update_queue s) (mid mbr) []))"
    using assms(1) by (simp add: python_set_order_def)
  with SettleTimer due_task_SomeD [OF assms(2)] show ?thesis
    by (auto simp: fire_def intro: bot_step.settle)
next
  case (Sending mbr rl emb)
  with due_task_SomeD [OF assms(2)] show ?thesis
    by (auto simp: fire_def intro: bot_step.send)
next
  case (DeleteTimer msg w)
  with due_task_SomeD [OF assms(2)] show ?thesis
    by (auto simp: fire_def intro: bot_step.delete)
qed

lemma flush_reachable:
  "python_set_order it \<Longrightarrow> reachable tbl nm s \<Longrightarrow> reachable tbl nm (flush tbl nm it n s)"
proof (induction n arbitrary: s)
  case 0
  then show ?case by simp
next
  case (Suc n)
  show ?case
  proof (cases "due_task (clock s) (tasks s)")
    case None
    with Suc.prems show ?thesis by simp
  next
    case (Some t)
    have "reachable tbl nm (fire tbl nm it s t)"
      using Suc.prems(2) fire_step [OF Suc.prems(1) Some] by (rule reachable.step)
    with Some Suc.IH Suc.prems(1) show ?thesis by simp
  qed
qed

lemma second_reachable:
  "python_set_order it \<Longrightarrow> reachable tbl nm s \<Longrightarrow> reachable tbl nm (second tbl nm it s)"
  unfolding second_def Let_def
  by (rule reachable.step [OF flush_reachable bot_step.tick])

lemma advance_reachable:
  "python_set_order it \<Longrightarrow> reachable tbl nm s \<Longrightarrow> reachable tbl nm (advance tbl nm it k s)"
  by (induction k arbitrary: s) (simp_all add: second_reachable)

lemma update_reachable:
  "reachable tbl nm s \<Longrightarrow> distinct nr \<Longrightarrow> reachable tbl nm (member_update tbl s mbr nr)"
  by (rule reachable.step, assumption, rule bot_step.update [of nr nr "[]"]) (simp add: set_enum_def)


subsection \<open>Quiet seconds\<close>


lemma due_task_None: "list_all (asleep_until T) ts \<Longrightarrow> now < T \<Longrightarrow> due_task now ts = None"
  by (induction now ts rule: due_task.induct) (auto simp: asleep_until_def)

lemma flush_idle: "due_task (clock s) (tasks s) = None \<Longrightarrow> flush tbl nm it n s = s"
  by (cases n) simp_all

lemma advance_quiet:
  "list_all (asleep_until (clock s + k)) (tasks s) \<Longrightarrow> advance tbl nm it k s = s\<lparr>clock := clock s + k\<rparr>"
proof (induction k arbitrary: s)
  case 0
  then show ?case by simp
next
  case (Suc k)
  have "due_task (clock s) (tasks s) = None"
    using Suc.prems by (rule due_task_None) simp
  then have "second tbl nm it s = s\<lparr>clock := Suc (clock s)\<rparr>"
    by (simp add: second_def flush_idle)
  moreover have "list_all (asleep_until (clock (s\<lparr>clock := Suc (clock s)\<rparr>) + k)) (tasks s)"
    using Suc.prems by simp
  ultimately show ?case
    using Suc.IH [of "s\<lparr>clock := Suc (clock s)\<rparr>"] by simp
qed

lemma advance_add: "advance tbl nm it (a + b) s = advance tbl nm it b (advance tbl nm it a s)"
  by (induction a arbitrary: s) simp_all

subsection \<open>The fuel of a second is enough\<close>

lemma settle_tasks:
  "clock (settle tbl nm ch s mbr w rl) = clock s \<and>
   (tasks (settle tbl nm ch s mbr w rl) = remove1 (SettleTimer mbr w) (tasks s) \<or>
    (\<exists>emb. tasks (settle tbl nm ch s mbr w rl) = remove1 (SettleTimer mbr w) (tasks s) @ [Sending mbr rl emb]))"
  by (auto simp: settle_def Let_def split: prod.splits sum.splits)

lemma timers_by_Sending [simp]: "timers_by D [Sending mbr rl emb]"
  by (simp add: timers_by_def)

lemma timers_by_Delete [simp]: "timers_by D [DeleteTimer msg w]"
  by (simp add: timers_by_def)

lemma timers_by_Nil [simp]: "timers_by D []"
  by (simp add: timers_by_def)

lemma fire_tasks:
  "clock (fire tbl nm it s t) = clock s \<and>
   (\<exists>new. tasks (fire tbl nm it s t) = remove1 t (tasks s) @ new \<and> timers_by 0 new \<and>
          due_weight (clock s) new \<le> (case t of SettleTimer mbr w \<Rightarrow> 1 | _ \<Rightarrow> 0))"
proof (cases t)
  case (SettleTimer mbr w)
  let ?rl = "it (dict_get (role_update_queue s) (mid mbr) [])"
  let ?X = "settle tbl nm True s mbr w ?rl"
  have fx: "fire tbl nm it s t = ?X"
    using SettleTimer by (simp add: fire_def)
  have c: "clock ?X = clock s"
    and d: "tasks ?X = remove1 t (tasks s) \<or> (\<exists>emb. tasks ?X = remove1 t (tasks s) @ [Sending mbr ?rl emb])"
    using settle_tasks [of tbl nm True s mbr w ?rl] SettleTimer by simp_all
  from d show ?thesis
  proof
    assume "tasks ?X = remove1 t (tasks s)"
    with c fx SettleTimer show ?thesis
      by (intro conjI exI [of _ "[]"]) (simp_all add: due_weight_def)
  next
    assume "\<exists>emb. tasks ?X = remove1 t (tasks s) @ [Sending mbr ?rl emb]"
    then obtain emb where "tasks ?X = remove1 t (tasks s) @ [Sending mbr ?rl emb]" ..
    with c fx SettleTimer show ?thesis
      by (intro conjI exI [of _ "[Sending mbr ?rl emb]"]) (simp_all add: due_weight_def)
  qed
next
  case (Sending mbr rl emb)
  then show ?thesis
    by (auto simp: fire_def send_done_def due_weight_def)
next
  case (DeleteTimer msg w)
  then show ?thesis
    by (simp add: fire_def delete_fire_def due_weight_def)
qed

lemma due_weight_remove1:
  "x \<in> set ts \<Longrightarrow> due_weight now ts = task_weight now x + due_weight now (remove1 x ts)"
  unfolding due_weight_def by (rule sum_list_map_remove1)

lemma fire_decreases:
  assumes "due_task (clock s) (tasks s) = Some t"
  shows "due_weight (clock s) (tasks (fire tbl nm it s t)) < due_weight (clock s) (tasks s)"
proof -
  obtain new where new: "tasks (fire tbl nm it s t) = remove1 t (tasks s) @ new"
      and w: "due_weight (clock s) new \<le> (case t of SettleTimer mbr w \<Rightarrow> 1 | _ \<Rightarrow> 0)"
    using fire_tasks [of tbl nm it s t] by blast
  have t: "t \<in> set (tasks s)" and due: "case t of SettleTimer mbr w \<Rightarrow> w \<le> clock s | Sending mbr rl emb \<Rightarrow> True
                    | DeleteTimer msg w \<Rightarrow> w \<le> clock s"
    using due_task_SomeD [OF assms] by simp_all
  have "due_weight (clock s) new < task_weight (clock s) t"
    using w due by (cases t) simp_all
  then show ?thesis
    using due_weight_remove1 [OF t, of "clock s"] new by (simp add: due_weight_def)
qed

lemma fire_clock [simp]: "clock (fire tbl nm it s t) = clock s"
  using fire_tasks by blast

lemma flush_clock [simp]: "clock (flush tbl nm it n s) = clock s"
  by (induction n arbitrary: s) (simp_all split: option.split)

lemma second_clock [simp]: "clock (second tbl nm it s) = Suc (clock s)"
  by (simp add: second_def Let_def del: flush.simps)

lemma second_tasks: "tasks (second tbl nm it s) = tasks (flush tbl nm it (2 * length (tasks s) + 1) s)"
  by (simp add: second_def Let_def del: flush.simps)

lemma second_queue: "role_update_queue (second tbl nm it s) = role_update_queue (flush tbl nm it (2 * length (tasks s) + 1) s)"
  by (simp add: second_def Let_def del: flush.simps)

lemma advance_clock: "clock (advance tbl nm it k s) = clock s + k"
  by (induction k arbitrary: s) simp_all

lemma flush_runs_out:
  "due_weight (clock s) (tasks s) < n \<Longrightarrow> due_task (clock s) (tasks (flush tbl nm it n s)) = None"
proof (induction n arbitrary: s)
  case 0
  then show ?case by simp
next
  case (Suc n)
  show ?case
  proof (cases "due_task (clock s) (tasks s)")
    case None
    then show ?thesis by simp
  next
    case (Some t)
    with Suc.prems fire_decreases [OF Some, of tbl nm it] Suc.IH [of "fire tbl nm it s t"] show ?thesis
      by simp
  qed
qed

lemma due_weight_le: "due_weight now ts \<le> 2 * length ts"
proof (induction ts)
  case Nil
  then show ?case by (simp add: due_weight_def)
next
  case (Cons t ts)
  have "task_weight now t \<le> 2"
    by (cases t) simp_all
  with Cons show ?case by (simp add: due_weight_def)
qed

lemma timers_by_append [simp]: "timers_by D (xs @ ys) \<longleftrightarrow> timers_by D xs \<and> timers_by D ys"
  by (simp add: timers_by_def)

lemma timers_by_remove1: "timers_by D xs \<Longrightarrow> timers_by D (remove1 x xs)"
  by (auto simp: timers_by_def list_all_iff dest: subsetD [OF set_remove1_subset])

lemma settle_by_0: "settle_by 0 t \<Longrightarrow> settle_by D t"
  by (cases t) simp_all

lemma timers_by_0: "timers_by 0 ts \<Longrightarrow> timers_by D ts"
  by (auto simp: timers_by_def list_all_iff settle_by_0)

lemma timers_by_fire: "timers_by D (tasks s) \<Longrightarrow> timers_by D (tasks (fire tbl nm it s t))"
  using fire_tasks [of tbl nm it s t] by (auto simp: timers_by_remove1 timers_by_0)

lemma timers_by_flush: "timers_by D (tasks s) \<Longrightarrow> timers_by D (tasks (flush tbl nm it n s))"
  by (induction n arbitrary: s) (simp_all add: timers_by_fire split: option.split)

lemma timers_by_advance: "timers_by D (tasks s) \<Longrightarrow> timers_by D (tasks (advance tbl nm it k s))"
  by (induction k arbitrary: s) (simp_all add: second_tasks timers_by_flush del: flush.simps)

lemma no_due_no_timer: "due_task now ts = None \<Longrightarrow> timers_by now ts \<Longrightarrow> settle_count m ts = 0"
  by (induction now ts rule: due_task.induct) (simp_all add: timers_by_def settle_count_def split: if_splits)

text \<open>Every settling timer of a reachable state falls due within five seconds.\<close>

lemma bot_step_timers:
  "bot_step tbl nm s s' \<Longrightarrow> timers_by (clock s + 5) (tasks s) \<Longrightarrow> timers_by (clock s' + 5) (tasks s')"
proof (induction rule: bot_step.induct)
  case (update nr after before s mbr)
  then show ?case
    by (simp add: member_update_def timers_by_def split: prod.split)
next
  case (settle mbr w s rl chan)
  then show ?case
    using settle_tasks [of tbl nm chan s mbr w rl] by (elim conjE disjE exE) (simp_all add: timers_by_remove1)
next
  case (send mbr rl emb s res)
  then show ?case
    by (simp add: send_done_def timers_by_remove1 Let_def split: sum.split)
next
  case (delete msg w s res)
  then show ?case
    by (simp add: delete_fire_def timers_by_remove1)
next
  case (vanish s msg)
  then show ?case by simp
next
  case (tick s)
  have "settle_by (clock s + 5) t \<Longrightarrow> settle_by (Suc (clock s) + 5) t" for t
    by (cases t) simp_all
  with tick show ?case
    by (auto simp: timers_by_def list_all_iff)
qed

lemma reachable_timers: "reachable tbl nm s \<Longrightarrow> timers_by (clock s + 5) (tasks s)"
proof (induction rule: reachable.induct)
  case init
  then show ?case by (simp add: init_state_def timers_by_def)
next
  case (step s t)
  from step.hyps(2) step.IH show ?case by (rule bot_step_timers)
qed

subsection \<open>The handler on an absent and on a present entry\<close>

lemma on_member_update_fresh:
  "q m = None \<Longrightarrow> added_roles tbl nr \<noteq> [] \<Longrightarrow> on_member_update tbl q m nr = (q(m \<mapsto> added_roles tbl nr), True)"
  by (simp add: on_member_update_append)

lemma on_member_update_present:
  assumes "q m = Some xs"
  shows "on_member_update tbl q m nr = (q(m \<mapsto> xs @ unique_roles (added_roles tbl nr) xs), False)"
proof (cases "unique_roles (added_roles tbl nr) xs = []")
  case True
  with assms show ?thesis
    using on_member_update_duplicate [of tbl nr q m] by (simp add: fun_upd_idem)
next
  case False
  with assms show ?thesis
    using on_member_update_append [of tbl nr q m] by simp
qed

lemma verification_embed_Inr:
  "avatar mbr = Some url \<Longrightarrow> rl \<noteq> [] \<Longrightarrow> \<exists>emb. verification_embed tbl nm mbr rl now = Inr emb"
  by (simp add: verification_embed_def verification_text_sentence split: sum.splits)

subsection \<open>The executor's properties\<close>

text \<open>
  The deterministic executor is one of the behaviours of the transition system: from
  a reachable state, running events whose role lists have no repetition and letting
  time pass reaches only reachable states, so every safety theorem of
  \<open>Scheduler\<close> holds along it.
\<close>

lemma run_reachable:
  assumes "python_set_order it" and "reachable tbl nm s" and "list_all (\<lambda>(t, mbr, nr). distinct nr) evs"
  shows "reachable tbl nm (advance tbl nm it k (run tbl nm it evs s))"
proof -
  have "reachable tbl nm (run tbl nm it evs s)"
    using assms
  proof (induction evs arbitrary: s)
    case Nil
    then show ?case by simp
  next
    case (Cons ev evs)
    obtain t mbr nr where ev: "ev = (t, mbr, nr)"
      by (cases ev) auto
    have "reachable tbl nm (member_update tbl (advance tbl nm it (t - clock s) s) mbr nr)"
      using Cons.prems ev by (auto intro: update_reachable advance_reachable)
    with Cons.IH Cons.prems ev show ?case
      by simp
  qed
  with assms(1) show ?thesis
    by (rule advance_reachable)
qed

subsection \<open>A burst of grants\<close>

text \<open>
  Two grants less than five seconds apart, from the empty state: the settling timer of
  the first drains both one second after its deadline, the notification is posted
  and its deletion ticket waits a day.
\<close>

lemma burst_settled:
  assumes order: "python_set_order it" and added: "added_roles tbl nr1 \<noteq> []" and av: "avatar mbr = Some url"
      and w1: "t1 \<le> t2" and w2: "t2 < t1 + 5"
  shows "notified (advance tbl nm it (t1 + 5 - t2) (run tbl nm it [(t1, mbr, nr1), (t2, mbr, nr2)] init_state)) = [] \<and>
         advance tbl nm it (Suc (t1 + 5 - t2)) (run tbl nm it [(t1, mbr, nr1), (t2, mbr, nr2)] init_state) =
           \<lparr>clock = t1 + 6, role_update_queue = Map.empty, tasks = [DeleteTimer 0 (t1 + 5 + 86400)],
            channel_msgs = [0], next_msg = 1,
            notified = [(mid mbr, it (added_roles tbl nr1 @ unique_roles (added_roles tbl nr2) (added_roles tbl nr1)))],
            logs = []\<rparr> \<and>
         distinct (it (added_roles tbl nr1 @ unique_roles (added_roles tbl nr2) (added_roles tbl nr1))) \<and>
         set (it (added_roles tbl nr1 @ unique_roles (added_roles tbl nr2) (added_roles tbl nr1))) =
           set (added_roles tbl nr1) \<union> set (added_roles tbl nr2)"
proof -
  let ?m = "mid mbr"
  let ?A = "added_roles tbl nr1"
  let ?rl = "?A @ unique_roles (added_roles tbl nr2) ?A"
  define rl where "rl = it ?rl"
  define s1 where "s1 = init_state\<lparr>clock := t1, role_update_queue := [?m \<mapsto> ?A],
                                    tasks := [SettleTimer mbr (t1 + 5)]\<rparr>"
  define s2 where "s2 = s1\<lparr>clock := t2, role_update_queue := [?m \<mapsto> ?rl]\<rparr>"
  have c0: "clock init_state = 0" and c1: "clock s1 = t1"
    by (simp_all add: init_state_def s1_def)
  have a0: "advance tbl nm it t1 init_state = init_state\<lparr>clock := t1\<rparr>"
    using advance_quiet [of init_state t1] by (simp add: init_state_def)
  have u1: "member_update tbl (init_state\<lparr>clock := t1\<rparr>) mbr nr1 = s1"
    using added by (simp add: member_update_def on_member_update_fresh init_state_def s1_def)
  have a1: "advance tbl nm it (t2 - t1) s1 = s1\<lparr>clock := t2\<rparr>"
    using advance_quiet [of s1 "t2 - t1"] w1 w2 by (simp add: s1_def asleep_until_def)
  have u2: "member_update tbl (s1\<lparr>clock := t2\<rparr>) mbr nr2 = s2"
    by (simp add: member_update_def on_member_update_present s1_def s2_def)
  have run: "run tbl nm it [(t1, mbr, nr1), (t2, mbr, nr2)] init_state = s2"
    by (simp add: c0 a0 u1 c1 a1 u2)
  have a2: "advance tbl nm it (t1 + 5 - t2) s2 = s2\<lparr>clock := t1 + 5\<rparr>"
    using advance_quiet [of s2 "t1 + 5 - t2"] w2 by (simp add: s2_def s1_def asleep_until_def)
  have enum: "set_enum rl (set ?rl)"
    using order unfolding python_set_order_def rl_def by blast
  have rl_set: "set ?rl = set ?A \<union> set (added_roles tbl nr2)"
    by (auto simp: unique_roles_def)
  have "set rl = set ?rl"
    using enum by (rule set_enum_set)
  then have "rl \<noteq> []"
    using added by (metis Nil_is_append_conv set_empty)
  then obtain emb where emb: "verification_embed tbl nm mbr rl (t1 + 5) = Inr emb"
    using verification_embed_Inr [OF av] by blast
  have sec: "second tbl nm it (s2\<lparr>clock := t1 + 5\<rparr>) =
           \<lparr>clock = t1 + 6, role_update_queue = Map.empty, tasks = [DeleteTimer 0 (t1 + 5 + 86400)],
            channel_msgs = [0], next_msg = 1, notified = [(mid mbr, rl)], logs = []\<rparr>"
    using emb added unfolding rl_def
    by (simp add: second_def numeral_3_eq_3 fire_def settle_def process_role_queue_def dict_pop_def
                  send_done_def s2_def s1_def init_state_def)
  have "advance tbl nm it (Suc (t1 + 5 - t2)) s2 = second tbl nm it (s2\<lparr>clock := t1 + 5\<rparr>)"
    using advance_add [of tbl nm it "t1 + 5 - t2" 1 s2] a2 by simp
  with run a2 sec enum rl_set show ?thesis
    by (simp add: s2_def s1_def init_state_def set_enum_def rl_def)
qed

text \<open>
  C33. A burst of grants is announced once, after the settling delay.  A member
  with an avatar who is granted eligible roles at instant \<open>t1\<close> and more roles at
  \<open>t2\<close>, less than five seconds later, gets nothing before \<open>t1 + 5\<close>; after it (and
  until the deletion a day later) the channel holds exactly one notification, which
  announces each eligible role of both grants exactly once, in CPython's set order,
  whatever it is; and the queue is empty.
\<close>

theorem burst_one_notification:
  assumes order: "python_set_order it" and added: "added_roles tbl nr1 \<noteq> []" and av: "avatar mbr = Some url"
      and w1: "t1 \<le> t2" and w2: "t2 < t1 + 5" and late: "t1 + 5 < T" and keep: "T \<le> t1 + 5 + 86400"
  shows "notified (advance tbl nm it (t1 + 5 - t2) (run tbl nm it [(t1, mbr, nr1), (t2, mbr, nr2)] init_state)) = [] \<and>
         (let s = advance tbl nm it (T - t2) (run tbl nm it [(t1, mbr, nr1), (t2, mbr, nr2)] init_state) in
          (\<exists>rl. notified s = [(mid mbr, rl)] \<and> distinct rl \<and>
                set rl = set (added_roles tbl nr1) \<union> set (added_roles tbl nr2)) \<and>
          role_update_queue s = Map.empty \<and> channel_msgs s = [0])"
proof -
  let ?R = "run tbl nm it [(t1, mbr, nr1), (t2, mbr, nr2)] init_state"
  let ?rl = "it (added_roles tbl nr1 @ unique_roles (added_roles tbl nr2) (added_roles tbl nr1))"
  define s3 where "s3 = \<lparr>clock = t1 + 6, role_update_queue = Map.empty, tasks = [DeleteTimer 0 (t1 + 5 + 86400)],
            channel_msgs = [0], next_msg = 1, notified = [(mid mbr, ?rl)], logs = []\<rparr>"
  note b = burst_settled [OF order added av w1 w2, of nm nr2, folded s3_def]
  have a3: "advance tbl nm it (T - (t1 + 6)) s3 = s3\<lparr>clock := T\<rparr>"
    using advance_quiet [of s3 "T - (t1 + 6)"] late keep by (simp add: s3_def asleep_until_def)
  have "T - t2 = Suc (t1 + 5 - t2) + (T - (t1 + 6))"
    using w2 late by arith
  then have "advance tbl nm it (T - t2) ?R = s3\<lparr>clock := T\<rparr>"
    using b a3 by (simp only: advance_add)
  with b show ?thesis
    by (auto simp: s3_def Let_def)
qed

theorem burst_one_notification_witness:
  "python_set_order (\<lambda>xs. sorted_list_of_set (set xs)) \<and>
   added_roles role_to_channel [380725404262072320] \<noteq> [] \<and>
   avatar \<lparr>mid = 5, avatar = Some ''a.png''\<rparr> = Some ''a.png'' \<and>
   (1::nat) \<le> 3 \<and> (3::nat) < 1 + 5 \<and> (1::nat) + 5 < 100 \<and> (100::nat) \<le> 1 + 5 + 86400 \<and>
   notified (advance role_to_channel (\<lambda>_. ''Plugin'') (\<lambda>xs. sorted_list_of_set (set xs)) (1 + 5 - 3)
     (run role_to_channel (\<lambda>_. ''Plugin'') (\<lambda>xs. sorted_list_of_set (set xs))
        [(1, \<lparr>mid = 5, avatar = Some ''a.png''\<rparr>, [380725404262072320]),
         (3, \<lparr>mid = 5, avatar = Some ''a.png''\<rparr>, [393044988411379742])] init_state)) = [] \<and>
   (let s = advance role_to_channel (\<lambda>_. ''Plugin'') (\<lambda>xs. sorted_list_of_set (set xs)) (100 - 3)
              (run role_to_channel (\<lambda>_. ''Plugin'') (\<lambda>xs. sorted_list_of_set (set xs))
                 [(1, \<lparr>mid = 5, avatar = Some ''a.png''\<rparr>, [380725404262072320]),
                  (3, \<lparr>mid = 5, avatar = Some ''a.png''\<rparr>, [393044988411379742])] init_state) in
    (\<exists>rl. notified s = [(mid \<lparr>mid = 5, avatar = Some ''a.png''\<rparr>, rl)] \<and> distinct rl \<and>
          set rl = set (added_roles role_to_channel [380725404262072320]) \<union>
                   set (added_roles role_to_channel [393044988411379742])) \<and>
    role_update_queue s = Map.empty \<and> channel_msgs s = [0])"
proof -
  have order: "python_set_order (\<lambda>xs. sorted_list_of_set (set xs))"
    by (simp add: python_set_order_def set_enum_def)
  have "added_roles role_to_channel [380725404262072320] \<noteq> []"
    by (simp add: added_roles_def role_to_channel_def)
  with order show ?thesis
    using burst_one_notification [of "\<lambda>xs. sorted_list_of_set (set xs)" role_to_channel "[380725404262072320]"
        "\<lparr>mid = 5, avatar = Some ''a.png''\<rparr>" "''a.png''" 1 3 100 "\<lambda>_. ''Plugin''" "[393044988411379742]"]
    by simp
qed


text \<open>
  C35. The announcement of a burst does not outlive its day: once the deletion ticket
  has fired, a day after the settling delay, the channel is empty again, no task is
  left and the queue is empty, and exactly one notification was ever posted.
\<close>

theorem burst_notification_deleted:
  assumes order: "python_set_order it" and added: "added_roles tbl nr1 \<noteq> []" and av: "avatar mbr = Some url"
      and w1: "t1 \<le> t2" and w2: "t2 < t1 + 5" and late: "t1 + 5 + 86400 < T"
  shows "let s = advance tbl nm it (T - t2) (run tbl nm it [(t1, mbr, nr1), (t2, mbr, nr2)] init_state) in
         channel_msgs s = [] \<and> tasks s = [] \<and> role_update_queue s = Map.empty \<and> length (notified s) = 1"
proof -
  let ?R = "run tbl nm it [(t1, mbr, nr1), (t2, mbr, nr2)] init_state"
  let ?rl = "it (added_roles tbl nr1 @ unique_roles (added_roles tbl nr2) (added_roles tbl nr1))"
  define s3 where "s3 = \<lparr>clock = t1 + 6, role_update_queue = Map.empty, tasks = [DeleteTimer 0 (t1 + 5 + 86400)],
            channel_msgs = [0], next_msg = 1, notified = [(mid mbr, ?rl)], logs = []\<rparr>"
  define s4 where "s4 = s3\<lparr>clock := t1 + 5 + 86401, tasks := [], channel_msgs := [],
                            logs := delete_message_after_delay 0 None\<rparr>"
  note b = burst_settled [OF order added av w1 w2, of nm nr2, folded s3_def]
  have a3: "advance tbl nm it 86399 s3 = s3\<lparr>clock := t1 + 5 + 86400\<rparr>"
    using advance_quiet [of s3 86399] by (simp add: s3_def asleep_until_def)
  have sec: "second tbl nm it (s3\<lparr>clock := t1 + 5 + 86400\<rparr>) = s4"
    by (simp add: second_def numeral_3_eq_3 fire_def delete_fire_def s3_def s4_def)
  have a4: "advance tbl nm it (T - (t1 + 5 + 86401)) s4 = s4\<lparr>clock := T\<rparr>"
    using advance_quiet [of s4 "T - (t1 + 5 + 86401)"] late by (simp add: s4_def)
  have "T - t2 = Suc (t1 + 5 - t2) + (86399 + (Suc 0 + (T - (t1 + 5 + 86401))))"
    using w2 late by arith
  then have "advance tbl nm it (T - t2) ?R = s4\<lparr>clock := T\<rparr>"
    using b a3 sec a4 by (simp only: advance_add advance.simps)
  then show ?thesis
    by (simp add: s4_def s3_def Let_def)
qed

theorem burst_notification_deleted_witness:
  "python_set_order (\<lambda>xs. sorted_list_of_set (set xs)) \<and>
   added_roles role_to_channel [380725404262072320] \<noteq> [] \<and>
   avatar \<lparr>mid = 5, avatar = Some ''a.png''\<rparr> = Some ''a.png'' \<and>
   (1::nat) \<le> 3 \<and> (3::nat) < 1 + 5 \<and> (1::nat) + 5 + 86400 < 86500 \<and>
   (let s = advance role_to_channel (\<lambda>_. ''Plugin'') (\<lambda>xs. sorted_list_of_set (set xs)) (86500 - 3)
              (run role_to_channel (\<lambda>_. ''Plugin'') (\<lambda>xs. sorted_list_of_set (set xs))
                 [(1, \<lparr>mid = 5, avatar = Some ''a.png''\<rparr>, [380725404262072320]),
                  (3, \<lparr>mid = 5, avatar = Some ''a.png''\<rparr>, [393044988411379742])] init_state) in
    channel_msgs s = [] \<and> tasks s = [] \<and> role_update_queue s = Map.empty \<and> length (notified s) = 1)"
proof -
  have order: "python_set_order (\<lambda>xs. sorted_list_of_set (set xs))"
    by (simp add: python_set_order_def set_enum_def)
  have "added_roles role_to_channel [380725404262072320] \<noteq> []"
    by (simp add: added_roles_def role_to_channel_def)
  with order show ?thesis
    using burst_notification_deleted [of "\<lambda>xs. sorted_list_of_set (set xs)" role_to_channel "[380725404262072320]"
        "\<lparr>mid = 5, avatar = Some ''a.png''\<rparr>" "''a.png''" 1 3 86500 "\<lambda>_. ''Plugin''" "[393044988411379742]"]
    by simp
qed


text \<open>
  C34. Without new events, every grant pending in a reachable state is drained within
  six seconds: after six seconds of the executor the queue is empty and no settling
  timer is left.  In particular the fuel of a second is always enough for every task
  due in it.
\<close>

theorem queue_drained_in_six_seconds:
  assumes order: "python_set_order it" and reach: "reachable tbl nm s"
  shows "role_update_queue (advance tbl nm it 6 s) = Map.empty \<and>
         (\<forall>m. settle_count m (tasks (advance tbl nm it 6 s)) = 0)"
proof -
  let ?s5 = "advance tbl nm it 5 s"
  let ?f = "flush tbl nm it (2 * length (tasks ?s5) + 1) ?s5"
  have c5: "clock ?s5 = clock s + 5"
    by (simp add: advance_clock)
  have t5: "timers_by (clock ?s5) (tasks ?s5)"
    using timers_by_advance [OF reachable_timers [OF reach]] c5 by simp
  have r5: "reachable tbl nm ?s5"
    using order reach by (rule advance_reachable)
  have "due_weight (clock ?s5) (tasks ?s5) < 2 * length (tasks ?s5) + 1"
    using due_weight_le [of "clock ?s5" "tasks ?s5"] by simp
  then have nd: "due_task (clock ?s5) (tasks ?f) = None"
    by (rule flush_runs_out)
  have tf: "timers_by (clock ?s5) (tasks ?f)"
    using t5 by (rule timers_by_flush)
  have sc: "settle_count m (tasks ?f) = 0" for m
    using nd tf by (rule no_due_no_timer)
  have rf: "reachable tbl nm ?f"
    using order r5 by (rule flush_reachable)
  have q: "role_update_queue ?f = Map.empty"
  proof
    fix m
    from reachable_inv [OF rf]
    have "settle_count m (tasks ?f) = (if role_update_queue ?f m = None then 0 else 1)"
      by (simp add: sched_inv_def)
    with sc [of m] show "role_update_queue ?f m = Map.empty m"
      by (simp split: if_splits)
  qed
  have a6: "advance tbl nm it 6 s = second tbl nm it ?s5"
    using advance_add [of tbl nm it 5 1 s] by (simp add: One_nat_def)
  show ?thesis
    using q sc by (simp only: a6 second_tasks second_queue) simp
qed

theorem queue_drained_in_six_seconds_witness:
  "python_set_order (\<lambda>xs. sorted_list_of_set (set xs)) \<and>
   reachable role_to_channel (\<lambda>_. ''Plugin'')
     (member_update role_to_channel init_state \<lparr>mid = 5, avatar = Some ''a.png''\<rparr> [380725404262072320]) \<and>
   role_update_queue (advance role_to_channel (\<lambda>_. ''Plugin'') (\<lambda>xs. sorted_list_of_set (set xs)) 6
     (member_update role_to_channel init_state \<lparr>mid = 5, avatar = Some ''a.png''\<rparr> [380725404262072320])) = Map.empty \<and>
   (\<forall>m. settle_count m (tasks (advance role_to_channel (\<lambda>_. ''Plugin'') (\<lambda>xs. sorted_list_of_set (set xs)) 6
     (member_update role_to_channel init_state \<lparr>mid = 5, avatar = Some ''a.png''\<rparr> [380725404262072320]))) = 0)"
proof -
  have order: "python_set_order (\<lambda>xs. sorted_list_of_set (set xs))"
    by (simp add: python_set_order_def set_enum_def)
  show ?thesis
    using queue_drained_in_six_seconds [OF order demo_reachable] order demo_reachable by blast
qed

end
