(* ===== verification/Commands.thy ===== *)
theory Commands
  imports Queue Notifier
begin

text \<open>
  The slash commands of the \<open>Commands\<close> cog (src/bot/commands.py: \<open>add\<close>, \<open>remove\<close>,
  \<open>clear\<close>, \<open>verify\<close>), their texts (src/bot/messages.py) and the role-selection
  view they send (src/bot/utils.py: \<open>RoleSelector\<close>, \<open>RoleView\<close>).  Each handler is
  a function of the guild's state and of Discord's answers to its REST calls:
  \<open>answers\<close> lists, in call order, whether each call fails and with which HTTP
  exception (a missing answer is a success).  The result lists what the
  interaction shows (\<open>cmd_out\<close>: replies, log, and the exception that escapes the
  handler, if any); \<open>clear\<close> also returns the channel history after the purge and
  the selection callback the member's roles after the requests.  Following
  discord.py's \<open>Member.add_roles\<close> and \<open>Member.remove_roles\<close> (\<open>atomic=True\<close>),
  every role is one request, sent in order.
\<close>

subsection \<open>Messages (src/bot/messages.py)\<close>

definition ROLE_ALREADY_HAVE_ALL :: string where
  "ROLE_ALREADY_HAVE_ALL = ''This user already has all the roles.''"

definition SELECT_ROLES_TO_ADD :: string where
  "SELECT_ROLES_TO_ADD = ''Select roles to add:''"

definition ERROR_ADDING_ROLES :: string where
  "ERROR_ADDING_ROLES = ''An error occurred while adding roles.''"

definition USER_DOES_NOT_HAVE_ROLES :: string where
  "USER_DOES_NOT_HAVE_ROLES = ''This user does not have any of the specific roles to remove.''"

definition SELECT_ROLES_TO_REMOVE :: string where
  "SELECT_ROLES_TO_REMOVE = ''Select specific roles to remove:''"

definition ERROR_REMOVING_ROLES :: string where
  "ERROR_REMOVING_ROLES = ''An error occurred while removing roles.''"

definition SPECIFY_NUMBER_GREATER_THAN_ZERO :: string where
  "SPECIFY_NUMBER_GREATER_THAN_ZERO = ''Please specify a number greater than 0.''"

definition NO_MESSAGES_TO_CLEAR :: string where
  "NO_MESSAGES_TO_CLEAR = ''There were no messages to clear.''"

definition ERROR_CLEARING_MESSAGES :: string where
  "ERROR_CLEARING_MESSAGES = ''An error occurred while trying to clear messages.''"

definition NO_PERMISSION_TO_DELETE_MESSAGES :: string where
  "NO_PERMISSION_TO_DELETE_MESSAGES = ''I do not have permission to delete messages in this channel.''"

definition VERIFICATION_INFO :: string where
  "VERIFICATION_INFO = ''For more details on how to verify your purchase, '' @
     ''please visit the **Verification** section in the <id:home> '' @ ''for further information.''"

definition ERROR_MODIFYING_ROLES :: string where
  "ERROR_MODIFYING_ROLES = ''An error occurred while modifying roles.''"

definition WEBHOOK_NOT_FOUND :: string where
  "WEBHOOK_NOT_FOUND = ''Failed to send follow-up message: Interaction webhook not found.''"

subsection \<open>The guild, the table's key order and Discord's answers\<close>

text \<open>\<open>guild.get_role\<close>: the role when the guild has it, \<open>None\<close> otherwise.\<close>

definition get_role :: "role_id list \<Rightarrow> role_id \<Rightarrow> role_id option" where
  "get_role guild r = (if r \<in> set guild then Some r else None)"

text \<open>\<open>self.bot.role_to_channel.keys()\<close>: the dict's keys in insertion order.\<close>

definition role_to_channel_keys :: "role_id list" where
  "role_to_channel_keys =
     [380725404262072320, 393044988411379742, 380725142608674816, 380724874236395520]"

type_synonym answers = "http_exc option list"

fun rest_call :: "answers \<Rightarrow> http_exc option \<times> answers" where
  "rest_call [] = (None, [])"
| "rest_call (a # as) = (a, as)"

subsection \<open>The selection view (src/bot/utils.py)\<close>

text \<open>Lines 12--28: a \<open>RoleSelector\<close> with one option (label, value) per role.\<close>

record selector =
  sel_user :: member
  sel_roles :: "role_id list"
  sel_remove :: bool
  sel_options :: "(string \<times> string) list"
  sel_placeholder :: string
  sel_min :: nat
  sel_max :: nat

definition role_selector :: "(role_id \<Rightarrow> string) \<Rightarrow> member \<Rightarrow> role_id list \<Rightarrow> bool \<Rightarrow> selector" where
  "role_selector nm user roles remove =
     \<lparr>sel_user = user, sel_roles = roles, sel_remove = remove,
      sel_options = map (\<lambda>r. (nm r, py_str_int r)) roles,
      sel_placeholder = (if \<not> remove then ''Choose roles to add...'' else ''Choose specific roles to remove...''),
      sel_min = 1, sel_max = length (map (\<lambda>r. (nm r, py_str_int r)) roles)\<rparr>"

text \<open>Lines 64--74: a \<open>RoleView\<close> holds one selector.\<close>

definition role_view :: "(role_id \<Rightarrow> string) \<Rightarrow> member \<Rightarrow> role_id list \<Rightarrow> bool \<Rightarrow> selector list" where
  "role_view nm user roles remove = [role_selector nm user roles remove]"

datatype reply = Respond string "selector list" | Deferred | Followup string

record cmd_out =
  out_replies :: "reply list"
  out_log :: log
  out_raised :: "http_exc option"

definition prepend_reply :: "reply \<Rightarrow> cmd_out \<Rightarrow> cmd_out" where
  "prepend_reply r out = out\<lparr>out_replies := r # out_replies out\<rparr>"

text \<open>
  Lines 43--48 (and the same block in every handler): log, then try a follow-up;
  a vanished webhook is logged, any other failure escapes.
\<close>

definition followup_guarded :: "string \<Rightarrow> log \<Rightarrow> answers \<Rightarrow> cmd_out" where
  "followup_guarded msg lg ans =
     (case fst (rest_call ans) of
        None \<Rightarrow> \<lparr>out_replies = [Followup msg], out_log = lg, out_raised = None\<rparr>
      | Some NotFound \<Rightarrow> \<lparr>out_replies = [], out_log = lg @ [(ERROR, WEBHOOK_NOT_FOUND)], out_raised = None\<rparr>
      | Some e \<Rightarrow> \<lparr>out_replies = [], out_log = lg, out_raised = Some e\<rparr>)"

text \<open>
  Lines 30--56: the callback once the user has chosen \<open>values\<close>.  Adding resolves
  and sends one value after the other; removing resolves every value first
  (line 39), then sends one request per role.  \<open>int\<close> failing is a
  \<open>ValueError\<close>, a role the guild no longer has reaches \<open>role.id\<close> as \<open>None\<close>, an
  \<open>AttributeError\<close>.
\<close>

fun add_each :: "role_id list \<Rightarrow> string list \<Rightarrow> role_id set \<Rightarrow> answers \<Rightarrow>
                 (py_exc + http_exc) option \<times> role_id set \<times> answers" where
  "add_each guild [] rs ans = (None, rs, ans)"
| "add_each guild (v # vs) rs ans =
     (case py_int v of
        None \<Rightarrow> (Some (Inl ValueError), rs, ans)
      | Some i \<Rightarrow>
          (case get_role guild i of
             None \<Rightarrow> (Some (Inl AttributeError), rs, ans)
           | Some r \<Rightarrow>
               (case rest_call ans of
                  (Some e, ans') \<Rightarrow> (Some (Inr e), rs, ans')
                | (None, ans') \<Rightarrow> add_each guild vs (insert r rs) ans')))"

fun remove_each :: "role_id option list \<Rightarrow> role_id set \<Rightarrow> answers \<Rightarrow>
                    (py_exc + http_exc) option \<times> role_id set \<times> answers" where
  "remove_each [] rs ans = (None, rs, ans)"
| "remove_each (None # _) rs ans = (Some (Inl AttributeError), rs, ans)"
| "remove_each (Some r # ros) rs ans =
     (case rest_call ans of
        (Some e, ans') \<Rightarrow> (Some (Inr e), rs, ans')
      | (None, ans') \<Rightarrow> remove_each ros (rs - {r}) ans')"

definition remove_selected :: "role_id list \<Rightarrow> string list \<Rightarrow> role_id set \<Rightarrow> answers \<Rightarrow>
                               (py_exc + http_exc) option \<times> role_id set \<times> answers" where
  "remove_selected guild values rs ans =
     (let ids = map py_int values in
      if None \<in> set ids then (Some (Inl ValueError), rs, ans)
      else remove_each (map (get_role guild \<circ> the) ids) rs ans)"

definition callback_failed :: "py_exc + http_exc \<Rightarrow> answers \<Rightarrow> cmd_out" where
  "callback_failed e ans =
     (let (lg, msg) =
        (case e of
           Inr Forbidden \<Rightarrow> (''RoleSelector callback: Bot lacks permissions to modify roles for '',
                            ''I don't have permission to modify these roles.'')
         | Inr _ \<Rightarrow> (''RoleSelector callback: HTTP error occurred: '', ''An error occurred while modifying roles.'')
         | Inl _ \<Rightarrow> (''RoleSelector callback: Unexpected error: '', ''An unexpected error occurred.''))
      in case fst (rest_call ans) of
           None \<Rightarrow> \<lparr>out_replies = [Respond msg []], out_log = [(ERROR, lg)], out_raised = None\<rparr>
         | Some x \<Rightarrow> \<lparr>out_replies = [], out_log = [(ERROR, lg)], out_raised = Some x\<rparr>)"

definition selector_callback :: "selector \<Rightarrow> role_id list \<Rightarrow> string list \<Rightarrow> role_id set \<Rightarrow> answers \<Rightarrow>
                                 role_id set \<times> cmd_out" where
  "selector_callback sel guild values rs ans =
     (let (err, rs', ans1) =
        (if sel_remove sel then remove_selected guild values rs ans else add_each guild values rs ans);
          ok = (if sel_remove sel then ''Roles removed for '' else ''Roles added for '') @ mention (sel_user sel)
      in (rs',
          case err of
            None \<Rightarrow>
              (case rest_call ans1 of
                 (None, _) \<Rightarrow> \<lparr>out_replies = [Respond ok []], out_log = [], out_raised = None\<rparr>
               | (Some e, ans2) \<Rightarrow> callback_failed (Inr e) ans2)
          | Some e \<Rightarrow> callback_failed e ans1))"

subsection \<open>The commands (src/bot/commands.py)\<close>

text \<open>Lines 23--48.\<close>

definition add_command ::
  "(role_id \<Rightarrow> string) \<Rightarrow> role_id list \<Rightarrow> member \<Rightarrow> role_id list \<Rightarrow> answers \<Rightarrow> cmd_out" where
  "add_command nm guild user user_roles ans =
     (let roles = [r. Some r \<leftarrow> map (get_role guild) role_to_channel_keys, r \<notin> set user_roles];
          rep = (if roles = [] then Respond ROLE_ALREADY_HAVE_ALL []
                 else Respond SELECT_ROLES_TO_ADD (role_view nm user roles False))
      in case rest_call ans of
           (None, _) \<Rightarrow> \<lparr>out_replies = [rep], out_log = [], out_raised = None\<rparr>
         | (Some _, ans') \<Rightarrow> followup_guarded ERROR_ADDING_ROLES [(ERROR, ''Error in add command: '')] ans')"

text \<open>Lines 50--75.\<close>

definition remove_command ::
  "(role_id \<Rightarrow> string) \<Rightarrow> role_id list \<Rightarrow> member \<Rightarrow> role_id list \<Rightarrow> answers \<Rightarrow> cmd_out" where
  "remove_command nm guild user user_roles ans =
     (let roles = [the (get_role guild k). k \<leftarrow> role_to_channel_keys,
                     get_role guild k \<in> set (map Some user_roles)];
          rep = (if roles = [] then Respond USER_DOES_NOT_HAVE_ROLES []
                 else Respond SELECT_ROLES_TO_REMOVE (role_view nm user roles True))
      in case rest_call ans of
           (None, _) \<Rightarrow> \<lparr>out_replies = [rep], out_log = [], out_raised = None\<rparr>
         | (Some _, ans') \<Rightarrow> followup_guarded ERROR_REMOVING_ROLES [(ERROR, ''Error in remove command: '')] ans')"

text \<open>
  Lines 77--113.  The channel history is newest first; \<open>channel.purge(limit=amount)\<close>
  deletes the \<open>amount\<close> newest messages.  A failing purge deletes nothing (one bulk
  request, which is exact up to 100 messages).
\<close>

definition clear_failed :: "http_exc \<Rightarrow> answers \<Rightarrow> cmd_out" where
  "clear_failed e ans =
     (case e of
        Forbidden \<Rightarrow> followup_guarded NO_PERMISSION_TO_DELETE_MESSAGES
                       [(ERROR, NO_PERMISSION_TO_DELETE_MESSAGES)] ans
      | _ \<Rightarrow> followup_guarded ERROR_CLEARING_MESSAGES [(ERROR, ''Clear command: An error occurred: '')] ans)"

definition cleared_text :: "msg_id list \<Rightarrow> string" where
  "cleared_text deleted =
     (let n = length deleted;
          word = (if n = 1 then ''message'' else ''messages'')
      in if deleted \<noteq> [] then ''Cleared '' @ py_str_int (int n) @ '' '' @ word else NO_MESSAGES_TO_CLEAR)"

definition clear_command :: "int \<Rightarrow> msg_id list \<Rightarrow> answers \<Rightarrow> msg_id list \<times> cmd_out" where
  "clear_command amount history ans =
     (if amount \<le> 0 then
        (case rest_call ans of
           (None, _) \<Rightarrow>
             (history, \<lparr>out_replies = [Respond SPECIFY_NUMBER_GREATER_THAN_ZERO []], out_log = [],
                        out_raised = None\<rparr>)
         | (Some e, a1) \<Rightarrow> (history, clear_failed e a1))
      else
        (case rest_call ans of
           (Some e, a1) \<Rightarrow> (history, clear_failed e a1)
         | (None, a1) \<Rightarrow>
             (case rest_call a1 of
                (Some e, a2) \<Rightarrow> (history, prepend_reply Deferred (clear_failed e a2))
              | (None, a2) \<Rightarrow>
                  (let deleted = take (nat amount) history
                   in (drop (nat amount) history,
                       prepend_reply Deferred
                         (case rest_call a2 of
                            (None, _) \<Rightarrow> \<lparr>out_replies = [Followup (cleared_text deleted)], out_log = [],
                                          out_raised = None\<rparr>
                          | (Some e, a3) \<Rightarrow> clear_failed e a3))))))"

text \<open>Lines 115--131.\<close>

definition verify_command :: "answers \<Rightarrow> cmd_out" where
  "verify_command ans =
     (let failed = followup_guarded ERROR_MODIFYING_ROLES [(ERROR, ''Verify command: An error occurred: '')] in
      case rest_call ans of
        (Some _, a1) \<Rightarrow> failed a1
      | (None, a1) \<Rightarrow>
          (case rest_call a1 of
             (None, _) \<Rightarrow> \<lparr>out_replies = [Deferred, Followup VERIFICATION_INFO], out_log = [],
                           out_raised = None\<rparr>
           | (Some _, a2) \<Rightarrow> prepend_reply Deferred (failed a2)))"


text \<open>The roles a command's view offers.\<close>

definition offered :: "cmd_out \<Rightarrow> role_id list" where
  "offered out = concat [concat (map sel_roles v). Respond _ v \<leftarrow> out_replies out]"

text \<open>The selectors a command's replies carry.\<close>

definition views :: "cmd_out \<Rightarrow> selector list" where
  "views out = concat [v. Respond _ v \<leftarrow> out_replies out]"

text \<open>
  Discord's constraints on a select menu, which rejects any other: one to 25
  options with distinct values, and \<open>1 \<le> min_values \<le> max_values\<close>, at most the
  number of options.
\<close>

definition wf_selector :: "selector \<Rightarrow> bool" where
  "wf_selector sel \<longleftrightarrow>
     sel_options sel \<noteq> [] \<and> length (sel_options sel) \<le> 25 \<and> distinct (map snd (sel_options sel)) \<and>
     1 \<le> sel_min sel \<and> sel_min sel \<le> sel_max sel \<and> sel_max sel \<le> length (sel_options sel)"

subsection \<open>The lists the commands compute\<close>

lemma role_to_channel_keys_dom: "set role_to_channel_keys = dom role_to_channel"
  by (auto simp: role_to_channel_keys_def role_to_channel_def)

lemma role_to_channel_keys_distinct: "distinct role_to_channel_keys"
  by (simp add: role_to_channel_keys_def)

lemma add_roles_filter:
  "[r. Some r \<leftarrow> map (get_role guild) keys, r \<notin> set ur] = [k \<leftarrow> keys. k \<in> set guild \<and> k \<notin> set ur]"
  by (induction keys) (auto simp: get_role_def)

lemma remove_roles_filter:
  "[the (get_role guild k). k \<leftarrow> keys, get_role guild k \<in> set (map Some ur)] =
   [k \<leftarrow> keys. k \<in> set guild \<and> k \<in> set ur]"
  by (induction keys) (auto simp: get_role_def)

lemma filter_keys_Nil_iff:
  "[k \<leftarrow> role_to_channel_keys. P k] = [] \<longleftrightarrow> (\<forall>k \<in> dom role_to_channel. \<not> P k)"
  by (simp add: filter_empty_conv role_to_channel_keys_dom)

lemma offered_view [simp]:
  "offered \<lparr>out_replies = [Respond t (role_view nm u roles rm)], out_log = lg, out_raised = x\<rparr> = roles"
  "offered \<lparr>out_replies = [Respond t []], out_log = lg, out_raised = x\<rparr> = []"
  by (simp_all add: offered_def role_view_def role_selector_def)

subsection \<open>The selection callback's loops\<close>

lemma get_role_in [simp]: "r \<in> set guild \<Longrightarrow> get_role guild r = Some r"
  by (simp add: get_role_def)

lemma add_each_ok:
  "set chosen \<subseteq> set guild \<Longrightarrow>
   add_each guild (map py_str_int chosen) rs (replicate (length chosen) None @ rest) =
     (None, rs \<union> set chosen, rest)"
  by (induction chosen arbitrary: rs) auto

lemma add_each_fail:
  "k < length chosen \<Longrightarrow> set chosen \<subseteq> set guild \<Longrightarrow>
   add_each guild (map py_str_int chosen) rs (replicate k None @ Some e # rest) =
     (Some (Inr e), rs \<union> set (take k chosen), rest)"
proof (induction chosen arbitrary: k rs)
  case Nil
  then show ?case by simp
next
  case (Cons c cs)
  then show ?case
    by (cases k) auto
qed

lemma remove_each_ok:
  "set chosen \<subseteq> set guild \<Longrightarrow>
   remove_each (map (get_role guild) chosen) rs (replicate (length chosen) None @ rest) =
     (None, rs - set chosen, rest)"
  by (induction chosen arbitrary: rs) (auto simp: Diff_insert2 [symmetric] insert_commute)

lemma remove_selected_ok:
  "set chosen \<subseteq> set guild \<Longrightarrow>
   remove_selected guild (map py_str_int chosen) rs (replicate (length chosen) None @ rest) =
     (None, rs - set chosen, rest)"
  by (simp add: remove_selected_def comp_def remove_each_ok)

lemma get_role_notin [simp]: "r \<notin> set guild \<Longrightarrow> get_role guild r = None"
  by (simp add: get_role_def)

lemma add_each_deleted:
  "set pre \<subseteq> set guild \<Longrightarrow> r \<notin> set guild \<Longrightarrow>
   add_each guild (map py_str_int (pre @ r # post)) rs (replicate (length pre) None @ ans) =
     (Some (Inl AttributeError), rs \<union> set pre, ans)"
  by (induction pre arbitrary: rs) auto

lemma remove_each_deleted:
  "set pre \<subseteq> set guild \<Longrightarrow>
   remove_each (map (get_role guild) pre @ None # xs) rs (replicate (length pre) None @ ans) =
     (Some (Inl AttributeError), rs - set pre, ans)"
  by (induction pre arbitrary: rs) (auto simp: Diff_insert2 [symmetric] insert_commute)

lemma remove_selected_deleted:
  "set pre \<subseteq> set guild \<Longrightarrow> r \<notin> set guild \<Longrightarrow>
   remove_selected guild (map py_str_int (pre @ r # post)) rs (replicate (length pre) None @ ans) =
     (Some (Inl AttributeError), rs - set pre, ans)"
  by (simp add: remove_selected_def comp_def remove_each_deleted [of pre guild "map (get_role guild) post"])


lemma add_command_sent:
  "add_command nm guild user ur (None # rest) =
     \<lparr>out_replies = [let roles = [k \<leftarrow> role_to_channel_keys. k \<in> set guild \<and> k \<notin> set ur] in
                     if roles = [] then Respond ROLE_ALREADY_HAVE_ALL []
                     else Respond SELECT_ROLES_TO_ADD (role_view nm user roles False)],
      out_log = [], out_raised = None\<rparr>"
  unfolding add_command_def add_roles_filter by (simp add: Let_def)

lemma remove_command_sent:
  "remove_command nm guild user ur (None # rest) =
     \<lparr>out_replies = [let roles = [k \<leftarrow> role_to_channel_keys. k \<in> set guild \<and> k \<in> set ur] in
                     if roles = [] then Respond USER_DOES_NOT_HAVE_ROLES []
                     else Respond SELECT_ROLES_TO_REMOVE (role_view nm user roles True)],
      out_log = [], out_raised = None\<rparr>"
  unfolding remove_command_def remove_roles_filter by (simp add: Let_def)

lemma offered_add:
  "offered (add_command nm guild user ur (None # rest)) =
     [k \<leftarrow> role_to_channel_keys. k \<in> set guild \<and> k \<notin> set ur]"
  by (simp add: add_command_sent Let_def)

lemma offered_remove:
  "offered (remove_command nm guild user ur (None # rest)) =
     [k \<leftarrow> role_to_channel_keys. k \<in> set guild \<and> k \<in> set ur]"
  by (simp add: remove_command_sent Let_def)

lemma length_take_int: "0 < amount \<Longrightarrow> int (length (take (nat amount) xs)) = min amount (int (length xs))"
  by auto

subsection \<open>Well-formed selectors\<close>

lemma py_str_int_inj: "inj py_str_int"
  by (rule injI) (metis py_int_str option.inject)

lemma role_selector_wf:
  "roles \<noteq> [] \<Longrightarrow> distinct roles \<Longrightarrow> length roles \<le> 25 \<Longrightarrow> wf_selector (role_selector nm u roles rm)"
  by (simp add: wf_selector_def role_selector_def comp_def distinct_map inj_on_subset [OF py_str_int_inj]
                Suc_le_eq)

lemma views_followup_guarded [simp]: "views (followup_guarded msg lg ans) = []"
  by (simp add: followup_guarded_def views_def split: option.splits http_exc.splits)

lemma keys_filter_wf:
  "[k \<leftarrow> role_to_channel_keys. P k] \<noteq> [] \<Longrightarrow> wf_selector (role_selector nm u [k \<leftarrow> role_to_channel_keys. P k] rm)"
proof (rule role_selector_wf)
  have "length [k \<leftarrow> role_to_channel_keys. P k] \<le> length role_to_channel_keys"
    by (rule length_filter_le)
  then show "length [k \<leftarrow> role_to_channel_keys. P k] \<le> 25"
    by (simp add: role_to_channel_keys_def)
qed (simp_all add: role_to_channel_keys_distinct)

lemma add_command_views:
  "views (add_command nm guild user ur ans) = [] \<or>
   ([k \<leftarrow> role_to_channel_keys. k \<in> set guild \<and> k \<notin> set ur] \<noteq> [] \<and>
    views (add_command nm guild user ur ans) =
      role_view nm user [k \<leftarrow> role_to_channel_keys. k \<in> set guild \<and> k \<notin> set ur] False)"
proof -
  obtain r a where ra: "rest_call ans = (r, a)"
    by (cases "rest_call ans")
  show ?thesis
  proof (cases r)
    case None
    with ra show ?thesis
      unfolding add_command_def add_roles_filter by (simp add: Let_def views_def)
  next
    case (Some e)
    with ra show ?thesis
      unfolding add_command_def by (simp add: Let_def)
  qed
qed

lemma remove_command_views:
  "views (remove_command nm guild user ur ans) = [] \<or>
   ([k \<leftarrow> role_to_channel_keys. k \<in> set guild \<and> k \<in> set ur] \<noteq> [] \<and>
    views (remove_command nm guild user ur ans) =
      role_view nm user [k \<leftarrow> role_to_channel_keys. k \<in> set guild \<and> k \<in> set ur] True)"
proof -
  obtain r a where ra: "rest_call ans = (r, a)"
    by (cases "rest_call ans")
  show ?thesis
  proof (cases r)
    case None
    with ra show ?thesis
      unfolding remove_command_def remove_roles_filter by (simp add: Let_def views_def)
  next
    case (Some e)
    with ra show ?thesis
      unfolding remove_command_def by (simp add: Let_def)
  qed
qed

text \<open>
  C22. Every select menu that \<open>/add\<close> or \<open>/remove\<close> sends, whatever Discord answers,
  is one Discord accepts: between one and 25 options (at most the table's four), with
  distinct values, asking for at least one and at most all of them.
\<close>

theorem command_selectors_wf:
  "list_all wf_selector (views (add_command nm guild user ur ans)) \<and>
   list_all wf_selector (views (remove_command nm guild user ur ans))"
  using add_command_views [of nm guild user ur ans] remove_command_views [of nm guild user ur ans]
  by (auto simp: role_view_def keys_filter_wf)

subsection \<open>The add and remove commands\<close>

text \<open>
  C20. When its response goes through, \<open>/add\<close> offers, in the table's order, exactly
  the table's roles that the guild has and the user lacks, and says the user has them
  all when there is none; \<open>/remove\<close> offers, in the table's order, exactly the
  table's roles that the guild has and the user holds, and says so when there is none.
\<close>

theorem add_remove_offers:
  "add_command nm guild user ur (None # rest) =
     \<lparr>out_replies = [if dom role_to_channel \<inter> set guild \<subseteq> set ur then Respond ROLE_ALREADY_HAVE_ALL []
                     else Respond SELECT_ROLES_TO_ADD
                            (role_view nm user [k \<leftarrow> role_to_channel_keys. k \<in> set guild \<and> k \<notin> set ur] False)],
      out_log = [], out_raised = None\<rparr> \<and>
   remove_command nm guild user ur (None # rest) =
     \<lparr>out_replies = [if dom role_to_channel \<inter> set guild \<inter> set ur = {} then Respond USER_DOES_NOT_HAVE_ROLES []
                     else Respond SELECT_ROLES_TO_REMOVE
                            (role_view nm user [k \<leftarrow> role_to_channel_keys. k \<in> set guild \<and> k \<in> set ur] True)],
      out_log = [], out_raised = None\<rparr>"
proof
  show "add_command nm guild user ur (None # rest) =
     \<lparr>out_replies = [if dom role_to_channel \<inter> set guild \<subseteq> set ur then Respond ROLE_ALREADY_HAVE_ALL []
                     else Respond SELECT_ROLES_TO_ADD
                            (role_view nm user [k \<leftarrow> role_to_channel_keys. k \<in> set guild \<and> k \<notin> set ur] False)],
      out_log = [], out_raised = None\<rparr>"
    by (auto simp: add_command_sent Let_def filter_keys_Nil_iff)
  show "remove_command nm guild user ur (None # rest) =
     \<lparr>out_replies = [if dom role_to_channel \<inter> set guild \<inter> set ur = {} then Respond USER_DOES_NOT_HAVE_ROLES []
                     else Respond SELECT_ROLES_TO_REMOVE
                            (role_view nm user [k \<leftarrow> role_to_channel_keys. k \<in> set guild \<and> k \<in> set ur] True)],
      out_log = [], out_raised = None\<rparr>"
    by (auto simp: remove_command_sent Let_def filter_keys_Nil_iff)
qed

text \<open>
  C21. For one user, the views of \<open>/add\<close> and \<open>/remove\<close> split the table's roles that
  the guild has: every such role is offered by exactly one of them, each once.
\<close>

theorem add_remove_views_partition:
  "set (offered (add_command nm guild user ur (None # r1))) \<union>
     set (offered (remove_command nm guild user ur (None # r2))) = dom role_to_channel \<inter> set guild \<and>
   set (offered (add_command nm guild user ur (None # r1))) \<inter>
     set (offered (remove_command nm guild user ur (None # r2))) = {} \<and>
   distinct (offered (add_command nm guild user ur (None # r1))) \<and>
   distinct (offered (remove_command nm guild user ur (None # r2)))"
  by (auto simp: offered_add offered_remove role_to_channel_keys_dom [symmetric] role_to_channel_keys_distinct)

subsection \<open>The clear command\<close>

text \<open>
  C23. With a positive amount and every call answered, \<open>/clear\<close> deletes the
  \<open>min amount n\<close> newest of the channel's \<open>n\<close> messages, keeps the others, and
  reports the number deleted, singular for one, or that there was nothing to clear.
\<close>

theorem clear_command_purges:
  assumes "0 < amount"
  shows "clear_command amount history (None # None # None # rest) =
     (drop (nat amount) history,
      \<lparr>out_replies = [Deferred, Followup (if history = [] then NO_MESSAGES_TO_CLEAR
                        else ''Cleared '' @ py_str_int (min amount (int (length history))) @
                             (if min amount (int (length history)) = 1 then '' message'' else '' messages''))],
       out_log = [], out_raised = None\<rparr>)"
  using assms length_take_int [OF assms, of history]
  by (simp add: clear_command_def prepend_reply_def cleared_text_def Let_def)


theorem clear_command_purges_witness:
  "0 < (2::int) \<and>
   clear_command 2 [7, 8, 9] [None, None, None] =
     (drop (nat 2) [7, 8, 9],
      \<lparr>out_replies = [Deferred, Followup (if [7, 8, 9 :: msg_id] = [] then NO_MESSAGES_TO_CLEAR
                        else ''Cleared '' @ py_str_int (min 2 (int (length [7, 8, 9 :: msg_id]))) @
                             (if min 2 (int (length [7, 8, 9 :: msg_id])) = 1 then '' message'' else '' messages''))],
       out_log = [], out_raised = None\<rparr>)"
  using clear_command_purges [of 2 "[7, 8, 9]" "[]"] by simp

text \<open>
  C24. When the purge fails, \<open>/clear\<close> deletes nothing and reports the permission
  problem for \<open>Forbidden\<close> and a generic error for every other HTTP failure.
\<close>

theorem clear_command_purge_fails:
  assumes "0 < amount"
  shows "clear_command amount history (None # Some e # None # rest) =
     (history,
      \<lparr>out_replies = [Deferred, Followup (if e = Forbidden then NO_PERMISSION_TO_DELETE_MESSAGES
                                         else ERROR_CLEARING_MESSAGES)],
       out_log = [(ERROR, if e = Forbidden then NO_PERMISSION_TO_DELETE_MESSAGES
                         else ''Clear command: An error occurred: '')],
       out_raised = None\<rparr>)"
  using assms
  by (cases e) (simp_all add: clear_command_def prepend_reply_def clear_failed_def followup_guarded_def)


theorem clear_command_purge_fails_witness:
  "0 < (3::int) \<and>
   clear_command 3 [7] [None, Some Forbidden, None] =
     ([7], \<lparr>out_replies = [Deferred, Followup NO_PERMISSION_TO_DELETE_MESSAGES],
            out_log = [(ERROR, NO_PERMISSION_TO_DELETE_MESSAGES)], out_raised = None\<rparr>)"
  using clear_command_purge_fails [of 3 "[7]" Forbidden "[]"] by simp

subsection \<open>The selection view\<close>

text \<open>
  C25. Choosing roles of the guild in a selector, with every request answered, adds
  (in an add selector) or removes (in a remove selector) exactly the chosen roles and
  confirms it.
\<close>

theorem selection_applies:
  assumes "set chosen \<subseteq> set guild"
  shows "selector_callback sel guild (map py_str_int chosen) rs (replicate (length chosen) None @ None # rest) =
     (if sel_remove sel then rs - set chosen else rs \<union> set chosen,
      \<lparr>out_replies = [Respond ((if sel_remove sel then ''Roles removed for '' else ''Roles added for '') @
                                mention (sel_user sel)) []],
       out_log = [], out_raised = None\<rparr>)"
  using assms
  by (cases "sel_remove sel") (simp_all add: selector_callback_def add_each_ok remove_selected_ok)

theorem selection_applies_witness:
  "set [1, 2] \<subseteq> set [1, 2, 3 :: role_id] \<and>
   selector_callback (role_selector (\<lambda>_. ''Plugin'') \<lparr>mid = 5, avatar = None\<rparr> [1, 2] False) [1, 2, 3] (map py_str_int [1, 2]) {7} [None, None, None] =
     (if sel_remove (role_selector (\<lambda>_. ''Plugin'') \<lparr>mid = 5, avatar = None\<rparr> [1, 2] False) then {7} - set [1, 2] else {7} \<union> set [1, 2],
      \<lparr>out_replies = [Respond ((if sel_remove (role_selector (\<lambda>_. ''Plugin'') \<lparr>mid = 5, avatar = None\<rparr> [1, 2] False) then ''Roles removed for '' else ''Roles added for '') @
                                mention (sel_user (role_selector (\<lambda>_. ''Plugin'') \<lparr>mid = 5, avatar = None\<rparr> [1, 2] False))) []],
       out_log = [], out_raised = None\<rparr>)"
  using selection_applies [of "[1, 2]" "[1, 2, 3]" "role_selector (\<lambda>_. ''Plugin'') \<lparr>mid = 5, avatar = None\<rparr> [1, 2] False" "{7}" "[]"] by simp

text \<open>
  C26. Adding is not atomic: when the request for the \<open>k\<close>-th chosen role is
  forbidden, the roles chosen before it stay added, the later ones are not sent, and
  the user is told the bot lacks permission.
\<close>

theorem add_selection_partial:
  assumes "\<not> sel_remove sel" and "k < length chosen" and "set chosen \<subseteq> set guild"
  shows "selector_callback sel guild (map py_str_int chosen) rs (replicate k None @ Some Forbidden # None # rest) =
     (rs \<union> set (take k chosen),
      \<lparr>out_replies = [Respond ''I don't have permission to modify these roles.'' []],
       out_log = [(ERROR, ''RoleSelector callback: Bot lacks permissions to modify roles for '')],
       out_raised = None\<rparr>)"
  using assms by (simp add: selector_callback_def add_each_fail callback_failed_def)


theorem add_selection_partial_witness:
  "\<not> sel_remove (role_selector (\<lambda>_. ''Plugin'') \<lparr>mid = 5, avatar = None\<rparr> [1, 2] False) \<and> (1::nat) < length [1, 2 :: role_id] \<and> set [1, 2] \<subseteq> set [1, 2, 3 :: role_id] \<and>
   selector_callback (role_selector (\<lambda>_. ''Plugin'') \<lparr>mid = 5, avatar = None\<rparr> [1, 2] False) [1, 2, 3] (map py_str_int [1, 2]) {7} [None, Some Forbidden, None] =
     ({7} \<union> set (take 1 [1, 2]),
      \<lparr>out_replies = [Respond ''I don't have permission to modify these roles.'' []],
       out_log = [(ERROR, ''RoleSelector callback: Bot lacks permissions to modify roles for '')],
       out_raised = None\<rparr>)"
  using add_selection_partial [of "role_selector (\<lambda>_. ''Plugin'') \<lparr>mid = 5, avatar = None\<rparr> [1, 2] False" 1 "[1, 2]" "[1, 2, 3]" "{7}" "[]"] by (simp add: role_selector_def)

text \<open>
  C27. A role deleted from the guild after the menu was sent: the callback handles
  the chosen roles in order, one request each, and when it reaches the deleted one
  \<open>get_role\<close> gives \<open>None\<close>, on which discord.py's \<open>add_roles\<close> and
  \<open>remove_roles\<close> raise \<open>AttributeError\<close>.  The roles chosen before it stay added
  or removed, the later ones are untouched, and the member is only told that an
  unexpected error occurred.
\<close>

theorem deleted_role_selection:
  assumes "set (pre @ r # post) \<subseteq> set roles" and "set pre \<subseteq> set guild" and "r \<notin> set guild"
  shows "selector_callback (role_selector nm user roles rm) guild (map py_str_int (pre @ r # post)) rs
           (replicate (length pre) None @ None # rest) =
     (if rm then rs - set pre else rs \<union> set pre,
      \<lparr>out_replies = [Respond ''An unexpected error occurred.'' []],
       out_log = [(ERROR, ''RoleSelector callback: Unexpected error: '')], out_raised = None\<rparr>)"
  using add_each_deleted [OF assms(2,3), of post rs "None # rest"]
        remove_selected_deleted [OF assms(2,3), of post rs "None # rest"]
  by (cases rm) (simp_all add: selector_callback_def role_selector_def callback_failed_def)

theorem deleted_role_selection_witness:
  "set ([1] @ 2 # []) \<subseteq> set [1, 2 :: int] \<and> set [1 :: int] \<subseteq> set [1] \<and> (2 :: int) \<notin> set [1] \<and>
   selector_callback (role_selector (\<lambda>_. ''Plugin'') \<lparr>mid = 5, avatar = None\<rparr> [1, 2] True) [1]
     (map py_str_int ([1] @ 2 # [])) {1, 2} (replicate (length [1 :: int]) None @ None # []) =
     ({2}, \<lparr>out_replies = [Respond ''An unexpected error occurred.'' []],
            out_log = [(ERROR, ''RoleSelector callback: Unexpected error: '')], out_raised = None\<rparr>)"
  using deleted_role_selection [of "[1]" 2 "[]" "[1, 2]" "[1]" "\<lambda>_. ''Plugin''" "\<lparr>mid = 5, avatar = None\<rparr>" True "{1, 2}" "[]"]
  by simp

end
