(* ===== verification/Membership.thy ===== *)
theory Membership
  imports Prelude
begin

text \<open>
  The membership side of \<open>RoleManagerBot\<close> (src/bot/bot_class.py): the default role
  given to a member who joins (\<open>assign_role_to_member\<close>, \<open>on_member_join\<close>), the
  periodic sweep over the whole guild (\<open>check_and_assign_role\<close>, whose loop pages
  through \<open>guild.fetch_members\<close> 1000 members at a time, and
  \<open>periodic_role_check\<close>), the presence text \<open>over {n:,} members\<close>
  (\<open>update_bot_activity\<close>) and the startup and shutdown messages.  A fetched member
  is its id and the ids of its roles; the guild's answers (the roster, the roles it
  knows, whether \<open>add_roles\<close> fails) are inputs.  \<open>fetch_members\<close> is discord.py's
  paging over Discord's member list: at most \<open>limit\<close> members with an id above
  \<open>after\<close>, in increasing id order.
\<close>

record gmember =
  gid :: member_id
  groles :: "role_id list"

datatype assign_outcome = Excluded | RoleNotFound | AlreadyHas | Added | AddFailed

text \<open>Line 157 and the role ids and channel ids of lines 30, 181, 228 and 232.\<close>

definition excluded_member_ids :: "member_id list" where
  "excluded_member_ids = [1200196215481041018, 1086954578764902481, 189771862610411524]"

definition member_role_id :: role_id where
  "member_role_id = 372378135557308427"

definition home_guild_id :: int where
  "home_guild_id = 372369352173027331"

definition startup_channel_id :: int where
  "startup_channel_id = 1094604434195107921"

text \<open>
  Lines 148--172.  \<open>guild_roles\<close> are the roles \<open>guild.get_role\<close> finds,
  \<open>add_fails\<close> says whether \<open>member.add_roles\<close> raises for a member; the check of
  line 167 reads the fetched member's roles.
\<close>

definition assign_role_to_member ::
  "role_id list \<Rightarrow> (member_id \<Rightarrow> bool) \<Rightarrow> gmember \<Rightarrow> role_id \<Rightarrow> assign_outcome \<times> log" where
  "assign_role_to_member guild_roles add_fails m role_id =
     (if gid m \<in> set excluded_member_ids then (Excluded, [])
      else if role_id \<notin> set guild_roles
      then (RoleNotFound, [(ERROR, ''Role with ID '' @ py_str_int role_id @ '' not found.'')])
      else if role_id \<in> set (groles m) then (AlreadyHas, [])
      else if add_fails (gid m) then (AddFailed, [(ERROR, ''Error assigning role to member'')])
      else (Added, [(INFO, ''Role has been added to member'')]))"

text \<open>The effect of an assignment on the member.\<close>

definition apply_assign :: "role_id \<Rightarrow> gmember \<Rightarrow> assign_outcome \<Rightarrow> gmember" where
  "apply_assign role_id m outcome =
     (if outcome = Added then m\<lparr>groles := groles m @ [role_id]\<rparr> else m)"

definition after_ok :: "member_id option \<Rightarrow> member_id \<Rightarrow> bool" where
  "after_ok after i = (case after of None \<Rightarrow> True | Some a \<Rightarrow> a < i)"

definition fetch_members :: "gmember list \<Rightarrow> nat \<Rightarrow> member_id option \<Rightarrow> gmember list" where
  "fetch_members roster limit after =
     take limit (sort_key gid [m \<leftarrow> roster. after_ok after (gid m)])"

text \<open>
  Lines 207--219: the pages the loop fetches.  The loop stops at the first page
  shorter than the limit; otherwise it continues after the last member of the page.
\<close>

function sweep_pages :: "gmember list \<Rightarrow> member_id option \<Rightarrow> gmember list list" where
  "sweep_pages roster after =
     (let members = fetch_members roster 1000 after in
      if length members < 1000 then [members]
      else members # sweep_pages roster (Some (gid (last members))))"
  by pat_completeness auto

text \<open>
  The loop ends: the members above the cursor decrease, because the new cursor is
  the id of a member above the old one.
\<close>

termination sweep_pages
proof (relation "measure (\<lambda>(roster, after). length [m \<leftarrow> roster. after_ok after (gid m)])")
  show "wf (measure (\<lambda>(roster, after). length [m \<leftarrow> roster. after_ok after (gid m)]))"
    by simp
next
  fix roster :: "gmember list" and after members
  assume mem: "members = fetch_members roster 1000 after" and long: "\<not> length members < 1000"
  let ?F = "[m \<leftarrow> roster. after_ok after (gid m)]"
  let ?a = "gid (last members)"
  have ne: "members \<noteq> []"
    using long by auto
  then have lst: "last members \<in> set ?F"
    using mem by (metis fetch_members_def last_in_set in_set_takeD set_sort)
  then have gt: "after_ok after ?a"
    by simp
  have sub: "[m \<leftarrow> roster. after_ok (Some ?a) (gid m)] = [m \<leftarrow> ?F. after_ok (Some ?a) (gid m)]"
    using gt by (auto simp: after_ok_def filter_filter intro!: filter_cong split: option.splits)
  have "length [m \<leftarrow> ?F. after_ok (Some ?a) (gid m)] < length ?F"
    using lst by (rule length_filter_less) (simp add: after_ok_def)
  then show "((roster, Some ?a), roster, after)
               \<in> measure (\<lambda>(roster, after). length [m \<leftarrow> roster. after_ok after (gid m)])"
    using sub by simp
qed

text \<open>
  Lines 194--221.  With the role missing the function logs and returns; otherwise
  every fetched member goes through \<open>assign_role_to_member\<close>, page after page.
\<close>

definition check_and_assign_role ::
  "role_id list \<Rightarrow> (member_id \<Rightarrow> bool) \<Rightarrow> gmember list \<Rightarrow> role_id \<Rightarrow>
   (gmember \<times> assign_outcome) list \<times> log" where
  "check_and_assign_role guild_roles add_fails roster role_id =
     (if role_id \<notin> set guild_roles
      then ([], [(ERROR, ''Role with ID '' @ py_str_int role_id @ '' not found.'')])
      else
        let visited = concat (sweep_pages roster None);
            results = map (\<lambda>m. assign_role_to_member guild_roles add_fails m role_id) visited
        in (zip visited (map fst results),
            concat (map snd results) @ [(INFO, ''Finished assigning roles to all members.'')]))"

text \<open>
  Lines 83--93.  \<open>self.guilds[0]\<close> raises \<open>IndexError\<close> when the bot is in no
  guild; \<open>f"{member_count:,}"\<close> raises \<open>TypeError\<close> when discord.py does not know
  the count (\<open>member_count\<close> is \<open>None\<close>).  The argument is the member count of
  each guild of the bot, in \<open>self.guilds\<close> order; the result is the activity text.
\<close>

definition update_bot_activity :: "nat option list \<Rightarrow> py_exc + string" where
  "update_bot_activity guild_counts =
     (case guild_counts of
        [] \<Rightarrow> Inl IndexError
      | c # _ \<Rightarrow>
          (case c of
             None \<Rightarrow> Inl TypeError
           | Some n \<Rightarrow> Inr (''over '' @ fmt_thousands n @ '' members'')))"

text \<open>Lines 174--183 and 185--192.\<close>

definition on_member_join ::
  "role_id list \<Rightarrow> (member_id \<Rightarrow> bool) \<Rightarrow> gmember \<Rightarrow> nat option list \<Rightarrow>
   (assign_outcome \<times> log) \<times> (py_exc + string)" where
  "on_member_join guild_roles add_fails m guild_counts =
     (assign_role_to_member guild_roles add_fails m member_role_id, update_bot_activity guild_counts)"

definition on_member_remove :: "nat option list \<Rightarrow> py_exc + string" where
  "on_member_remove guild_counts = update_bot_activity guild_counts"

text \<open>
  src/bot/messages.py lines 21--22, and src/bot/bot_class.py lines 32--49 and
  51--64: the messages posted to the startup channel and the log, given whether
  \<open>get_channel\<close> found the channel and whether \<open>send\<close> succeeded.
\<close>

definition STARTUP_MESSAGE :: string where
  "STARTUP_MESSAGE = ''The bot has started!''"

definition SHUTDOWN_MESSAGE :: string where
  "SHUTDOWN_MESSAGE = ''The bot is shutting down.''"

definition send_startup_message :: "bool \<Rightarrow> bool \<Rightarrow> string list \<times> log" where
  "send_startup_message channel_found send_ok =
     (let pre = [(INFO, ''Attempting to send startup message''), (INFO, ''Fetching startup channel''),
                 (INFO, ''Startup channel: '')] in
      if channel_found
      then (if send_ok
            then ([STARTUP_MESSAGE], pre @ [(INFO, ''Startup channel found: ''),
                                           (INFO, ''Startup message sent successfully'')])
            else ([], pre @ [(INFO, ''Startup channel found: ''), (ERROR, ''Failed to send startup message: '')]))
      else ([], pre @ [(WARNING, ''Startup channel not found'')]))"

definition send_shutdown_message :: "bool \<Rightarrow> bool \<Rightarrow> string list \<times> log" where
  "send_shutdown_message channel_found send_ok =
     (let pre = [(INFO, ''Bot is shutting down. Fetching shutdown channel.'')] in
      if channel_found
      then (if send_ok then ([SHUTDOWN_MESSAGE], pre @ [(INFO, ''Shutdown message sent successfully'')])
            else ([], pre @ [(ERROR, ''Failed to send shutdown message: '')]))
      else ([], pre @ [(WARNING, ''Shutdown channel not found'')]))"

text \<open>
  Lines 66--81: \<open>close\<close> posts the shutdown message, then closes the HTTP
  connector when there is one; the result says whether it was closed.
\<close>

definition close_bot :: "bool \<Rightarrow> bool \<Rightarrow> bool \<Rightarrow> string list \<times> log \<times> bool" where
  "close_bot channel_found send_ok has_connector =
     (case send_shutdown_message channel_found send_ok of
        (sent, lg) \<Rightarrow> (sent, (INFO, ''Closing bot and resources'') # lg @
                         (if has_connector then [(INFO, ''HTTP session closed'')] else []),
                       has_connector))"

text \<open>
  Lines 223--233: each iteration of the loop looks the home guild up and sweeps it;
  the argument lists what each wake-up before the bot closes finds: nothing, or the
  guild's known roles, the failing members and the roster.
\<close>

fun periodic_role_check ::
  "(role_id list \<times> (member_id \<Rightarrow> bool) \<times> gmember list) option list \<Rightarrow>
   ((gmember \<times> assign_outcome) list \<times> log) list" where
  "periodic_role_check [] = []"
| "periodic_role_check (None # rest) = periodic_role_check rest"
| "periodic_role_check (Some (guild_roles, add_fails, roster) # rest) =
     check_and_assign_role guild_roles add_fails roster member_role_id # periodic_role_check rest"

subsection \<open>The paging loop\<close>

lemma strict_sorted_sort_key:
  "distinct (map f xs) \<Longrightarrow> sorted_wrt (<) (map f (sort_key f xs))"
proof -
  assume d: "distinct (map f xs)"
  have "mset (map f (sort_key f xs)) = mset (map f xs)"
    by simp
  then have "distinct (map f (sort_key f xs))"
    using d mset_eq_imp_distinct_iff by blast
  then show ?thesis
    by (simp add: strict_sorted_iff)
qed

lemma filter_above_nth:
  fixes f :: "'a \<Rightarrow> 'b :: linorder"
  shows "sorted_wrt (<) (map f xs) \<Longrightarrow> n < length xs \<Longrightarrow> [x \<leftarrow> xs. f (xs ! n) < f x] = drop (Suc n) xs"
proof (induction xs arbitrary: n)
  case Nil
  then show ?case by simp
next
  case (Cons x xs)
  show ?case
  proof (cases n)
    case 0
    with Cons.prems show ?thesis
      by (auto intro!: filter_True)
  next
    case (Suc k)
    with Cons.prems have "f x < f (xs ! k)" and "k < length xs"
      by auto
    with Cons show ?thesis
      using Suc by (simp add: less_not_sym)
  qed
qed

lemma after_ok_cursor:
  assumes "after_ok after a"
  shows "[m \<leftarrow> roster. after_ok (Some a) (gid m)] =
         [m \<leftarrow> [m \<leftarrow> roster. after_ok after (gid m)]. a < gid m]"
  using assms by (auto simp: after_ok_def filter_filter intro!: filter_cong split: option.splits)

text \<open>
  The pages the loop fetches from a cursor, put together, are all the members above
  the cursor in increasing id order (Discord ids are unique).
\<close>

lemma concat_sweep_pages:
  "distinct (map gid roster) \<Longrightarrow>
   concat (sweep_pages roster after) = sort_key gid [m \<leftarrow> roster. after_ok after (gid m)]"
proof (induction roster after rule: sweep_pages.induct)
  case (1 roster after)
  let ?L = "sort_key gid [m \<leftarrow> roster. after_ok after (gid m)]"
  let ?P = "take 1000 ?L"
  have page: "fetch_members roster 1000 after = ?P"
    by (simp add: fetch_members_def)
  show ?case
  proof (cases "length ?P < 1000")
    case True
    then have "?P = ?L"
      by (simp add: min_def split: if_splits)
    with True page show ?thesis
      by (simp add: sweep_pages.simps [of roster after])
  next
    case False
    then have len: "999 < length ?L"
      by simp
    have lenP: "length ?P = 1000"
      using len by simp
    have last: "last ?P = ?L ! 999"
    proof -
      have "?P \<noteq> []"
        by (metis lenP length_0_conv zero_neq_numeral)
      then have "last ?P = ?P ! 999"
        using lenP by (simp add: last_conv_nth)
      then show ?thesis
        by simp
    qed
    have ok: "after_ok after (gid (?L ! 999))"
      using len nth_mem [OF len] by (metis mem_Collect_eq set_filter set_sort)
    have strict: "sorted_wrt (<) (map gid ?L)"
      using "1.prems" by (simp add: strict_sorted_sort_key distinct_map_filter)
    let ?F = "[m \<leftarrow> roster. after_ok after (gid m)]"
    have c1: "[m \<leftarrow> roster. after_ok (Some (gid (last ?P))) (gid m)] = [m \<leftarrow> ?F. gid (?L ! 999) < gid m]"
      using after_ok_cursor [OF ok] last by simp
    have c2: "sort_key gid [m \<leftarrow> ?F. gid (?L ! 999) < gid m] = [m \<leftarrow> ?L. gid (?L ! 999) < gid m]"
      by (rule filter_sort [symmetric])
    have c3: "[m \<leftarrow> ?L. gid (?L ! 999) < gid m] = drop 1000 ?L"
      using filter_above_nth [OF strict len] by simp
    have "sort_key gid [m \<leftarrow> roster. after_ok (Some (gid (last ?P))) (gid m)] = drop 1000 ?L"
      by (simp only: c1 c2 c3)
    moreover have "concat (sweep_pages roster (Some (gid (last ?P)))) =
        sort_key gid [m \<leftarrow> roster. after_ok (Some (gid (last ?P))) (gid m)]"
      using "1.IH" [OF refl] False page "1.prems" by simp
    ultimately show ?thesis
      using False page by (simp add: sweep_pages.simps [of roster after] Let_def)
  qed
qed

declare sweep_pages.simps [simp del]

lemma sweep_sorted_roster:
  "distinct (map gid roster) \<Longrightarrow> concat (sweep_pages roster None) = sort_key gid roster"
  using concat_sweep_pages [of roster None] by (simp add: after_ok_def)


text \<open>
  C17. The sweep of \<open>check_and_assign_role\<close> terminates and visits every member of
  the guild exactly once, in increasing id order: its pages put together are the
  whole roster sorted by id.
\<close>

theorem sweep_visits_all:
  "distinct (map gid roster) \<Longrightarrow> concat (sweep_pages roster None) = sort_key gid roster"
  by (rule sweep_sorted_roster)

theorem sweep_visits_all_witness:
  "distinct (map gid [\<lparr>gid = 7, groles = []\<rparr>, \<lparr>gid = 3, groles = [1]\<rparr>]) \<and>
   concat (sweep_pages [\<lparr>gid = 7, groles = []\<rparr>, \<lparr>gid = 3, groles = [1]\<rparr>] None) =
     sort_key gid [\<lparr>gid = 7, groles = []\<rparr>, \<lparr>gid = 3, groles = [1]\<rparr>]"
  using sweep_visits_all [of "[\<lparr>gid = 7, groles = []\<rparr>, \<lparr>gid = 3, groles = [1]\<rparr>]"] by simp

subsection \<open>Role assignment\<close>

lemma assign_Added_iff:
  "fst (assign_role_to_member gr add_fails m r) = Added \<longleftrightarrow>
     gid m \<notin> set excluded_member_ids \<and> r \<in> set gr \<and> r \<notin> set (groles m) \<and> \<not> add_fails (gid m)"
  by (simp add: assign_role_to_member_def)

text \<open>
  C18. When the role exists, the sweep goes through every member once, in id order,
  and adds the role to exactly the members that are not excluded, lack the role and
  for whom \<open>add_roles\<close> succeeds: excluded members and members that already have
  the role are never touched.
\<close>

theorem check_and_assign_role_added:
  assumes "role_id \<in> set guild_roles" and "distinct (map gid roster)"
  shows "map fst (fst (check_and_assign_role guild_roles add_fails roster role_id)) = sort_key gid roster \<and>
         {m. (m, Added) \<in> set (fst (check_and_assign_role guild_roles add_fails roster role_id))} =
         {m \<in> set roster. gid m \<notin> set excluded_member_ids \<and> role_id \<notin> set (groles m) \<and>
                          \<not> add_fails (gid m)}"
proof -
  let ?xs = "sort_key gid roster"
  have v: "concat (sweep_pages roster None) = ?xs"
    using assms(2) by (rule sweep_sorted_roster)
  have res: "fst (check_and_assign_role guild_roles add_fails roster role_id) =
      map (\<lambda>m. (m, fst (assign_role_to_member guild_roles add_fails m role_id))) ?xs"
    using assms(1) v by (simp add: check_and_assign_role_def Let_def zip_map_right)
  show ?thesis
    using assms(1) by (auto simp: res comp_def assign_Added_iff eq_commute [of Added])
qed

theorem check_and_assign_role_added_witness:
  "(1 :: int) \<in> set [1, 2] \<and> distinct (map gid [\<lparr>gid = 7, groles = []\<rparr>, \<lparr>gid = 3, groles = [1]\<rparr>]) \<and>
   map fst (fst (check_and_assign_role [1, 2] (\<lambda>_. False)
                  [\<lparr>gid = 7, groles = []\<rparr>, \<lparr>gid = 3, groles = [1]\<rparr>] 1)) =
     sort_key gid [\<lparr>gid = 7, groles = []\<rparr>, \<lparr>gid = 3, groles = [1]\<rparr>] \<and>
   {m. (m, Added) \<in> set (fst (check_and_assign_role [1, 2] (\<lambda>_. False)
                  [\<lparr>gid = 7, groles = []\<rparr>, \<lparr>gid = 3, groles = [1]\<rparr>] 1))} =
     {m \<in> set [\<lparr>gid = 7, groles = []\<rparr>, \<lparr>gid = 3, groles = [1]\<rparr>].
        gid m \<notin> set excluded_member_ids \<and> 1 \<notin> set (groles m) \<and> \<not> (\<lambda>_. False) (gid m)}"
  using check_and_assign_role_added [of 1 "[1, 2]" "[\<lparr>gid = 7, groles = []\<rparr>, \<lparr>gid = 3, groles = [1]\<rparr>]"
      "\<lambda>_. False"]
  by simp

subsection \<open>The presence text\<close>

text \<open>
  C19. With the first guild's member count known, \<open>update_bot_activity\<close> returns
  \<open>over\<close>, the count as \<open>{n:,}\<close> formats it, and \<open>members\<close>: split at its commas,
  the count is a first group of one to three digits followed by groups of exactly
  three, and together the groups are the decimal digits of the count.
\<close>

theorem update_bot_activity_count:
  "\<exists>t. update_bot_activity (Some n # rest) = Inr (''over '' @ t @ '' members'') \<and>
       concat (py_split_comma t) = dec_digits n \<and>
       1 \<le> length (hd (py_split_comma t)) \<and> length (hd (py_split_comma t)) \<le> 3 \<and>
       list_all (\<lambda>g. length g = 3) (tl (py_split_comma t))"
  using fmt_thousands_groups [of n]
  by (simp add: update_bot_activity_def concat_py_split_comma fmt_thousands_digits)

lemma update_bot_activity_errors:
  "update_bot_activity [] = Inl IndexError" "update_bot_activity (None # rest) = Inl TypeError"
  by (simp_all add: update_bot_activity_def)

end
