(* ===== verification/Legacy.thy ===== *)
theory Legacy
  imports Commands Membership
begin

text \<open>
  src/src/main.py, the single-file bot the package under src/bot was refactored from,
  modelled from its own lines with the types of the package's theories.  Its
  \<open>print\<close> calls are log entries at level \<open>STDOUT\<close>.  The selection callback
  (lines 136--156) is the text of src/bot/utils.py lines 30--56 and is not restated;
  the paging loop of \<open>check_and_assign_role\<close> (lines 325--337) is the package's,
  so it is written with \<open>sweep_pages\<close>.  The lemmas state where the package
  behaves as this file and where the refactoring changed the behaviour.
\<close>

subsection \<open>Module state (lines 18--27)\<close>

definition legacy_role_to_channel :: role_table where
  "legacy_role_to_channel =
     [380725404262072320 \<mapsto> ''1200047665442979860'', 393044988411379742 \<mapsto> ''1195736480950276196'',
      380725142608674816 \<mapsto> ''1195734262792605846'', 380724874236395520 \<mapsto> ''1195452480687964344'']"

definition legacy_role_to_channel_keys :: "role_id list" where
  "legacy_role_to_channel_keys =
     [380725404262072320, 393044988411379742, 380725142608674816, 380724874236395520]"

subsection \<open>The coalescing queue and the notification (lines 183--274)\<close>

text \<open>Lines 258--274, with the global \<open>role_update_queue\<close> passed and returned.\<close>

definition legacy_on_member_update :: "role_queue \<Rightarrow> member_id \<Rightarrow> role_id list \<Rightarrow> role_queue \<times> bool" where
  "legacy_on_member_update q m new_roles =
     (let added = [r \<leftarrow> new_roles. r \<in> dom legacy_role_to_channel] in
      if added = [] then (q, False)
      else
        let queued = dict_get q m [];
            unique = [r \<leftarrow> added. r \<notin> set queued] in
        if unique = [] then (q, False)
        else (q(m \<mapsto> dict_get q m [] @ unique),
              (case q m of None \<Rightarrow> 0 | Some xs \<Rightarrow> length (xs @ unique)) = 0))"

text \<open>Lines 250--255 after the sleep: the pop, and the roles to announce if any.\<close>

definition legacy_process_role_queue :: "role_queue \<Rightarrow> member_id \<Rightarrow> role_id list option \<times> role_queue" where
  "legacy_process_role_queue q m =
     (case dict_pop q m [] of (roles, q') \<Rightarrow> (if roles \<noteq> [] then Some roles else None, q'))"

text \<open>Lines 183--234.\<close>

definition legacy_send_verification_message ::
  "(role_id \<Rightarrow> string) \<Rightarrow> bool \<Rightarrow> member \<Rightarrow> role_id list \<Rightarrow> nat \<Rightarrow>
   http_exc + msg_id \<Rightarrow> py_exc + notify_outcome \<times> log" where
  "legacy_send_verification_message role_name channel_found mbr role_list now send_result =
     (if \<not> channel_found then Inr (ChannelMissing, [(STDOUT, ''Verification channel not found.'')])
      else case avatar mbr of
        None \<Rightarrow> Inl AttributeError
      | Some url \<Rightarrow>
          (let role_names = map role_name role_list;
               mentions = [''<#'' @ the (legacy_role_to_channel r) @ ''>''.
                             r \<leftarrow> role_list, r \<in> dom legacy_role_to_channel];
               texts =
                 (if length role_list = 1
                  then Inr (''**'' @ role_names ! 0 @ ''**'', ''plugin'', ''the post below'')
                  else if role_names = [] then Inl IndexError
                  else Inr (py_join '', '' (map (\<lambda>n. ''**'' @ n @ ''**'') (butlast role_names)) @
                              '' and **'' @ last role_names @ ''**'', ''plugins'', ''the posts below''))
           in case texts of
                Inl e \<Rightarrow> Inl e
              | Inr (roles_text, plugin_text, topic_text) \<Rightarrow>
                  (let emb = \<lparr>title = ''Thank you for your purchase!'', color = 366185, thumbnail = url,
                              description = ''You have been successfully verified for '' @ roles_text @
                                ''. For complete documentation of the '' @ plugin_text @
                                '', please access '' @ topic_text @ ''.'',
                              embed_fields = map (\<lambda>(n, v). (n, v, True)) (zip role_names mentions),
                              footer_deadline = now + 86400\<rparr>
                   in case send_result of
                        Inl err \<Rightarrow> Inr (SendFailed err, [(STDOUT, ''Failed to send verification message'')])
                      | Inr msg \<Rightarrow> Inr (Sent msg (mention mbr) emb, []))))"

text \<open>Lines 237--247.\<close>

definition legacy_delete_message_after_delay :: "msg_id \<Rightarrow> http_exc option \<Rightarrow> log" where
  "legacy_delete_message_after_delay msg result =
     (case result of
        None \<Rightarrow> []
      | Some NotFound \<Rightarrow> []
      | Some Forbidden \<Rightarrow> [(STDOUT, ''Bot does not have permission to delete message: '' @ dec_digits msg)]
      | Some (HTTPError status) \<Rightarrow> [(STDOUT, ''Error occurred while deleting message'')])"

subsection \<open>The selection view (lines 119--164)\<close>

text \<open>Lines 122--134: an add selector only offers the roles the user lacks.\<close>

definition legacy_role_selector ::
  "(role_id \<Rightarrow> string) \<Rightarrow> member \<Rightarrow> role_id list \<Rightarrow> role_id list \<Rightarrow> bool \<Rightarrow> selector" where
  "legacy_role_selector nm user user_roles roles remove =
     (let options = (if remove then map (\<lambda>r. (nm r, py_str_int r)) roles
                     else [(nm r, py_str_int r). r \<leftarrow> roles, r \<notin> set user_roles]);
          placeholder = (if remove then ''Choose specific roles to remove...'' else ''Choose roles to add...'')
      in \<lparr>sel_user = user, sel_roles = roles, sel_remove = remove, sel_options = options,
          sel_placeholder = placeholder, sel_min = 1, sel_max = length options\<rparr>)"

definition legacy_role_view ::
  "(role_id \<Rightarrow> string) \<Rightarrow> member \<Rightarrow> role_id list \<Rightarrow> role_id list \<Rightarrow> bool \<Rightarrow> selector list" where
  "legacy_role_view nm user user_roles roles remove = [legacy_role_selector nm user user_roles roles remove]"

text \<open>
  Lines 136--156: the callback.  Its loops (lines 139--140 and 143--145) and its
  \<open>except\<close> clauses are the text of src/bot/utils.py lines 39--56, so the package's
  \<open>remove_selected\<close>, \<open>add_each\<close> and \<open>callback_failed\<close> model them.
\<close>

definition legacy_selector_callback ::
  "selector \<Rightarrow> role_id list \<Rightarrow> string list \<Rightarrow> role_id set \<Rightarrow> answers \<Rightarrow> role_id set \<times> cmd_out" where
  "legacy_selector_callback sel guild values rs ans =
     (let (err, rs', ans1) =
        (if sel_remove sel then remove_selected guild values rs ans else add_each guild values rs ans)
      in (rs',
          case err of
            None \<Rightarrow>
              (case rest_call ans1 of
                 (None, _) \<Rightarrow>
                   \<lparr>out_replies = [Respond ((if sel_remove sel then ''Roles removed for '' else ''Roles added for '') @
                                              mention (sel_user sel)) []],
                    out_log = [], out_raised = None\<rparr>
               | (Some e, ans2) \<Rightarrow> callback_failed (Inr e) ans2)
          | Some e \<Rightarrow> callback_failed e ans1))"

subsection \<open>The commands (lines 31--115)\<close>

text \<open>The legacy error paths answer without a guard against a vanished webhook.\<close>

definition legacy_respond_error :: "(string \<Rightarrow> reply) \<Rightarrow> string \<Rightarrow> log \<Rightarrow> answers \<Rightarrow> cmd_out" where
  "legacy_respond_error how msg lg ans =
     (case fst (rest_call ans) of
        None \<Rightarrow> \<lparr>out_replies = [how msg], out_log = lg, out_raised = None\<rparr>
      | Some x \<Rightarrow> \<lparr>out_replies = [], out_log = lg, out_raised = Some x\<rparr>)"

text \<open>Lines 38--54.\<close>

definition legacy_add_command ::
  "(role_id \<Rightarrow> string) \<Rightarrow> role_id list \<Rightarrow> member \<Rightarrow> role_id list \<Rightarrow> answers \<Rightarrow> cmd_out" where
  "legacy_add_command nm guild user user_roles ans =
     (let roles = [r. Some r \<leftarrow> map (get_role guild) legacy_role_to_channel_keys, r \<notin> set user_roles];
          rep = (if roles = [] then Respond ''This user already has all the roles.'' []
                 else Respond ''Select roles to add:'' (legacy_role_view nm user user_roles roles False))
      in case rest_call ans of
           (None, _) \<Rightarrow> \<lparr>out_replies = [rep], out_log = [], out_raised = None\<rparr>
         | (Some _, ans') \<Rightarrow>
             legacy_respond_error (\<lambda>t. Respond t []) ''An error occurred while adding roles.''
               [(ERROR, ''Error in add command: '')] ans')"

text \<open>Lines 56--73.\<close>

definition legacy_remove_command ::
  "(role_id \<Rightarrow> string) \<Rightarrow> role_id list \<Rightarrow> member \<Rightarrow> role_id list \<Rightarrow> answers \<Rightarrow> cmd_out" where
  "legacy_remove_command nm guild user user_roles ans =
     (let roles = [the (get_role guild k). k \<leftarrow> legacy_role_to_channel_keys,
                     get_role guild k \<in> set (map Some user_roles)];
          rep = (if roles = [] then Respond ''This user does not have any of the specific roles to remove.'' []
                 else Respond ''Select specific roles to remove:'' (legacy_role_view nm user user_roles roles True))
      in case rest_call ans of
           (None, _) \<Rightarrow> \<lparr>out_replies = [rep], out_log = [], out_raised = None\<rparr>
         | (Some _, ans') \<Rightarrow>
             legacy_respond_error (\<lambda>t. Respond t []) ''An error occurred while removing roles.''
               [(ERROR, ''Error in remove command: '')] ans')"

text \<open>Lines 75--100.\<close>

definition legacy_clear_failed :: "http_exc \<Rightarrow> answers \<Rightarrow> cmd_out" where
  "legacy_clear_failed e ans =
     (case e of
        Forbidden \<Rightarrow> legacy_respond_error Followup ''I do not have permission to delete messages in this channel.''
                       [(ERROR, ''Clear command: Bot does not have permission to delete messages in this channel.'')] ans
      | _ \<Rightarrow> legacy_respond_error Followup ''An error occurred while trying to clear messages.''
               [(ERROR, ''Clear command: An error occurred: '')] ans)"

definition legacy_clear_command :: "int \<Rightarrow> msg_id list \<Rightarrow> answers \<Rightarrow> msg_id list \<times> cmd_out" where
  "legacy_clear_command amount history ans =
     (if amount \<le> 0 then
        (case rest_call ans of
           (None, _) \<Rightarrow>
             (history, \<lparr>out_replies = [Respond ''Please specify a number greater than 0.'' []], out_log = [],
                        out_raised = None\<rparr>)
         | (Some e, a1) \<Rightarrow> (history, legacy_clear_failed e a1))
      else
        (case rest_call ans of
           (Some e, a1) \<Rightarrow> (history, legacy_clear_failed e a1)
         | (None, a1) \<Rightarrow>
             (case rest_call a1 of
                (Some e, a2) \<Rightarrow> (history, prepend_reply Deferred (legacy_clear_failed e a2))
              | (None, a2) \<Rightarrow>
                  (let deleted = take (nat amount) history;
                       n = length deleted;
                       word = (if n = 1 then ''message'' else ''messages'');
                       response = (if deleted \<noteq> [] then ''Cleared '' @ py_str_int (int n) @ '' '' @ word
                                   else ''There were no messages to clear.'')
                   in (drop (nat amount) history,
                       prepend_reply Deferred
                         (case rest_call a2 of
                            (None, _) \<Rightarrow> \<lparr>out_replies = [Followup response], out_log = [], out_raised = None\<rparr>
                          | (Some e, a3) \<Rightarrow> legacy_clear_failed e a3))))))"

text \<open>Lines 102--115.\<close>

definition legacy_verify_command :: "answers \<Rightarrow> cmd_out" where
  "legacy_verify_command ans =
     (let failed = legacy_respond_error Followup ''An error occurred while providing verification information.''
                     [(ERROR, ''Verify command: An error occurred: '')] in
      case rest_call ans of
        (Some _, a1) \<Rightarrow> failed a1
      | (None, a1) \<Rightarrow>
          (case rest_call a1 of
             (None, _) \<Rightarrow>
               \<lparr>out_replies = [Deferred, Followup (''For more details on how to verify your purchase, '' @
                  ''please visit the **Verification** section in the <id:home> '' @ ''for further information.'')],
                out_log = [], out_raised = None\<rparr>
           | (Some _, a2) \<Rightarrow> prepend_reply Deferred (failed a2)))"

subsection \<open>Membership (lines 176--180 and 277--350)\<close>

definition legacy_update_bot_activity :: "nat option list \<Rightarrow> py_exc + string" where
  "legacy_update_bot_activity guild_counts =
     (case guild_counts of
        [] \<Rightarrow> Inl IndexError
      | c # _ \<Rightarrow>
          (case c of
             None \<Rightarrow> Inl TypeError
           | Some n \<Rightarrow> Inr (''over '' @ fmt_thousands n @ '' members'')))"

definition legacy_assign_role_to_member ::
  "role_id list \<Rightarrow> (member_id \<Rightarrow> bool) \<Rightarrow> gmember \<Rightarrow> role_id \<Rightarrow> assign_outcome \<times> log" where
  "legacy_assign_role_to_member guild_roles add_fails m role_id =
     (if gid m \<in> set [1200196215481041018, 1086954578764902481, 189771862610411524] then (Excluded, [])
      else if role_id \<notin> set guild_roles
      then (RoleNotFound, [(STDOUT, ''Role with ID '' @ py_str_int role_id @ '' not found.'')])
      else if role_id \<in> set (groles m) then (AlreadyHas, [])
      else if add_fails (gid m) then (AddFailed, [(STDOUT, ''Error assigning role to member'')])
      else (Added, [(STDOUT, ''Role has been added to member'')]))"

definition legacy_on_member_join ::
  "role_id list \<Rightarrow> (member_id \<Rightarrow> bool) \<Rightarrow> gmember \<Rightarrow> nat option list \<Rightarrow>
   (assign_outcome \<times> log) \<times> (py_exc + string)" where
  "legacy_on_member_join guild_roles add_fails m guild_counts =
     (legacy_assign_role_to_member guild_roles add_fails m 372378135557308427,
      legacy_update_bot_activity guild_counts)"

definition legacy_on_member_remove :: "nat option list \<Rightarrow> py_exc + string" where
  "legacy_on_member_remove guild_counts = legacy_update_bot_activity guild_counts"

definition legacy_check_and_assign_role ::
  "role_id list \<Rightarrow> (member_id \<Rightarrow> bool) \<Rightarrow> gmember list \<Rightarrow> role_id \<Rightarrow>
   (gmember \<times> assign_outcome) list \<times> log" where
  "legacy_check_and_assign_role guild_roles add_fails roster role_id =
     (if role_id \<notin> set guild_roles
      then ([], [(STDOUT, ''Role with ID '' @ py_str_int role_id @ '' not found.'')])
      else
        let visited = concat (sweep_pages roster None);
            results = map (\<lambda>m. legacy_assign_role_to_member guild_roles add_fails m role_id) visited
        in (zip visited (map fst results),
            concat (map snd results) @ [(STDOUT, ''Finished assigning roles to all members.'')]))"

fun legacy_periodic_role_check ::
  "(role_id list \<times> (member_id \<Rightarrow> bool) \<times> gmember list) option list \<Rightarrow>
   ((gmember \<times> assign_outcome) list \<times> log) list" where
  "legacy_periodic_role_check [] = []"
| "legacy_periodic_role_check (None # rest) = legacy_periodic_role_check rest"
| "legacy_periodic_role_check (Some (guild_roles, add_fails, roster) # rest) =
     legacy_check_and_assign_role guild_roles add_fails roster 372378135557308427 #
     legacy_periodic_role_check rest"


text \<open>The legacy prints what the package logs, on standard output.\<close>

definition to_stdout :: "log \<Rightarrow> log" where
  "to_stdout lg = map (\<lambda>(_, t). (STDOUT, t)) lg"

subsection \<open>The shared tables\<close>

lemma legacy_table: "legacy_role_to_channel = role_to_channel"
  by (simp add: legacy_role_to_channel_def role_to_channel_def)

lemma legacy_keys: "legacy_role_to_channel_keys = role_to_channel_keys"
  by (simp add: legacy_role_to_channel_keys_def role_to_channel_keys_def)

lemma legacy_mentions:
  "[''<#'' @ the (legacy_role_to_channel r) @ ''>''. r \<leftarrow> rl, r \<in> dom legacy_role_to_channel] =
   role_mentions role_to_channel rl"
  unfolding legacy_table by (induction rl) (auto simp: role_mentions_def split: option.splits)

lemma map_filter_eq_map: "map f [x \<leftarrow> xs. P x] = map f xs \<longleftrightarrow> (\<forall>x \<in> set xs. P x)"
proof (induction xs)
  case Nil
  then show ?case by simp
next
  case (Cons x xs)
  have "length [x \<leftarrow> xs. P x] \<le> length xs"
    by (rule length_filter_le)
  then have "map f [x \<leftarrow> xs. P x] \<noteq> f x # map f xs"
    by (metis Suc_n_not_le_n length_Cons length_map)
  with Cons show ?case
    by auto
qed

lemma legacy_role_selector_eq:
  "legacy_role_selector nm user ur roles rm = role_selector nm user roles rm \<longleftrightarrow>
   rm \<or> set roles \<inter> set ur = {}"
proof (cases rm)
  case True
  then show ?thesis
    by (simp add: legacy_role_selector_def role_selector_def)
next
  case False
  have opts: "[(nm r, py_str_int r). r \<leftarrow> roles, r \<notin> set ur] =
                map (\<lambda>r. (nm r, py_str_int r)) [r \<leftarrow> roles. r \<notin> set ur]"
    by (induction roles) auto
  have "legacy_role_selector nm user ur roles rm = role_selector nm user roles rm \<longleftrightarrow>
        map (\<lambda>r. (nm r, py_str_int r)) [r \<leftarrow> roles. r \<notin> set ur] = map (\<lambda>r. (nm r, py_str_int r)) roles"
    using False by (auto simp: legacy_role_selector_def role_selector_def opts dest: arg_cong [of _ _ length])
  also have "\<dots> \<longleftrightarrow> set roles \<inter> set ur = {}"
    by (auto simp: map_filter_eq_map)
  finally show ?thesis
    using False by simp
qed


lemma legacy_add_roles_disjoint:
  "set [k \<leftarrow> role_to_channel_keys. k \<in> set guild \<and> k \<notin> set ur] \<inter> set ur = {}"
  by auto

lemma to_stdout_Nil [simp]: "to_stdout [] = []"
  by (simp add: to_stdout_def)

lemma legacy_assign_stdout:
  "legacy_assign_role_to_member gr af m r = map_prod id to_stdout (assign_role_to_member gr af m r)"
  by (simp add: legacy_assign_role_to_member_def assign_role_to_member_def excluded_member_ids_def to_stdout_def)

lemma to_stdout_append [simp]: "to_stdout (xs @ ys) = to_stdout xs @ to_stdout ys"
  by (simp add: to_stdout_def)

lemma to_stdout_concat: "to_stdout (concat xss) = concat (map to_stdout xss)"
  by (induction xss) auto

lemma legacy_check_stdout:
  "legacy_check_and_assign_role gr af roster r = map_prod id to_stdout (check_and_assign_role gr af roster r)"
  by (simp add: legacy_check_and_assign_role_def check_and_assign_role_def legacy_assign_stdout Let_def
                to_stdout_concat comp_def to_stdout_def map_concat)

lemma legacy_activity: "legacy_update_bot_activity cs = update_bot_activity cs"
  by (simp add: legacy_update_bot_activity_def update_bot_activity_def)

lemma legacy_periodic_stdout:
  "legacy_periodic_role_check ws = map (map_prod id to_stdout) (periodic_role_check ws)"
  by (induction ws rule: periodic_role_check.induct) (simp_all add: legacy_check_stdout member_role_id_def id_def)

subsection \<open>Equivalence of the legacy bot with the package\<close>

text \<open>
  C28. The legacy announcement path is the package's: its event handler gives the same
  queue and spawn decision for every event and its flush the same pop; its
  notification builds the same embed and reaches the same outcome for every channel
  lookup, member, role list and send outcome, printing to standard output the texts
  the package logs; and its deletion task reports a failure exactly when the
  package's does.
\<close>

theorem legacy_announce_equiv:
  "legacy_on_member_update q m nr = on_member_update role_to_channel q m nr \<and>
   legacy_process_role_queue q m =
     (case process_role_queue q m of (roles, q') \<Rightarrow> (if roles \<noteq> [] then Some roles else None, q')) \<and>
   legacy_send_verification_message nm ch mbr rl now sr =
     map_sum id (map_prod id to_stdout) (send_verification_message role_to_channel nm ch mbr rl now sr) \<and>
   (legacy_delete_message_after_delay msg r = []) = (delete_message_after_delay msg r = [])"
proof -
  have queue: "legacy_on_member_update q m nr = on_member_update role_to_channel q m nr \<and>
   legacy_process_role_queue q m =
     (case process_role_queue q m of (roles, q') \<Rightarrow> (if roles \<noteq> [] then Some roles else None, q'))"
    unfolding legacy_on_member_update_def on_member_update_def added_roles_def unique_roles_def
              legacy_process_role_queue_def process_role_queue_def
    by (simp add: legacy_table domIff Let_def)
  have del: "(legacy_delete_message_after_delay msg r = []) = (delete_message_after_delay msg r = [])"
    by (simp add: legacy_delete_message_after_delay_def delete_message_after_delay_def
             split: option.splits http_exc.splits)
  have "legacy_send_verification_message nm ch mbr rl now sr =
          map_sum id (map_prod id to_stdout) (send_verification_message role_to_channel nm ch mbr rl now sr)"
    by (auto simp: legacy_send_verification_message_def send_verification_message_def
                   verification_embed_def verification_text_def description_of_def bold_def [abs_def]
                   legacy_mentions to_stdout_def Let_def comp_def
             split: option.splits sum.splits)
  with queue del show ?thesis
    by simp
qed

text \<open>
  C29. The legacy selector filters the roles the user holds out of an add selector;
  it builds the package's selector exactly when it is a remove selector or none of
  its roles is held.  Its callback acts exactly as the package's on every choice and
  every answer of Discord.
\<close>

theorem legacy_selector_equiv:
  "(legacy_role_selector nm user ur roles rm = role_selector nm user roles rm \<longleftrightarrow>
    rm \<or> set roles \<inter> set ur = {}) \<and>
   legacy_selector_callback sel guild values rs ans = selector_callback sel guild values rs ans"
  by (simp add: legacy_role_selector_eq legacy_selector_callback_def selector_callback_def Let_def)

text \<open>
  C30. The legacy selector filter never bites where the legacy bot uses it: when their
  response goes through, the legacy \<open>/add\<close> and \<open>/remove\<close> answer exactly as the
  package's; and on their paths without failures, the legacy \<open>/clear\<close> and
  \<open>/verify\<close> purge and answer exactly as the package's.
\<close>

theorem legacy_commands_equiv:
  "legacy_add_command nm guild user ur (None # rest) = add_command nm guild user ur (None # rest) \<and>
   legacy_remove_command nm guild user ur (None # rest) = remove_command nm guild user ur (None # rest) \<and>
   legacy_clear_command amount history (None # None # None # rest) =
     clear_command amount history (None # None # None # rest) \<and>
   legacy_verify_command (None # None # rest) = verify_command (None # None # rest)"
proof -
  have sel: "legacy_role_view nm user ur [k \<leftarrow> role_to_channel_keys. k \<in> set guild \<and> k \<notin> set ur] False =
             role_view nm user [k \<leftarrow> role_to_channel_keys. k \<in> set guild \<and> k \<notin> set ur] False"
    using legacy_role_selector_eq legacy_add_roles_disjoint
    by (simp add: legacy_role_view_def role_view_def)
  have sel': "legacy_role_view nm user ur roles True = role_view nm user roles True" for roles
    using legacy_role_selector_eq by (simp add: legacy_role_view_def role_view_def)
  have add: "legacy_add_command nm guild user ur (None # rest) = add_command nm guild user ur (None # rest)"
    unfolding legacy_add_command_def add_command_def legacy_keys add_roles_filter
    by (simp add: Let_def sel ROLE_ALREADY_HAVE_ALL_def SELECT_ROLES_TO_ADD_def)
  have rem: "legacy_remove_command nm guild user ur (None # rest) = remove_command nm guild user ur (None # rest)"
    unfolding legacy_remove_command_def remove_command_def legacy_keys
    by (simp add: Let_def sel' USER_DOES_NOT_HAVE_ROLES_def SELECT_ROLES_TO_REMOVE_def)
  have clr: "legacy_clear_command amount history (None # None # None # rest) =
               clear_command amount history (None # None # None # rest)"
    by (simp add: legacy_clear_command_def clear_command_def cleared_text_def prepend_reply_def Let_def
                  SPECIFY_NUMBER_GREATER_THAN_ZERO_def NO_MESSAGES_TO_CLEAR_def)
  have ver: "legacy_verify_command (None # None # rest) = verify_command (None # None # rest)"
    by (simp add: legacy_verify_command_def verify_command_def VERIFICATION_INFO_def)
  from add rem clr ver show ?thesis
    by simp
qed

text \<open>
  C31. The refactoring changed the error paths.  When the response of \<open>/add\<close> fails
  and the interaction's webhook is gone, the legacy handler's second response raises
  \<open>NotFound\<close>, while the package logs both failures and returns; and a failing
  \<open>/verify\<close> reports a verification-information error in the legacy bot, the
  role-modification message in the package.
\<close>

theorem legacy_error_paths_diverge:
  "out_raised (legacy_add_command nm guild user ur (Some e # Some NotFound # rest)) = Some NotFound \<and>
   add_command nm guild user ur (Some e # Some NotFound # rest) =
     \<lparr>out_replies = [], out_log = [(ERROR, ''Error in add command: ''), (ERROR, WEBHOOK_NOT_FOUND)],
      out_raised = None\<rparr> \<and>
   out_replies (legacy_verify_command (Some e' # None # rest')) =
     [Followup ''An error occurred while providing verification information.''] \<and>
   out_replies (verify_command (Some e' # None # rest')) = [Followup ''An error occurred while modifying roles.'']"
  by (simp add: legacy_add_command_def legacy_respond_error_def add_command_def followup_guarded_def Let_def
                legacy_verify_command_def verify_command_def ERROR_MODIFYING_ROLES_def)

text \<open>
  C32. Role assignment, the member sweep, the periodic check, the join handler and
  the presence text of the legacy bot give the package's results, printing to
  standard output the texts the package logs.
\<close>

theorem legacy_membership_equiv:
  "legacy_assign_role_to_member gr af m r = map_prod id to_stdout (assign_role_to_member gr af m r) \<and>
   legacy_check_and_assign_role gr af roster r = map_prod id to_stdout (check_and_assign_role gr af roster r) \<and>
   legacy_periodic_role_check ws = map (map_prod id to_stdout) (periodic_role_check ws) \<and>
   legacy_on_member_join gr af m cs = map_prod (map_prod id to_stdout) id (on_member_join gr af m cs) \<and>
   legacy_on_member_remove cs = on_member_remove cs"
  by (simp add: legacy_assign_stdout legacy_check_stdout legacy_periodic_stdout legacy_activity
                legacy_on_member_join_def on_member_join_def member_role_id_def
                legacy_on_member_remove_def on_member_remove_def)

end
