(* ===== verification/Entry.thy ===== *)
theory Entry
  imports Legacy
begin

text \<open>
  The entry points: src/main.py (\<open>main\<close> and its \<open>on_ready\<close> handler, which composes
  the presence text, the registration of the \<open>Commands\<close> cog, the startup message
  and the periodic sweep), the end of the legacy src/src/main.py (its
  \<open>on_ready\<close> and the final \<open>bot.run\<close>), and the module imports the entry
  point depends on.  Python loads a module when it finds it and every module it
  imports loads; the packages the code names from outside the repository (discord.py,
  python-dotenv and the standard library) are taken as installed, and the
  repository's modules are the files of src/ run with src/ on the path.  The names
  imported from a module are not modelled, only the modules.
\<close>

subsection \<open>Modules and their imports\<close>

definition installed_packages :: "string list" where
  "installed_packages =
     [''asyncio'', ''logging'', ''os'', ''datetime'', ''discord'', ''discord.ext'', ''discord.ui'', ''dotenv'']"

definition repo_modules :: "string list" where
  "repo_modules =
     [''main'', ''bot.bot_class'', ''bot.commands'', ''bot.messages'', ''bot.utils'', ''bot.verification'']"

text \<open>src/main.py lines 1--6.\<close>

definition main_imports :: "string list" where
  "main_imports = [''logging'', ''os'', ''dotenv'', ''discord'', ''bot.bot_class'', ''bot.commands'']"

text \<open>src/bot/commands.py lines 1--6.\<close>

definition commands_imports :: "string list" where
  "commands_imports = [''logging'', ''discord'', ''discord.ext'', ''bot.views'', ''bot.bot_class'', ''bot.messages'']"

text \<open>src/bot/bot_class.py lines 1--6.\<close>

definition bot_class_imports :: "string list" where
  "bot_class_imports = [''asyncio'', ''logging'', ''discord'', ''discord.ext'', ''bot.verification'', ''bot.messages'']"

text \<open>src/bot/utils.py lines 1--4.\<close>

definition utils_imports :: "string list" where
  "utils_imports = [''logging'', ''discord'', ''discord.ui'', ''discord'']"

text \<open>src/bot/verification.py lines 1--4.\<close>

definition verification_imports :: "string list" where
  "verification_imports = [''asyncio'', ''logging'', ''datetime'', ''discord'']"

definition module_imports :: "string \<Rightarrow> string list" where
  "module_imports m =
     (if m = ''main'' then main_imports
      else if m = ''bot.commands'' then commands_imports
      else if m = ''bot.bot_class'' then bot_class_imports
      else if m = ''bot.utils'' then utils_imports
      else if m = ''bot.verification'' then verification_imports
      else [])"

inductive loads :: "(string \<Rightarrow> string list) \<Rightarrow> string \<Rightarrow> bool" for imps where
  installed: "m \<in> set installed_packages \<Longrightarrow> loads imps m"
| source: "m \<in> set repo_modules \<Longrightarrow> list_all (loads imps) (imps m) \<Longrightarrow> loads imps m"

inductive_cases loads_elim: "loads imps m"

text \<open>Python's search of a module: a missing module raises \<open>ModuleNotFoundError\<close>.\<close>

definition module_found :: "string \<Rightarrow> bool" where
  "module_found m \<longleftrightarrow> m \<in> set installed_packages \<or> m \<in> set repo_modules"

subsection \<open>The packaged entry point (src/main.py)\<close>

text \<open>
  Lines 18--29.  The arguments are Discord's answers: the member counts of the bot's
  guilds, whether a cog named \<open>Commands\<close> is already loaded (\<open>on_ready\<close> runs
  again after a reconnection, and \<open>add_cog\<close> then raises \<open>ClientException\<close>), the
  answer of \<open>tree.sync\<close>, the startup channel's lookup and send, and the wake-ups of
  the periodic check.  An exception ends the handler.
\<close>

datatype ready_exc = ActivityFailed py_exc | CogAlreadyLoaded | SyncFailed http_exc

record ready_out =
  presence :: "string option"
  cog_added :: bool
  synced :: bool
  startup_posts :: "string list"
  sweeps :: "((gmember \<times> assign_outcome) list \<times> log) list"
  ready_log :: log
  ready_raised :: "ready_exc option"

definition ready_abort :: "string option \<Rightarrow> bool \<Rightarrow> log \<Rightarrow> ready_exc \<Rightarrow> ready_out" where
  "ready_abort p c lg e =
     \<lparr>presence = p, cog_added = c, synced = False, startup_posts = [], sweeps = [], ready_log = lg,
      ready_raised = Some e\<rparr>"

definition on_ready ::
  "nat option list \<Rightarrow> bool \<Rightarrow> http_exc option \<Rightarrow> bool \<Rightarrow> bool \<Rightarrow>
   (role_id list \<times> (member_id \<Rightarrow> bool) \<times> gmember list) option list \<Rightarrow> ready_out" where
  "on_ready guild_counts cog_loaded sync_result channel_found send_ok wakeups =
     (let lg0 = [(INFO, ''Bot is ready. Calling update_bot_activity and adding cogs.'')] in
      case update_bot_activity guild_counts of
        Inl e \<Rightarrow> ready_abort None False lg0 (ActivityFailed e)
      | Inr text \<Rightarrow>
          if cog_loaded then ready_abort (Some text) False lg0 CogAlreadyLoaded
          else (case sync_result of
            Some e \<Rightarrow> ready_abort (Some text) True lg0 (SyncFailed e)
          | None \<Rightarrow>
              (let (posts, slog) = send_startup_message channel_found send_ok in
                   \<lparr>presence = Some text, cog_added = True, synced = True, startup_posts = posts,
                    sweeps = periodic_role_check wakeups,
                    ready_log = lg0 @ [(INFO, ''Logged in as ''), (INFO, ''Calling send_startup_message'')] @
                      slog @ [(INFO, ''Finished calling send_startup_message''),
                              (INFO, ''Starting periodic role check task'')],
                    ready_raised = None\<rparr>)))"

text \<open>
  Lines 9--16 and 31--38: the token from the environment (\<open>None\<close> when unset), and
  the exception \<open>bot.run\<close> ends with, if any; the result is the log and whether
  the bot was run.  \<open>if not bot_token\<close> also rejects the empty string, and the
  \<open>except Exception\<close> clause logs whatever \<open>bot.run\<close> raises.
\<close>

definition main_entry :: "string option \<Rightarrow> py_exc option \<Rightarrow> log \<times> bool" where
  "main_entry token run_exc =
     (let missing = ([(ERROR, ''DISCORD_TOKEN is not set in the environment variables'')], False) in
      case token of
        None \<Rightarrow> missing
      | Some t \<Rightarrow>
          if t = [] then missing
          else case run_exc of
            Some e \<Rightarrow> ([(ERROR, ''Error running the bot: '')], True)
          | None \<Rightarrow> ([], True))"

subsection \<open>The legacy entry point (src/src/main.py)\<close>

text \<open>
  Lines 166--172: the same sequence without the startup message; the periodic check
  is awaited as a task.
\<close>

definition legacy_on_ready ::
  "nat option list \<Rightarrow> bool \<Rightarrow> http_exc option \<Rightarrow>
   (role_id list \<times> (member_id \<Rightarrow> bool) \<times> gmember list) option list \<Rightarrow> ready_out" where
  "legacy_on_ready guild_counts cog_loaded sync_result wakeups =
     (case legacy_update_bot_activity guild_counts of
        Inl e \<Rightarrow> ready_abort None False [] (ActivityFailed e)
      | Inr text \<Rightarrow>
          if cog_loaded then ready_abort (Some text) False [] CogAlreadyLoaded
          else (case sync_result of
            Some e \<Rightarrow> ready_abort (Some text) True [] (SyncFailed e)
          | None \<Rightarrow>
              \<lparr>presence = Some text, cog_added = True, synced = True, startup_posts = [],
               sweeps = legacy_periodic_role_check wakeups, ready_log = [], ready_raised = None\<rparr>))"

text \<open>
  Lines 352--354: \<open>bot.run(os.getenv('DISCORD_TOKEN'))\<close> at module level, with
  no guard and no handler.  discord.py's \<open>login\<close> rejects a token that is not a
  string with \<open>TypeError\<close>; any other exception of \<open>bot.run\<close> escapes as it is.
  The result is the exception that ends the script, if any.
\<close>

definition legacy_main :: "string option \<Rightarrow> py_exc option \<Rightarrow> py_exc option" where
  "legacy_main token run_exc =
     (case token of
        None \<Rightarrow> Some TypeError
      | Some t \<Rightarrow> run_exc)"

subsection \<open>Loading the entry point\<close>

lemma loads_found: "loads imps m \<Longrightarrow> module_found m"
  by (erule loads_elim) (simp_all add: module_found_def)

lemma loads_import:
  "loads imps m \<Longrightarrow> m \<notin> set installed_packages \<Longrightarrow> i \<in> set (imps m) \<Longrightarrow> loads imps i"
  by (erule loads_elim) (simp_all add: list_all_iff)

lemma loads_repo:
  "m \<in> set repo_modules \<Longrightarrow> list_all (loads imps) (imps m) \<Longrightarrow> loads imps m"
  by (rule loads.source)

lemma loads_installed: "m \<in> set installed_packages \<Longrightarrow> loads imps m"
  by (rule loads.installed)

lemmas module_tables =
  installed_packages_def repo_modules_def module_imports_def main_imports_def commands_imports_def
  bot_class_imports_def utils_imports_def verification_imports_def

lemma views_missing: "\<not> module_found ''bot.views''"
  by (simp add: module_found_def installed_packages_def repo_modules_def)

lemma main_needs_commands:
  "loads imps ''main'' \<Longrightarrow> ''bot.commands'' \<in> set (imps ''main'') \<Longrightarrow> loads imps ''bot.commands''"
  by (erule loads_import) (simp_all add: installed_packages_def)

text \<open>C36. The packaged bot cannot start: \<open>src/main.py\<close> imports \<open>bot.commands\<close>,
  which imports the module \<open>bot.views\<close>, and the repository has no such module, so
  loading \<open>main\<close> fails; with \<open>RoleView\<close> imported from \<open>bot.utils\<close>, where it is
  defined, every module the entry point needs loads.\<close>

theorem entry_imports_fail:
  "\<not> loads module_imports ''main'' \<and>
   loads (module_imports(''bot.commands'' := [''logging'', ''discord'', ''discord.ext'', ''bot.utils'',
                                             ''bot.bot_class'', ''bot.messages''])) ''main''"
proof
  have "\<not> loads module_imports ''bot.views''"
    using views_missing loads_found by blast
  then have "\<not> loads module_imports ''bot.commands''"
    using loads_import [of module_imports "''bot.commands''" "''bot.views''"]
    by (auto simp: module_tables)
  then show "\<not> loads module_imports ''main''"
    using main_needs_commands [of module_imports] by (auto simp: module_tables)
next
  show "loads (module_imports(''bot.commands'' := [''logging'', ''discord'', ''discord.ext'', ''bot.utils'',
                                             ''bot.bot_class'', ''bot.messages''])) ''main''"
    by (simp add: loads.simps [of _ "''main''"] loads.simps [of _ "''bot.commands''"] loads.simps [of _ "''bot.bot_class''"]
                  loads.simps [of _ "''bot.verification''"] loads.simps [of _ "''bot.messages''"] loads.simps [of _ "''bot.utils''"]
                  loads_installed module_tables)
qed

subsection \<open>The ready handler\<close>

lemma on_ready_cases:
  "on_ready cs cl sr cf ok ws =
     (case update_bot_activity cs of
        Inl e \<Rightarrow> ready_abort None False [(INFO, ''Bot is ready. Calling update_bot_activity and adding cogs.'')]
                   (ActivityFailed e)
      | Inr text \<Rightarrow>
          if cl \<or> sr \<noteq> None
          then ready_abort (Some text) (\<not> cl) [(INFO, ''Bot is ready. Calling update_bot_activity and adding cogs.'')]
                 (if cl then CogAlreadyLoaded else SyncFailed (the sr))
          else \<lparr>presence = Some text, cog_added = True, synced = True,
                startup_posts = fst (send_startup_message cf ok), sweeps = periodic_role_check ws,
                ready_log = ready_log (on_ready cs cl sr cf ok ws), ready_raised = None\<rparr>)"
  by (cases "update_bot_activity cs"; cases sr) (simp_all add: on_ready_def Let_def split: prod.split)

lemma ready_abort_fields [simp]:
  "ready_raised (ready_abort p c lg e) = Some e" "startup_posts (ready_abort p c lg e) = []"
  "sweeps (ready_abort p c lg e) = []" "cog_added (ready_abort p c lg e) = c"
  "presence (ready_abort p c lg e) = p" "synced (ready_abort p c lg e) = False"
  by (simp_all add: ready_abort_def)

text \<open>C37. \<open>on_ready\<close> stops at the first step that raises: a failed presence update
  (no guild, or a member count Discord has not sent), a \<open>Commands\<close> cog already
  registered by an earlier \<open>on_ready\<close>, or a failed command sync.  Then no startup
  message is posted and the periodic role check never starts; otherwise the startup
  message is the one \<open>send_startup_message\<close> posts and the sweeps are those of
  \<open>periodic_role_check\<close>.\<close>

theorem on_ready_outcome:
  "ready_raised (on_ready cs cl sr cf ok ws) =
     (case update_bot_activity cs of
        Inl e \<Rightarrow> Some (ActivityFailed e)
      | Inr _ \<Rightarrow> if cl then Some CogAlreadyLoaded else map_option SyncFailed sr) \<and>
   startup_posts (on_ready cs cl sr cf ok ws) =
     (if ready_raised (on_ready cs cl sr cf ok ws) = None then fst (send_startup_message cf ok) else []) \<and>
   sweeps (on_ready cs cl sr cf ok ws) =
     (if ready_raised (on_ready cs cl sr cf ok ws) = None then periodic_role_check ws else []) \<and>
   cog_added (on_ready cs cl sr cf ok ws) = (\<not> isl (update_bot_activity cs) \<and> \<not> cl) \<and>
   synced (on_ready cs cl sr cf ok ws) = (ready_raised (on_ready cs cl sr cf ok ws) = None)"
  by (subst (1 2 3 4 5 6 7 8) on_ready_cases, cases "update_bot_activity cs"; cases sr) simp_all

text \<open>C38. The legacy \<open>on_ready\<close> performs the same steps with the same errors but
  posts no startup message, logs nothing and prints its sweeps; its last line runs the
  bot with whatever the environment holds, so an unset \<open>DISCORD_TOKEN\<close> ends the script
  with \<open>TypeError\<close> where the package's \<open>main\<close> logs an error and returns, and any
  exception of \<open>bot.run\<close> escapes where the package logs it.\<close>

theorem legacy_entry_diverges:
  "legacy_on_ready cs cl sr ws =
     (on_ready cs cl sr cf ok ws)\<lparr>startup_posts := [],
        sweeps := map (map_prod id to_stdout) (sweeps (on_ready cs cl sr cf ok ws)), ready_log := []\<rparr> \<and>
   legacy_main None r = Some TypeError \<and>
   main_entry None r = ([(ERROR, ''DISCORD_TOKEN is not set in the environment variables'')], False) \<and>
   legacy_main (Some t) r = r \<and>
   main_entry (Some t) r =
     (if t = [] then ([(ERROR, ''DISCORD_TOKEN is not set in the environment variables'')], False)
      else (if r = None then [] else [(ERROR, ''Error running the bot: '')], True))"
proof -
  have "legacy_on_ready cs cl sr ws =
     (on_ready cs cl sr cf ok ws)\<lparr>startup_posts := [],
        sweeps := map (map_prod id to_stdout) (sweeps (on_ready cs cl sr cf ok ws)), ready_log := []\<rparr>"
    by (cases "update_bot_activity cs"; cases sr)
       (simp_all add: on_ready_def legacy_on_ready_def legacy_activity legacy_periodic_stdout ready_abort_def
                      Let_def split: prod.split)
  then show ?thesis
    by (cases r) (simp_all add: legacy_main_def main_entry_def)
qed

end
