(* ===== verification/Spec2Isabelle.thy ===== *)
theory Spec2Isabelle
  imports Simulation Entry
begin

text \<open>
  \<^bold>\<open>GlassyNET role-verification bot: a verified model.\<close>

  GlassyNET (src/) is a Discord moderation bot written against discord.py.  Its core
  announces role grants: when a member's roles change, \<open>on_member_update\<close>
  (src/bot/bot_class.py) collects the newly granted roles that appear in the
  \<open>role_to_channel\<close> table into the process-wide dict \<open>role_update_queue\<close>, and
  the first grant for a quiescent member spawns \<open>process_role_queue\<close>, which sleeps
  five seconds, pops the member's entry and hands the roles to
  \<open>send_verification_message\<close> (src/bot/verification.py).  That function builds one
  embed for all the roles and posts it; a task \<open>delete_message_after_delay\<close> deletes
  the message a day later.  Around the core are role assignment on join and a
  periodic sweep, the presence text, startup and shutdown messages, slash commands
  (src/bot/commands.py) and a role-selection view (src/bot/utils.py); src/main.py is
  the entry point and src/src/main.py an older single-file version of the bot.

  \<^bold>\<open>Library.\<close>
  \<^item> \<open>Prelude\<close>: the types of the model (ids are Python \<open>int\<close>s, roles are their
    ids because discord.py roles compare and hash by id), log levels, the Python
    builtins used (\<open>dict.get\<close>, \<open>dict.pop\<close>, \<open>str.join\<close>, \<open>str(int)\<close>), and
    \<open>set_enum\<close>, the orders in which Python may iterate over a set.
  \<^item> \<open>Calendar\<close>: the part of Python's \<open>datetime\<close> the footer uses, from
    Python's documentation: the UTC fields of an instant (\<open>utc_of\<close>, counting days
    off year by year and month by month, two terminating \<open>function\<close>s), their inverse
    \<open>epoch_of\<close>, \<open>strftime('%Y-%m-%d %H:%M:%S')\<close> and a reader of its output.
  \<^item> \<open>Queue\<close>: \<open>role_to_channel\<close>, \<open>on_member_update\<close> (the synchronous handler,
    returning the new queue and the spawn decision, with the aliasing of
    \<open>queued_roles\<close> written out), \<open>process_role_queue\<close> (the pop), the invariant
    \<open>queue_inv\<close> and the abstract contract (\<open>abs_queue\<close>, \<open>abs_enqueue\<close>,
    \<open>abs_drain\<close>: pending sets, enqueue as union, drain as reset).
  \<^item> \<open>Notifier\<close>: \<open>verification_text\<close>, \<open>verification_embed\<close>,
    \<open>send_verification_message\<close> with the collaborator's answers as inputs
    (channel lookup, avatar, \<open>channel.send\<close>), the footer's text
    \<open>footer_text\<close>, the ticket's
    \<open>delete_message_after_delay\<close> and the unused variant of bot_class.py, and
    \<open>english_list\<close>, the sentence the specification asks for.
  \<^item> \<open>Scheduler\<close>: the asyncio loop as the inductive relation \<open>bot_step\<close> over
    \<open>bot_state\<close>; the code between two \<open>await\<close>s is one step (\<open>member_update\<close>,
    \<open>settle\<close>, \<open>send_done\<close>, \<open>delete_fire\<close>), and the scheduler, other actors
    and Discord's answers are the relation's choices.  \<open>reachable\<close> is the set of
    states reachable from \<open>init_state\<close>; \<open>sched_inv\<close> its invariant.
  \<^item> \<open>Simulation\<close>: one deterministic schedule of that loop (\<open>run\<close>,
    \<open>advance\<close>, \<open>second\<close>, \<open>flush\<close>): every second the due tasks run in the order
    of the task list, Discord finds the channel and accepts every message, and events
    come at given instants, before the timers due at the same instant.  CPython's
    order of \<open>list(set(roles))\<close> is a parameter \<open>it\<close> of which only
    \<open>python_set_order\<close> is assumed: it enumerates the set without repetition.
  \<^item> \<open>Membership\<close>: \<open>assign_role_to_member\<close>, \<open>on_member_join\<close>,
    \<open>on_member_remove\<close>, the paging loop of \<open>check_and_assign_role\<close>
    (\<open>sweep_pages\<close>, a \<open>function\<close> whose termination measure is the number of
    members above the cursor), \<open>periodic_role_check\<close> over the sequence of
    wake-ups, \<open>update_bot_activity\<close> with Python's \<open>{n:,}\<close>
    (\<open>fmt_thousands\<close> of the prelude), and the startup and shutdown messages
    (\<open>send_startup_message\<close>, \<open>send_shutdown_message\<close>, \<open>close_bot\<close>).
  \<^item> \<open>Commands\<close>: the texts of src/bot/messages.py, the handlers \<open>add_command\<close>,
    \<open>remove_command\<close>, \<open>clear_command\<close> and \<open>verify_command\<close> of
    src/bot/commands.py, and the view of src/bot/utils.py (\<open>role_selector\<close>,
    \<open>role_view\<close>, \<open>selector_callback\<close> with its loops \<open>add_each\<close> and
    \<open>remove_each\<close>).  Discord's answer to each REST call is an input (\<open>answers\<close>,
    consumed in call order by \<open>rest_call\<close>), so every \<open>except\<close> branch is reachable;
    the result \<open>cmd_out\<close> records the replies, the log and an escaping exception.
    The prelude's \<open>py_int\<close> is Python's \<open>int()\<close> on strings.
  \<^item> \<open>Legacy\<close>: src/src/main.py, the single-file bot the package was refactored
    from, modelled from its own lines (\<open>legacy_on_member_update\<close>,
    \<open>legacy_send_verification_message\<close>, the legacy commands, selector and its
    callback, the membership handlers); its \<open>print\<close> output is logged at level
    \<open>STDOUT\<close>.
  \<^item> \<open>Entry\<close>: the entry points.  \<open>main_entry\<close> is \<open>main\<close> of src/main.py
    (the token check and the handler around \<open>bot.run\<close>), \<open>on_ready\<close> its
    handler, composing \<open>update_bot_activity\<close>, the registration of the cog, the
    command sync, \<open>send_startup_message\<close> and \<open>periodic_role_check\<close> with the
    exception each awaited call may raise (\<open>ready_exc\<close>); \<open>legacy_on_ready\<close> and
    \<open>legacy_main\<close> are the end of src/src/main.py.  The imports of each module
    (\<open>main_imports\<close>, \<open>commands_imports\<close>, ...) and the inductive \<open>loads\<close>
    (a module loads when Python finds it and all its imports load) model Python's
    import of the entry point.

  \<^bold>\<open>What is proved.\<close>
  Queue (C1--C6): the handler spawns a timer exactly on the empty-to-non-empty
  transition; it appends the eligible, not yet queued roles in arrival order; it keeps
  the queue invariant; enqueueing refines the abstract contract (pending sets, enqueue
  as union; the drain as reset is the lemma \<open>process_role_queue_refines\<close>); a
  repeated signal is a no-op; and the result does not depend on Python's set
  iteration order.  Notifier (C7--C11): the description is the specified English
  sentence, singular or plural; when all roles have destinations the embed has one
  field per role pairing the role's name with its own channel; a member without an
  avatar loses the notification to an \<open>AttributeError\<close>; the footer's date and
  time read back as the deletion instant to the second (the calendar lemmas
  \<open>utc_of_sound\<close> and \<open>utc_of_complete\<close> show \<open>utc_of\<close> a bijection between
  instants and valid fields); the ticket logs an error exactly for failures other
  than a vanished message.  Scheduler (C12--C16): every reachable state satisfies the
  invariant (one settling timer per member exactly while its entry is present,
  entries of distinct table roles); updates during a pending timer coalesce into it;
  a firing timer drains the current pending set into one notification; members are
  independent; and every embed in flight has at most one field per announced role
  and announces at most as many roles as the table has entries.  Membership
  (C17--C19): the member sweep terminates and visits the whole roster once in id
  order; it adds the role to exactly the members that are not excluded, lack it and
  whose request succeeds; the presence text is the member count as \<open>{n:,}\<close>
  prints it, a group of one to three digits then groups of three.  Commands
  (C20--C27): \<open>/add\<close> and \<open>/remove\<close> offer exactly the table's roles the user
  lacks or holds, in table order, and for one user their views split the table;
  every selector they send is well-formed for Discord (1 to 25 options with distinct
  values, bounds consistent); \<open>/clear\<close> deletes the \<open>min amount n\<close> newest
  messages and reports the count, and deletes nothing when the purge fails; the
  callback adds or removes exactly the chosen roles; adding is not atomic (a
  forbidden request leaves the earlier roles added); and a role deleted after the
  menu was sent stops either loop there with an unexpected-error reply, the earlier
  roles already changed.  Legacy (C28--C32): the old bot's queue, notification,
  membership handlers, selection callback and the success paths of its commands
  behave exactly as the package's; its add selector differs from the package's
  exactly when it would filter held roles, which the \<open>/add\<close> command never passes;
  the refactoring added the guard against a vanished webhook and changed the text of
  a failing \<open>/verify\<close>.  Simulation (C33--C35): two grants less than five seconds
  apart are announced once, after the five seconds, each role once, and nothing is
  sent before; without new events every pending grant is drained within six seconds
  of any reachable state; and the announcement is deleted a day later, leaving the
  bot idle.  The executor refines the transition system (lemma \<open>run_reachable\<close>),
  so C12--C16 hold along it.  Entry (C36--C38): src/main.py cannot be imported,
  because src/bot/commands.py imports \<open>bot.views\<close>, which the repository lacks,
  and importing \<open>RoleView\<close> from \<open>bot.utils\<close> repairs it; \<open>on_ready\<close> stops at
  its first failing step, and then posts no startup message and starts no sweep; the
  legacy \<open>on_ready\<close> differs only by the startup message and the output channel,
  and the legacy script crashes on an unset token where \<open>main\<close> logs it.

  \<^bold>\<open>Time and bounds.\<close>  The clock counts seconds; the settling delay (5) and the
  retention (86400) are the constants of the code.  The relation does not force a due
  timer to fire (a \<open>tick\<close> may pass it), which over-approximates asyncio's scheduling,
  so the safety properties hold for every interleaving; the deterministic schedule
  of \<open>Simulation\<close> makes due tasks run.  Its \<open>flush\<close> has fuel
  \<open>2 * length (tasks s) + 1\<close>: a due settling timer weighs two and leaves at most
  one send behind, a send weighs one and leaves a ticket due a day later, a due
  ticket weighs one; each task that runs lowers the weight of the due tasks, which is
  at most twice the number of tasks, so the flush always stops for want of due tasks,
  never of fuel (\<open>flush_runs_out\<close>, used by C34).  Every other
  definition is total by construction; the member sweep's loop is a \<open>function\<close>
  with a termination proof, its page size the code's \<open>limit = 1000\<close>.

  \<^bold>\<open>Not modelled.\<close>  Connection, event dispatch, command registration and the
  REST calls are discord.py's (their answers are inputs of the model); the clock is
  in whole seconds since the epoch (the footer prints no fraction); logging is
  modelled by level and fixed text, without the interpolated exception text.
  discord.py's \<open>fetch_members\<close> paging is modelled from its documentation (at
  most \<open>limit\<close> members above \<open>after\<close>, in id order), and its
  \<open>add_roles\<close>/\<open>remove_roles\<close> as one request per role; a failing purge is taken
  to delete nothing (one bulk request, exact up to 100 messages).  Command
  registration and the administrator check are discord.py's.  In the entry points,
  \<open>load_dotenv\<close>, the intents and the client constructor are library calls, and
  \<open>bot.run\<close> is represented by the exception it ends with; which names a module
  imports is not modelled, only which modules.  Python's module search is modelled by
  the lists of installed packages and of the repository's modules under src/.
\<close>

end
